theory Spec2Isabelle
  imports Main "HOL-Library.AList"
begin

section \<open>Errors\<close>

text \<open>
  A Go \<^verbatim>\<open>error\<close> value. \<open>NotFound\<close> is the provider's HTTP 404 answer,
  \<open>Failure\<close> any other error a call returns, \<open>Wrapf\<close> the result of
  \<^verbatim>\<open>errors.Wrapf(err, msg)\<close> (message first), \<open>UrlError\<close> the
  \<^verbatim>\<open>url.Error{Op, URL, Err}\<close> of package net/url, \<open>EscapeError\<close> the
  \<^verbatim>\<open>url.EscapeError\<close> of an invalid escape (its text is
  \<^verbatim>\<open>invalid URL escape\<close> followed by the quoted escape). \<open>NilPointerPanic\<close> is not a
  returned value: it stands for the run-time panic of dereferencing a nil pointer, which
  ends the call.
\<close>

datatype error =
    NotFound
  | Failure string
  | Wrapf string error
  | UrlError string string error
  | EscapeError string
  | NilPointerPanic

text \<open>
  Modelled from the spec: package \<^verbatim>\<open>cloud/gcperrors\<close> is not among the sources.
  The spec's error kind NotFound is the one \<^verbatim>\<open>IsNotFound\<close> recognises, and
  \<^verbatim>\<open>IgnoreNotFound\<close> turns it into success.
\<close>

definition IsNotFound :: "error \<Rightarrow> bool" where
  "IsNotFound err = (err = NotFound)"

definition IgnoreNotFound :: "error \<Rightarrow> error option" where
  "IgnoreNotFound err = (if IsNotFound err then None else Some err)"

section \<open>Provider resources\<close>

text \<open>The fields of the \<^verbatim>\<open>compute\<close> API types that the code reads or writes.\<close>

record network =
  Name :: string
  Description :: string
  AutoCreateSubnetworks :: bool
  SelfLink :: string
  Subnetworks :: "string list"
  ForceSendFields :: "string list"

record subnetwork =
  Name :: string
  Region :: string
  Network :: string
  IpCidrRange :: string
  EnableFlowLogs :: bool

record routerNat =
  Name :: string
  NatIpAllocateOption :: string
  SourceSubnetworkIpRangesToNat :: string

record router =
  Name :: string
  Description :: string
  Network :: string
  Nats :: "routerNat list"
  SelfLink :: string

record route =
  Name :: string
  Network :: string
  Description :: string

text \<open>\<^verbatim>\<open>meta.GlobalKey(name)\<close> and \<^verbatim>\<open>meta.RegionalKey(name, region)\<close>.\<close>

datatype key = GlobalKey string | RegionalKey string string

text \<open>\<^verbatim>\<open>filter.Regexp(field, pattern)\<close>.\<close>

datatype F = Regexp string string

text \<open>
  Package \<^verbatim>\<open>api\<close> (\<^verbatim>\<open>infrav1\<close>) is not among the sources. Its function
  \<^verbatim>\<open>ClusterTagKey\<close> and its constant \<^verbatim>\<open>APIServerRoleTagValue\<close> are
  parameters of the model.
\<close>

record infrav1 =
  ClusterTagKey :: "string \<Rightarrow> string"
  APIServerRoleTagValue :: string

text \<open>
  The status object \<^verbatim>\<open>infrav1.Network\<close> returned by \<^verbatim>\<open>scope.Network()\<close>.
  A nil pointer is \<open>None\<close>. The Go map \<^verbatim>\<open>FirewallRules\<close> is an association
  list with distinct keys (nil is the empty list); a \<^verbatim>\<open>range\<close> over it visits
  the keys in the order of the list, which stands for the order Go happens to choose.
\<close>

record NetworkStatus =
  SelfLink :: "string option"
  Router :: "string option"
  FirewallRules :: "(string \<times> string) list"

definition k8sNodeRouteTag :: string where
  "k8sNodeRouteTag = ''k8s-node-route''"

text \<open>\<^verbatim>\<open>strings.HasSuffix(s, suffix)\<close>.\<close>

definition HasSuffix :: "string \<Rightarrow> string \<Rightarrow> bool" where
  "HasSuffix s suffix =
     (length suffix \<le> length s \<and> drop (length s - length suffix) s = suffix)"

section \<open>Package networks: the service and its clients\<close>

text \<open>
  The methods of the \<^verbatim>\<open>Scope\<close> interface that the reconciler calls. They are
  inputs: their implementation is outside the sources.
\<close>

record Scope =
  Name :: string
  NetworkName :: string
  Region :: string
  IsSharedVpc :: bool
  NetworkSpec :: network
  SubnetworkSpec :: "subnetwork list"
  NatRouterSpec :: router

text \<open>
  \<^verbatim>\<open>Service\<close>: the scope and the four client interfaces of \<^verbatim>\<open>service.go\<close>.
  The provider is any state machine over a state \<open>'p\<close>: a client method takes the
  provider's state and returns its answer and the next state. \<^verbatim>\<open>Get\<close> answers
  \<open>Inl err\<close> (with a nil resource) or \<open>Inr resource\<close>; the other methods answer
  \<open>Some err\<close> or \<open>None\<close> for a nil error.
\<close>

record 'p Service =
  scope :: Scope
  networks_Get :: "key \<Rightarrow> 'p \<Rightarrow> (error + network) \<times> 'p"
  networks_Insert :: "key \<Rightarrow> network \<Rightarrow> 'p \<Rightarrow> error option \<times> 'p"
  networks_Delete :: "key \<Rightarrow> 'p \<Rightarrow> error option \<times> 'p"
  subnetworks_Get :: "key \<Rightarrow> 'p \<Rightarrow> (error + subnetwork) \<times> 'p"
  subnetworks_Insert :: "key \<Rightarrow> subnetwork \<Rightarrow> 'p \<Rightarrow> error option \<times> 'p"
  subnetworks_Delete :: "key \<Rightarrow> 'p \<Rightarrow> error option \<times> 'p"
  routers_Get :: "key \<Rightarrow> 'p \<Rightarrow> (error + router) \<times> 'p"
  routers_Insert :: "key \<Rightarrow> router \<Rightarrow> 'p \<Rightarrow> error option \<times> 'p"
  routers_Delete :: "key \<Rightarrow> 'p \<Rightarrow> error option \<times> 'p"
  routes_List :: "F \<Rightarrow> 'p \<Rightarrow> (error + route list) \<times> 'p"
  routes_Delete :: "key \<Rightarrow> 'p \<Rightarrow> error option \<times> 'p"

text \<open>The calls a run issues, in order, each with the error it returned.\<close>

datatype call =
    NetworksGet key
  | NetworksInsert key network
  | NetworksDelete key
  | SubnetworksGet key
  | SubnetworksInsert key subnetwork
  | SubnetworksDelete key
  | RoutersGet key
  | RoutersInsert key router
  | RoutersDelete key
  | RoutesList F
  | RoutesDelete key

text \<open>
  The state of a run: the provider, the mutable object the scope gives access to (for this
  package the status behind \<^verbatim>\<open>scope.Network()\<close>), and the log of calls issued
  so far.
\<close>

record ('p, 'c, 'g) run =
  world :: 'p
  status :: 'g
  calls :: "('c \<times> error option) list"

type_synonym 'p nrun = "('p, call, NetworkStatus) run"

definition errOf :: "error + 'a \<Rightarrow> error option" where
  "errOf r = (case r of Inl err \<Rightarrow> Some err | Inr _ \<Rightarrow> None)"

definition getCall ::
  "'c \<Rightarrow> ('p \<Rightarrow> (error + 'a) \<times> 'p) \<Rightarrow> ('p, 'c, 'g) run \<Rightarrow> (error + 'a) \<times> ('p, 'c, 'g) run" where
  "getCall c f st =
     (case f (world st) of
        (r, w) \<Rightarrow> (r, st\<lparr>world := w, calls := calls st @ [(c, errOf r)]\<rparr>))"

definition mutCall ::
  "'c \<Rightarrow> ('p \<Rightarrow> error option \<times> 'p) \<Rightarrow> ('p, 'c, 'g) run \<Rightarrow> error option \<times> ('p, 'c, 'g) run" where
  "mutCall c f st =
     (case f (world st) of
        (r, w) \<Rightarrow> (r, st\<lparr>world := w, calls := calls st @ [(c, r)]\<rparr>))"

definition do_networks_Get :: "'p Service \<Rightarrow> key \<Rightarrow> 'p nrun \<Rightarrow> (error + network) \<times> 'p nrun" where
  "do_networks_Get s k = getCall (NetworksGet k) (networks_Get s k)"

definition do_networks_Insert :: "'p Service \<Rightarrow> key \<Rightarrow> network \<Rightarrow> 'p nrun \<Rightarrow> error option \<times> 'p nrun" where
  "do_networks_Insert s k obj = mutCall (NetworksInsert k obj) (networks_Insert s k obj)"

definition do_networks_Delete :: "'p Service \<Rightarrow> key \<Rightarrow> 'p nrun \<Rightarrow> error option \<times> 'p nrun" where
  "do_networks_Delete s k = mutCall (NetworksDelete k) (networks_Delete s k)"

definition do_subnetworks_Get :: "'p Service \<Rightarrow> key \<Rightarrow> 'p nrun \<Rightarrow> (error + subnetwork) \<times> 'p nrun" where
  "do_subnetworks_Get s k = getCall (SubnetworksGet k) (subnetworks_Get s k)"

definition do_subnetworks_Insert :: "'p Service \<Rightarrow> key \<Rightarrow> subnetwork \<Rightarrow> 'p nrun \<Rightarrow> error option \<times> 'p nrun" where
  "do_subnetworks_Insert s k obj = mutCall (SubnetworksInsert k obj) (subnetworks_Insert s k obj)"

definition do_subnetworks_Delete :: "'p Service \<Rightarrow> key \<Rightarrow> 'p nrun \<Rightarrow> error option \<times> 'p nrun" where
  "do_subnetworks_Delete s k = mutCall (SubnetworksDelete k) (subnetworks_Delete s k)"

definition do_routers_Get :: "'p Service \<Rightarrow> key \<Rightarrow> 'p nrun \<Rightarrow> (error + router) \<times> 'p nrun" where
  "do_routers_Get s k = getCall (RoutersGet k) (routers_Get s k)"

definition do_routers_Insert :: "'p Service \<Rightarrow> key \<Rightarrow> router \<Rightarrow> 'p nrun \<Rightarrow> error option \<times> 'p nrun" where
  "do_routers_Insert s k obj = mutCall (RoutersInsert k obj) (routers_Insert s k obj)"

definition do_routers_Delete :: "'p Service \<Rightarrow> key \<Rightarrow> 'p nrun \<Rightarrow> error option \<times> 'p nrun" where
  "do_routers_Delete s k = mutCall (RoutersDelete k) (routers_Delete s k)"

definition do_routes_List :: "'p Service \<Rightarrow> F \<Rightarrow> 'p nrun \<Rightarrow> (error + route list) \<times> 'p nrun" where
  "do_routes_List s fl = getCall (RoutesList fl) (routes_List s fl)"

definition do_routes_Delete :: "'p Service \<Rightarrow> key \<Rightarrow> 'p nrun \<Rightarrow> error option \<times> 'p nrun" where
  "do_routes_Delete s k = mutCall (RoutesDelete k) (routes_Delete s k)"

section \<open>Package networks: Reconcile\<close>

text \<open>\<^verbatim>\<open>createOrGetNetwork\<close> (reconcile.go, lines 154-183).\<close>

definition createOrGetNetwork :: "'p Service \<Rightarrow> 'p nrun \<Rightarrow> (error + network) \<times> 'p nrun" where
  "createOrGetNetwork s st =
     (let networkKey = GlobalKey (NetworkName (scope s)) in
      case do_networks_Get s networkKey st of
        (Inr network, st1) \<Rightarrow> (Inr network, st1)
      | (Inl err, st1) \<Rightarrow>
          if \<not> IsNotFound err then (Inl err, st1)
          else if IsSharedVpc (scope s) then (Inl err, st1)
          else (case do_networks_Insert s networkKey (NetworkSpec (scope s)) st1 of
                  (Some err, st2) \<Rightarrow> (Inl err, st2)
                | (None, st2) \<Rightarrow> do_networks_Get s networkKey st2))"

text \<open>\<^verbatim>\<open>createOrGetSubNetwork\<close> (lines 186-210).\<close>

definition createOrGetSubNetwork ::
  "'p Service \<Rightarrow> subnetwork \<Rightarrow> 'p nrun \<Rightarrow> (error + subnetwork) \<times> 'p nrun" where
  "createOrGetSubNetwork s subnet st =
     (let subnetKey = RegionalKey (subnetwork.Name subnet) (subnetwork.Region subnet) in
      case do_subnetworks_Get s subnetKey st of
        (Inr subnetwork, st1) \<Rightarrow> (Inr subnetwork, st1)
      | (Inl err, st1) \<Rightarrow>
          if \<not> IsNotFound err then (Inl err, st1)
          else (case do_subnetworks_Insert s subnetKey subnet st1 of
                  (Some err, st2) \<Rightarrow> (Inl err, st2)
                | (None, st2) \<Rightarrow> do_subnetworks_Get s subnetKey st2))"

text \<open>\<^verbatim>\<open>createOrGetRouter\<close> (lines 213-245).\<close>

definition createOrGetRouter ::
  "infrav1 \<Rightarrow> 'p Service \<Rightarrow> network \<Rightarrow> 'p nrun \<Rightarrow> (error + router) \<times> 'p nrun" where
  "createOrGetRouter api s network st =
     (let spec = NatRouterSpec (scope s);
          routerKey = RegionalKey (router.Name spec) (Region (scope s)) in
      case do_routers_Get s routerKey st of
        (Inr router, st1) \<Rightarrow> (Inr router, st1)
      | (Inl err, st1) \<Rightarrow>
          if \<not> IsNotFound err then (Inl err, st1)
          else if IsSharedVpc (scope s) then (Inl err, st1)
          else (let spec' = spec\<lparr>router.Network := network.SelfLink network,
                                  router.Description := ClusterTagKey api (Scope.Name (scope s))\<rparr> in
                case do_routers_Insert s routerKey spec' st1 of
                  (Some err, st2) \<Rightarrow> (Inl err, st2)
                | (None, st2) \<Rightarrow> do_routers_Get s routerKey st2))"

text \<open>The loop over \<^verbatim>\<open>SubnetworkSpec()\<close> in \<^verbatim>\<open>Reconcile\<close> (lines 50-54).\<close>

fun reconcileSubnets :: "'p Service \<Rightarrow> subnetwork list \<Rightarrow> 'p nrun \<Rightarrow> error option \<times> 'p nrun" where
  "reconcileSubnets s [] st = (None, st)"
| "reconcileSubnets s (subnet # rest) st =
     (case createOrGetSubNetwork s subnet st of
        (Inl err, st1) \<Rightarrow> (Some err, st1)
      | (Inr _, st1) \<Rightarrow> reconcileSubnets s rest st1)"

text \<open>\<^verbatim>\<open>Service.Reconcile\<close> (lines 39-68).\<close>

definition Reconcile :: "infrav1 \<Rightarrow> 'p Service \<Rightarrow> 'p nrun \<Rightarrow> error option \<times> 'p nrun" where
  "Reconcile api s st =
     (case createOrGetNetwork s st of
        (Inl err, st1) \<Rightarrow> (Some err, st1)
      | (Inr network, st1) \<Rightarrow>
          (let st2 = st1\<lparr>status := (status st1)\<lparr>NetworkStatus.SelfLink := Some (network.SelfLink network)\<rparr>\<rparr> in
           case (if \<not> AutoCreateSubnetworks network
                 then reconcileSubnets s (SubnetworkSpec (scope s)) st2
                 else (None, st2)) of
             (Some err, st3) \<Rightarrow> (Some err, st3)
           | (None, st3) \<Rightarrow>
               (case (if network.Description network = ClusterTagKey api (Scope.Name (scope s))
                      then (case createOrGetRouter api s network st3 of
                              (Inl err, st4) \<Rightarrow> (Some err, st4)
                            | (Inr router, st4) \<Rightarrow>
                                (None, st4\<lparr>status := (status st4)\<lparr>Router := Some (router.SelfLink router)\<rparr>\<rparr>))
                      else (None, st3)) of
                  (Some err, st5) \<Rightarrow> (Some err, st5)
                | (None, st5) \<Rightarrow>
                    (None, st5\<lparr>status := (status st5)\<lparr>NetworkStatus.SelfLink := Some (network.SelfLink network)\<rparr>\<rparr>))))"

section \<open>Package networks: Delete\<close>

text \<open>The router step of \<^verbatim>\<open>Delete\<close> (lines 93-105).\<close>

definition deleteRouter :: "infrav1 \<Rightarrow> 'p Service \<Rightarrow> 'p nrun \<Rightarrow> error option \<times> 'p nrun" where
  "deleteRouter api s st =
     (let routerSpec = NatRouterSpec (scope s);
          routerKey = RegionalKey (router.Name routerSpec) (Region (scope s)) in
      case do_routers_Get s routerKey st of
        (Inl err, st1) \<Rightarrow> if \<not> IsNotFound err then (Some err, st1) else (None, st1)
      | (Inr router, st1) \<Rightarrow>
          if router.Description router = ClusterTagKey api (Scope.Name (scope s))
          then (case do_routers_Delete s routerKey st1 of
                  (Some err, st2) \<Rightarrow> if \<not> IsNotFound err then (Some err, st2) else (None, st2)
                | (None, st2) \<Rightarrow> (None, st2))
          else (None, st1))"

text \<open>The loop over \<^verbatim>\<open>SubnetworkSpec()\<close> in \<^verbatim>\<open>Delete\<close> (lines 109-121).\<close>

fun deleteSubnets :: "'p Service \<Rightarrow> subnetwork list \<Rightarrow> 'p nrun \<Rightarrow> error option \<times> 'p nrun" where
  "deleteSubnets s [] st = (None, st)"
| "deleteSubnets s (subnet # rest) st =
     (let subnetKey = RegionalKey (subnetwork.Name subnet) (subnetwork.Region subnet) in
      case do_subnetworks_Get s subnetKey st of
        (Inl err, st1) \<Rightarrow>
          if \<not> IsNotFound err then (Some err, st1) else deleteSubnets s rest st1
      | (Inr subnetwork, st1) \<Rightarrow>
          (case do_subnetworks_Delete s subnetKey st1 of
             (Some err, st2) \<Rightarrow> (Some err, st2)
           | (None, st2) \<Rightarrow> deleteSubnets s rest st2))"

text \<open>The loop over the listed routes (lines 132-141).\<close>

fun deleteRoutes :: "'p Service \<Rightarrow> route list \<Rightarrow> 'p nrun \<Rightarrow> error option \<times> 'p nrun" where
  "deleteRoutes s [] st = (None, st)"
| "deleteRoutes s (route # rest) st =
     (if HasSuffix (route.Network route) (NetworkName (scope s))
      then (case do_routes_Delete s (GlobalKey (route.Name route)) st of
              (Some err, st1) \<Rightarrow> (Some err, st1)
            | (None, st1) \<Rightarrow> deleteRoutes s rest st1)
      else deleteRoutes s rest st)"

text \<open>\<^verbatim>\<open>Service.Delete\<close> (lines 71-151).\<close>

definition Delete :: "infrav1 \<Rightarrow> 'p Service \<Rightarrow> 'p nrun \<Rightarrow> error option \<times> 'p nrun" where
  "Delete api s st =
     (if IsSharedVpc (scope s)
      then (None, st\<lparr>status := (status st)\<lparr>Router := None, NetworkStatus.SelfLink := None\<rparr>\<rparr>)
      else
        (let networkKey = GlobalKey (NetworkName (scope s)) in
         case do_networks_Get s networkKey st of
           (Inl err, st1) \<Rightarrow> (IgnoreNotFound err, st1)
         | (Inr network, st1) \<Rightarrow>
             if network.Description network \<noteq> ClusterTagKey api (Scope.Name (scope s))
             then (None, st1)
             else
               (case deleteRouter api s st1 of
                  (Some err, st2) \<Rightarrow> (Some err, st2)
                | (None, st2) \<Rightarrow>
                    (case (if \<not> AutoCreateSubnetworks network
                           then deleteSubnets s (SubnetworkSpec (scope s)) st2
                           else (None, st2)) of
                       (Some err, st3) \<Rightarrow> (Some err, st3)
                     | (None, st3) \<Rightarrow>
                         (case do_routes_List s (Regexp ''description'' k8sNodeRouteTag) st3 of
                            (Inl err, st4) \<Rightarrow> (Some err, st4)
                          | (Inr routeList, st4) \<Rightarrow>
                              (case deleteRoutes s routeList st4 of
                                 (Some err, st5) \<Rightarrow> (Some err, st5)
                               | (None, st5) \<Rightarrow>
                                   (case do_networks_Delete s networkKey st5 of
                                      (Some err, st6) \<Rightarrow> (Some err, st6)
                                    | (None, st6) \<Rightarrow>
                                        (None, st6\<lparr>status := (status st6)\<lparr>Router := None, NetworkStatus.SelfLink := None\<rparr>\<rparr>))))))))"

section \<open>Package compute: resources, scope and clients\<close>

record firewallAllowed =
  IPProtocol :: string
  Ports :: "string list"

record firewall =
  Name :: string
  Network :: string
  Allowed :: "firewallAllowed list"
  Direction :: string
  SourceRanges :: "string list"
  SourceTags :: "string list"
  TargetTags :: "string list"
  SelfLink :: string

record accessConfig =
  Type :: string
  Name :: string

record networkInterface =
  Network :: string
  AccessConfigs :: "accessConfig list"

record attachedDisk =
  AutoDelete :: bool
  Boot :: bool
  DiskSizeGb :: int
  DiskType :: string
  SourceImage :: string

record serviceAccount =
  Email :: string
  Scopes :: "string list"

record Instance =
  Name :: string
  Zone :: string
  MachineType :: string
  CanIpForward :: bool
  NetworkInterfaces :: "networkInterface list"
  Tags :: "string list"
  Disks :: "attachedDisk list"
  ServiceAccounts :: "serviceAccount list"
  SelfLink :: string
  Status :: string

text \<open>The handle \<^verbatim>\<open>*compute.Operation\<close> of an asynchronous call, by its name.\<close>

datatype operation = Operation string

text \<open>\<^verbatim>\<open>infrav1.SubnetSpec\<close>; \<^verbatim>\<open>EnableFlowLogs\<close> is a \<^verbatim>\<open>*bool\<close>.\<close>

record SubnetSpec =
  Name :: string
  Region :: string
  CidrBlock :: string
  EnableFlowLogs :: "bool option"

record BastionStatus =
  SelfLink :: "string option"
  InstanceStatus :: "string option"

text \<open>
  The fields of \<^verbatim>\<open>scope.GCPCluster\<close> that the package writes:
  \<^verbatim>\<open>Spec.Network.Name\<close>, \<^verbatim>\<open>Spec.Network.AutoCreateSubnetworks\<close>,
  \<^verbatim>\<open>Status.Network\<close> (the object behind \<^verbatim>\<open>scope.Network()\<close>) and
  \<^verbatim>\<open>Status.Bastion\<close>.
\<close>

record GCPCluster =
  Spec_Network_Name :: "string option"
  Spec_Network_AutoCreateSubnetworks :: "bool option"
  Status_Network :: NetworkStatus
  Status_Bastion :: BastionStatus

text \<open>
  The accessors of the cluster scope that the package calls. The scope is outside the
  sources, so they are inputs, fixed during a run; \<^verbatim>\<open>NetworkSelfLink()\<close> may read
  the cluster object and is a function of it.
\<close>

record ClusterScope =
  Name :: string
  Cluster_Name :: string
  Project :: string
  Region :: string
  NetworkName :: string
  Subnets :: "SubnetSpec list"
  LoadBalancerBackendPort :: int
  NetworkSelfLink :: "GCPCluster \<Rightarrow> string"

text \<open>
  The clients of the \<^verbatim>\<open>compute\<close> service, each \<^verbatim>\<open>X.M(args).Do()\<close> one method
  of the provider; a mutating method answers an operation or an error.

  Modelled from the spec: \<^verbatim>\<open>wait.ForComputeOperation\<close> (package cloud/wait) and
  \<^verbatim>\<open>runInstance\<close> are not among the sources. The wait blocks until the operation is
  terminal and returns nil or the error (4.2), so it is one method of the provider;
  \<^verbatim>\<open>runInstance\<close> creates the instance of the given spec (4.4) and is one method too,
  answering the instance (possibly nil) or an error.
\<close>

record 'p ComputeService =
  cscope :: ClusterScope
  networks_Get_Do :: "string \<Rightarrow> string \<Rightarrow> 'p \<Rightarrow> (error + network) \<times> 'p"
  networks_Insert_Do :: "string \<Rightarrow> network \<Rightarrow> 'p \<Rightarrow> (error + operation) \<times> 'p"
  networks_Delete_Do :: "string \<Rightarrow> string \<Rightarrow> 'p \<Rightarrow> (error + operation) \<times> 'p"
  subnetworks_Get_Do :: "string \<Rightarrow> string \<Rightarrow> string \<Rightarrow> 'p \<Rightarrow> (error + subnetwork) \<times> 'p"
  subnetworks_Insert_Do :: "string \<Rightarrow> string \<Rightarrow> subnetwork \<Rightarrow> 'p \<Rightarrow> (error + operation) \<times> 'p"
  subnetworks_Delete_Do :: "string \<Rightarrow> string \<Rightarrow> string \<Rightarrow> 'p \<Rightarrow> (error + operation) \<times> 'p"
  routers_Get_Do :: "string \<Rightarrow> string \<Rightarrow> string \<Rightarrow> 'p \<Rightarrow> (error + router) \<times> 'p"
  routers_Insert_Do :: "string \<Rightarrow> string \<Rightarrow> router \<Rightarrow> 'p \<Rightarrow> (error + operation) \<times> 'p"
  routers_Patch_Do :: "string \<Rightarrow> string \<Rightarrow> string \<Rightarrow> router \<Rightarrow> 'p \<Rightarrow> (error + operation) \<times> 'p"
  routers_Delete_Do :: "string \<Rightarrow> string \<Rightarrow> string \<Rightarrow> 'p \<Rightarrow> (error + operation) \<times> 'p"
  routes_List_Filter_Do :: "string \<Rightarrow> string \<Rightarrow> 'p \<Rightarrow> (error + route list) \<times> 'p"
  routes_Delete_Do :: "string \<Rightarrow> string \<Rightarrow> 'p \<Rightarrow> (error + operation) \<times> 'p"
  firewalls_Get_Do :: "string \<Rightarrow> string \<Rightarrow> 'p \<Rightarrow> (error + firewall) \<times> 'p"
  firewalls_Insert_Do :: "string \<Rightarrow> firewall \<Rightarrow> 'p \<Rightarrow> (error + operation) \<times> 'p"
  firewalls_Delete_Do :: "string \<Rightarrow> string \<Rightarrow> 'p \<Rightarrow> (error + operation) \<times> 'p"
  firewalls_List_Do :: "string \<Rightarrow> 'p \<Rightarrow> (error + firewall list) \<times> 'p"
  instances_Get_Do :: "string \<Rightarrow> string \<Rightarrow> string \<Rightarrow> 'p \<Rightarrow> (error + Instance) \<times> 'p"
  instances_Delete_Do :: "string \<Rightarrow> string \<Rightarrow> string \<Rightarrow> 'p \<Rightarrow> (error + operation) \<times> 'p"
  runInstance :: "Instance \<Rightarrow> 'p \<Rightarrow> (error + Instance option) \<times> 'p"
  ForComputeOperation :: "string \<Rightarrow> operation \<Rightarrow> 'p \<Rightarrow> error option \<times> 'p"

datatype apicall =
    NetworksGetDo string string
  | NetworksInsertDo string network
  | NetworksDeleteDo string string
  | SubnetworksGetDo string string string
  | SubnetworksInsertDo string string subnetwork
  | SubnetworksDeleteDo string string string
  | RoutersGetDo string string string
  | RoutersInsertDo string string router
  | RoutersPatchDo string string string router
  | RoutersDeleteDo string string string
  | RoutesListDo string string
  | RoutesDeleteDo string string
  | FirewallsGetDo string string
  | FirewallsInsertDo string firewall
  | FirewallsDeleteDo string string
  | FirewallsListDo string
  | InstancesGetDo string string string
  | InstancesDeleteDo string string string
  | RunInstance Instance
  | WaitForComputeOperation string operation

type_synonym 'p crun = "('p, apicall, GCPCluster) run"

definition do_networks_Get_Do ::
  "'p ComputeService \<Rightarrow> string \<Rightarrow> string \<Rightarrow> 'p crun \<Rightarrow> (error + network) \<times> 'p crun" where
  "do_networks_Get_Do s p n = getCall (NetworksGetDo p n) (networks_Get_Do s p n)"

definition do_networks_Insert_Do ::
  "'p ComputeService \<Rightarrow> string \<Rightarrow> network \<Rightarrow> 'p crun \<Rightarrow> (error + operation) \<times> 'p crun" where
  "do_networks_Insert_Do s p obj = getCall (NetworksInsertDo p obj) (networks_Insert_Do s p obj)"

definition do_networks_Delete_Do ::
  "'p ComputeService \<Rightarrow> string \<Rightarrow> string \<Rightarrow> 'p crun \<Rightarrow> (error + operation) \<times> 'p crun" where
  "do_networks_Delete_Do s p n = getCall (NetworksDeleteDo p n) (networks_Delete_Do s p n)"

definition do_subnetworks_Get_Do ::
  "'p ComputeService \<Rightarrow> string \<Rightarrow> string \<Rightarrow> string \<Rightarrow> 'p crun \<Rightarrow> (error + subnetwork) \<times> 'p crun" where
  "do_subnetworks_Get_Do s p r n = getCall (SubnetworksGetDo p r n) (subnetworks_Get_Do s p r n)"

definition do_subnetworks_Insert_Do ::
  "'p ComputeService \<Rightarrow> string \<Rightarrow> string \<Rightarrow> subnetwork \<Rightarrow> 'p crun \<Rightarrow> (error + operation) \<times> 'p crun" where
  "do_subnetworks_Insert_Do s p r obj =
     getCall (SubnetworksInsertDo p r obj) (subnetworks_Insert_Do s p r obj)"

definition do_subnetworks_Delete_Do ::
  "'p ComputeService \<Rightarrow> string \<Rightarrow> string \<Rightarrow> string \<Rightarrow> 'p crun \<Rightarrow> (error + operation) \<times> 'p crun" where
  "do_subnetworks_Delete_Do s p r n =
     getCall (SubnetworksDeleteDo p r n) (subnetworks_Delete_Do s p r n)"

definition do_routers_Get_Do ::
  "'p ComputeService \<Rightarrow> string \<Rightarrow> string \<Rightarrow> string \<Rightarrow> 'p crun \<Rightarrow> (error + router) \<times> 'p crun" where
  "do_routers_Get_Do s p r n = getCall (RoutersGetDo p r n) (routers_Get_Do s p r n)"

definition do_routers_Insert_Do ::
  "'p ComputeService \<Rightarrow> string \<Rightarrow> string \<Rightarrow> router \<Rightarrow> 'p crun \<Rightarrow> (error + operation) \<times> 'p crun" where
  "do_routers_Insert_Do s p r obj = getCall (RoutersInsertDo p r obj) (routers_Insert_Do s p r obj)"

definition do_routers_Patch_Do ::
  "'p ComputeService \<Rightarrow> string \<Rightarrow> string \<Rightarrow> string \<Rightarrow> router \<Rightarrow> 'p crun
     \<Rightarrow> (error + operation) \<times> 'p crun" where
  "do_routers_Patch_Do s p r n obj =
     getCall (RoutersPatchDo p r n obj) (routers_Patch_Do s p r n obj)"

definition do_routers_Delete_Do ::
  "'p ComputeService \<Rightarrow> string \<Rightarrow> string \<Rightarrow> string \<Rightarrow> 'p crun \<Rightarrow> (error + operation) \<times> 'p crun" where
  "do_routers_Delete_Do s p r n = getCall (RoutersDeleteDo p r n) (routers_Delete_Do s p r n)"

definition do_routes_List_Filter_Do ::
  "'p ComputeService \<Rightarrow> string \<Rightarrow> string \<Rightarrow> 'p crun \<Rightarrow> (error + route list) \<times> 'p crun" where
  "do_routes_List_Filter_Do s p fl = getCall (RoutesListDo p fl) (routes_List_Filter_Do s p fl)"

definition do_routes_Delete_Do ::
  "'p ComputeService \<Rightarrow> string \<Rightarrow> string \<Rightarrow> 'p crun \<Rightarrow> (error + operation) \<times> 'p crun" where
  "do_routes_Delete_Do s p n = getCall (RoutesDeleteDo p n) (routes_Delete_Do s p n)"

definition do_firewalls_Get_Do ::
  "'p ComputeService \<Rightarrow> string \<Rightarrow> string \<Rightarrow> 'p crun \<Rightarrow> (error + firewall) \<times> 'p crun" where
  "do_firewalls_Get_Do s p n = getCall (FirewallsGetDo p n) (firewalls_Get_Do s p n)"

definition do_firewalls_Insert_Do ::
  "'p ComputeService \<Rightarrow> string \<Rightarrow> firewall \<Rightarrow> 'p crun \<Rightarrow> (error + operation) \<times> 'p crun" where
  "do_firewalls_Insert_Do s p obj = getCall (FirewallsInsertDo p obj) (firewalls_Insert_Do s p obj)"

definition do_firewalls_Delete_Do ::
  "'p ComputeService \<Rightarrow> string \<Rightarrow> string \<Rightarrow> 'p crun \<Rightarrow> (error + operation) \<times> 'p crun" where
  "do_firewalls_Delete_Do s p n = getCall (FirewallsDeleteDo p n) (firewalls_Delete_Do s p n)"

definition do_firewalls_List_Do ::
  "'p ComputeService \<Rightarrow> string \<Rightarrow> 'p crun \<Rightarrow> (error + firewall list) \<times> 'p crun" where
  "do_firewalls_List_Do s p = getCall (FirewallsListDo p) (firewalls_List_Do s p)"

definition do_instances_Get_Do ::
  "'p ComputeService \<Rightarrow> string \<Rightarrow> string \<Rightarrow> string \<Rightarrow> 'p crun \<Rightarrow> (error + Instance) \<times> 'p crun" where
  "do_instances_Get_Do s p z n = getCall (InstancesGetDo p z n) (instances_Get_Do s p z n)"

definition do_instances_Delete_Do ::
  "'p ComputeService \<Rightarrow> string \<Rightarrow> string \<Rightarrow> string \<Rightarrow> 'p crun \<Rightarrow> (error + operation) \<times> 'p crun" where
  "do_instances_Delete_Do s p z n = getCall (InstancesDeleteDo p z n) (instances_Delete_Do s p z n)"

definition do_runInstance ::
  "'p ComputeService \<Rightarrow> Instance \<Rightarrow> 'p crun \<Rightarrow> (error + Instance option) \<times> 'p crun" where
  "do_runInstance s spec = getCall (RunInstance spec) (runInstance s spec)"

definition do_ForComputeOperation ::
  "'p ComputeService \<Rightarrow> string \<Rightarrow> operation \<Rightarrow> 'p crun \<Rightarrow> error option \<times> 'p crun" where
  "do_ForComputeOperation s p op =
     mutCall (WaitForComputeOperation p op) (ForComputeOperation s p op)"

text \<open>
  Modelled from the spec: \<^verbatim>\<open>checkOrWaitForDeleteOp(op, err)\<close> is called by the
  sources but defined outside them. By 4.1 and 4.3 a delete tolerates the target being
  already absent, and by 4.2 an error of the call itself is propagated without waiting:
  not-found is success, another error is returned, otherwise the operation is waited for.
\<close>

definition checkOrWaitForDeleteOp ::
  "'p ComputeService \<Rightarrow> error + operation \<Rightarrow> 'p crun \<Rightarrow> error option \<times> 'p crun" where
  "checkOrWaitForDeleteOp s r st =
     (case r of
        Inl err \<Rightarrow> if IsNotFound err then (None, st) else (Some err, st)
      | Inr op \<Rightarrow> do_ForComputeOperation s (Project (cscope s)) op st)"

section \<open>Package compute: network\<close>

definition setNetworkStatus :: "(NetworkStatus \<Rightarrow> NetworkStatus) \<Rightarrow> 'p crun \<Rightarrow> 'p crun" where
  "setNetworkStatus f st = st\<lparr>status := (status st)\<lparr>Status_Network := f (Status_Network (status st))\<rparr>\<rparr>"

definition getRouterName :: "string \<Rightarrow> string" where
  "getRouterName network = network @ ''-'' @ ''router''"

definition getRouterNatName :: "string \<Rightarrow> string" where
  "getRouterNatName network = network @ ''-'' @ ''nat''"

definition getNetworkSpec :: "infrav1 \<Rightarrow> 'p ComputeService \<Rightarrow> GCPCluster \<Rightarrow> network" where
  "getNetworkSpec api s cl =
     (let res = \<lparr>network.Name = NetworkName (cscope s),
                 Description = ClusterTagKey api (ClusterScope.Name (cscope s)),
                 AutoCreateSubnetworks = True,
                 SelfLink = [], Subnetworks = [], ForceSendFields = []\<rparr> in
      case Spec_Network_AutoCreateSubnetworks cl of
        None \<Rightarrow> res
      | Some b \<Rightarrow>
          (let res' = res\<lparr>AutoCreateSubnetworks := b\<rparr> in
           if \<not> AutoCreateSubnetworks res'
           then res'\<lparr>ForceSendFields := [''AutoCreateSubnetworks'']\<rparr>
           else res'))"

definition getRouterNatSpec :: "'p ComputeService \<Rightarrow> routerNat" where
  "getRouterNatSpec s =
     \<lparr>routerNat.Name = getRouterNatName (NetworkName (cscope s)),
      NatIpAllocateOption = ''AUTO_ONLY'',
      SourceSubnetworkIpRangesToNat = ''ALL_SUBNETWORKS_ALL_IP_RANGES''\<rparr>"

definition getRouterSpec :: "'p ComputeService \<Rightarrow> network \<Rightarrow> router" where
  "getRouterSpec s network =
     \<lparr>router.Name = getRouterName (network.Name network),
      Description = [],
      Network = network.SelfLink network,
      Nats = [getRouterNatSpec s],
      SelfLink = []\<rparr>"

text \<open>\<^verbatim>\<open>createCloudNat\<close>, lines 179-195: the router is fetched, or created and re-fetched.\<close>

definition getOrInsertNatRouter ::
  "'p ComputeService \<Rightarrow> network \<Rightarrow> 'p crun \<Rightarrow> (error + router) \<times> 'p crun" where
  "getOrInsertNatRouter s network st =
     (let project = Project (cscope s); region = Region (cscope s) in
      case do_routers_Get_Do s project region (getRouterName (NetworkName (cscope s))) st of
        (Inr router, st1) \<Rightarrow> (Inr router, st1)
      | (Inl err, st1) \<Rightarrow>
          if IsNotFound err
          then (let router = getRouterSpec s network in
                case do_routers_Insert_Do s project region router st1 of
                  (Inl err, st2) \<Rightarrow> (Inl (Wrapf ''failed to create router'' err), st2)
                | (Inr op, st2) \<Rightarrow>
                    (case do_ForComputeOperation s project op st2 of
                       (Some err, st3) \<Rightarrow>
                         (Inl (Wrapf ''failed to wait for create router operation'' err), st3)
                     | (None, st3) \<Rightarrow>
                         (case do_routers_Get_Do s project region (router.Name router) st3 of
                            (Inl err, st4) \<Rightarrow>
                              (Inl (Wrapf ''failed to get router after create'' err), st4)
                          | (Inr router', st4) \<Rightarrow> (Inr router', st4))))
          else (Inl (Wrapf ''failed to get routers'' err), st1))"

text \<open>\<^verbatim>\<open>createCloudNat\<close>, lines 197-206: the NAT configuration is patched in.\<close>

definition patchRouterNat :: "'p ComputeService \<Rightarrow> router \<Rightarrow> 'p crun \<Rightarrow> error option \<times> 'p crun" where
  "patchRouterNat s router st =
     (let project = Project (cscope s); region = Region (cscope s) in
      if length (Nats router) = 0
      then (let router' = router\<lparr>Nats := [getRouterNatSpec s]\<rparr> in
            case do_routers_Patch_Do s project region (router.Name router') router' st of
              (Inl err, st1) \<Rightarrow> (Some (Wrapf ''failed to patch router to create nat'' err), st1)
            | (Inr op, st1) \<Rightarrow>
                (case do_ForComputeOperation s project op st1 of
                   (Some err, st2) \<Rightarrow>
                     (Some (Wrapf ''failed to wait for patch router operation'' err), st2)
                 | (None, st2) \<Rightarrow> (None, st2)))
      else (None, st))"

text \<open>\<^verbatim>\<open>createCloudNat\<close> (lines 178-210).\<close>

definition createCloudNat :: "'p ComputeService \<Rightarrow> network \<Rightarrow> 'p crun \<Rightarrow> error option \<times> 'p crun" where
  "createCloudNat s network st =
     (case getOrInsertNatRouter s network st of
        (Inl err, st1) \<Rightarrow> (Some err, st1)
      | (Inr router, st1) \<Rightarrow>
          (case patchRouterNat s router st1 of
             (Some err, st2) \<Rightarrow> (Some err, st2)
           | (None, st2) \<Rightarrow>
               (None, setNetworkStatus (\<lambda>n. n\<lparr>Router := Some (router.SelfLink router)\<rparr>) st2)))"

text \<open>
  \<^verbatim>\<open>getSubnetworkSpec\<close>: \<^verbatim>\<open>*subnet.EnableFlowLogs\<close> dereferences a pointer, which
  panics when it is nil.
\<close>

definition getSubnetworkSpec ::
  "'p ComputeService \<Rightarrow> GCPCluster \<Rightarrow> SubnetSpec \<Rightarrow> error + subnetwork" where
  "getSubnetworkSpec s cl subnet =
     (case SubnetSpec.EnableFlowLogs subnet of
        None \<Rightarrow> Inl NilPointerPanic
      | Some b \<Rightarrow>
          Inr \<lparr>subnetwork.Name = SubnetSpec.Name subnet,
               Region = SubnetSpec.Region subnet,
               Network = NetworkSelfLink (cscope s) cl,
               IpCidrRange = CidrBlock subnet,
               EnableFlowLogs = b\<rparr>)"

text \<open>\<^verbatim>\<open>createSubnetworks\<close> (lines 246-268), the loop over \<^verbatim>\<open>scope.Subnets()\<close>.\<close>

fun createSubnetworks :: "'p ComputeService \<Rightarrow> SubnetSpec list \<Rightarrow> 'p crun \<Rightarrow> error option \<times> 'p crun" where
  "createSubnetworks s [] st = (None, st)"
| "createSubnetworks s (subnet # rest) st =
     (let project = Project (cscope s); region = Region (cscope s) in
      case do_subnetworks_Get_Do s project region (SubnetSpec.Name subnet) st of
        (Inr _, st1) \<Rightarrow> createSubnetworks s rest st1
      | (Inl err, st1) \<Rightarrow>
          if IsNotFound err
          then (case getSubnetworkSpec s (status st1) subnet of
                  Inl panic \<Rightarrow> (Some panic, st1)
                | Inr subnetSpec \<Rightarrow>
                    (case do_subnetworks_Insert_Do s project region subnetSpec st1 of
                       (Inl err, st2) \<Rightarrow> (Some (Wrapf ''failed to create subnetwork'' err), st2)
                     | (Inr op, st2) \<Rightarrow>
                         (case do_ForComputeOperation s project op st2 of
                            (Some err, st3) \<Rightarrow>
                              (Some (Wrapf ''failed to wait create subnetwork'' err), st3)
                          | (None, st3) \<Rightarrow>
                              (case do_subnetworks_Get_Do s project region
                                      (subnetwork.Name subnetSpec) st3 of
                                 (Inl err, st4) \<Rightarrow>
                                   (Some (Wrapf ''failed to describe subnetwork'' err), st4)
                               | (Inr _, st4) \<Rightarrow> createSubnetworks s rest st4))))
          else (Some (Wrapf ''failed to describe subnetwork'' err), st1))"

text \<open>
  \<^verbatim>\<open>ReconcileNetwork\<close>, lines 59-78: the network is fetched, or created and
  re-fetched; the flag is \<^verbatim>\<open>autoCreateCloudNat\<close>.
\<close>

definition getOrInsertNetwork ::
  "'p ComputeService \<Rightarrow> network \<Rightarrow> 'p crun \<Rightarrow> (error + network \<times> bool) \<times> 'p crun" where
  "getOrInsertNetwork s spec st =
     (let project = Project (cscope s) in
      case do_networks_Get_Do s project (network.Name spec) st of
        (Inr network, st1) \<Rightarrow> (Inr (network, False), st1)
      | (Inl err, st1) \<Rightarrow>
          if IsNotFound err
          then (case do_networks_Insert_Do s project spec st1 of
                  (Inl err, st2) \<Rightarrow> (Inl (Wrapf ''failed to create network'' err), st2)
                | (Inr op, st2) \<Rightarrow>
                    (case do_ForComputeOperation s project op st2 of
                       (Some err, st3) \<Rightarrow> (Inl (Wrapf ''failed to create network'' err), st3)
                     | (None, st3) \<Rightarrow>
                         (case do_networks_Get_Do s project (network.Name spec) st3 of
                            (Inl err, st4) \<Rightarrow>
                              (Inl (Wrapf ''failed to describe network'' err), st4)
                          | (Inr network, st4) \<Rightarrow> (Inr (network, True), st4))))
          else (Inl (Wrapf ''failed to describe network'' err), st1))"

text \<open>\<^verbatim>\<open>Service.ReconcileNetwork\<close> (lines 57-98).\<close>

definition ReconcileNetwork :: "infrav1 \<Rightarrow> 'p ComputeService \<Rightarrow> 'p crun \<Rightarrow> error option \<times> 'p crun" where
  "ReconcileNetwork api s st =
     (case getOrInsertNetwork s (getNetworkSpec api s (status st)) st of
        (Inl err, st1) \<Rightarrow> (Some err, st1)
      | (Inr (network, autoCreateCloudNat), st1) \<Rightarrow>
          (case (if autoCreateCloudNat
                 then (case createCloudNat s network st1 of
                         (Some err, st2) \<Rightarrow>
                           (Some (Wrapf ''failed to create cloudnat gateway'' err), st2)
                       | (None, st2) \<Rightarrow> (None, st2))
                 else (None, st1)) of
             (Some err, st3) \<Rightarrow> (Some err, st3)
           | (None, st3) \<Rightarrow>
               (let st4 = st3\<lparr>status := (status st3)
                             \<lparr>Spec_Network_Name := Some (network.Name network),
                              Spec_Network_AutoCreateSubnetworks :=
                                Some (AutoCreateSubnetworks network)\<rparr>\<rparr>;
                    st5 = setNetworkStatus (\<lambda>n. n\<lparr>NetworkStatus.SelfLink := Some (network.SelfLink network)\<rparr>) st4 in
                if \<not> AutoCreateSubnetworks network
                then createSubnetworks s (Subnets (cscope s)) st5
                else (None, st5))))"

text \<open>\<^verbatim>\<open>strings.Split(s, sep)\<close> for a one-byte separator.\<close>

fun Split :: "string \<Rightarrow> char \<Rightarrow> string list" where
  "Split [] sep = [[]]"
| "Split (c # cs) sep =
     (if c = sep then [] # Split cs sep
      else (case Split cs sep of [] \<Rightarrow> [[c]] | x # xs \<Rightarrow> (c # x) # xs))"

definition getSubnetNameFromUrl :: "string \<Rightarrow> string" where
  "getSubnetNameFromUrl subnetUrl =
     (let splitSlice = Split subnetUrl CHR ''/'' in
      if length splitSlice > 0 then splitSlice ! (length splitSlice - 1) else [])"

text \<open>\<^verbatim>\<open>deleteSubnetworks\<close> (lines 270-284).\<close>

fun deleteSubnetworks :: "'p ComputeService \<Rightarrow> string list \<Rightarrow> 'p crun \<Rightarrow> error option \<times> 'p crun" where
  "deleteSubnetworks s [] st = (None, st)"
| "deleteSubnetworks s (subnet # rest) st =
     (let subnetName = getSubnetNameFromUrl subnet in
      if subnetName \<noteq> []
      then (case do_subnetworks_Delete_Do s (Project (cscope s)) (Region (cscope s)) subnetName st of
              (Inl err, st1) \<Rightarrow> (Some (Wrapf (''failed to delete subnetwork '' @ subnet) err), st1)
            | (Inr op, st1) \<Rightarrow>
                (case do_ForComputeOperation s (Project (cscope s)) op st1 of
                   (Some err, st2) \<Rightarrow>
                     (Some (Wrapf (''failed to wait delete subnetwork '' @ subnet) err), st2)
                 | (None, st2) \<Rightarrow> deleteSubnetworks s rest st2))
      else deleteSubnetworks s rest st)"

text \<open>The router step of \<^verbatim>\<open>DeleteNetwork\<close> (lines 133-143).\<close>

definition deleteNetworkRouter :: "'p ComputeService \<Rightarrow> 'p crun \<Rightarrow> error option \<times> 'p crun" where
  "deleteNetworkRouter s st =
     (let project = Project (cscope s); region = Region (cscope s) in
      case do_routers_Get_Do s project region (getRouterName (NetworkName (cscope s))) st of
        (Inr router, st1) \<Rightarrow>
          (case do_routers_Delete_Do s project region (router.Name router) st1 of
             (r, st2) \<Rightarrow>
               (case checkOrWaitForDeleteOp s r st2 of
                  (Some opErr, st3) \<Rightarrow> (Some (Wrapf ''failed to delete router'' opErr), st3)
                | (None, st3) \<Rightarrow> (None, st3)))
      | (Inl err, st1) \<Rightarrow>
          if \<not> IsNotFound err
          then (Some (Wrapf ''failed to get router to delete'' err), st1)
          else (None, st1))"

text \<open>The loop over the listed routes (lines 152-160).\<close>

fun deleteNetworkRoutes ::
  "'p ComputeService \<Rightarrow> network \<Rightarrow> route list \<Rightarrow> 'p crun \<Rightarrow> error option \<times> 'p crun" where
  "deleteNetworkRoutes s network [] st = (None, st)"
| "deleteNetworkRoutes s network (route # rest) st =
     (if HasSuffix (route.Network route) (network.Name network)
      then (case do_routes_Delete_Do s (Project (cscope s)) (route.Name route) st of
              (r, st1) \<Rightarrow>
                (case checkOrWaitForDeleteOp s r st1 of
                   (Some opErr, st2) \<Rightarrow> (Some (Wrapf ''failed to delete route'' opErr), st2)
                 | (None, st2) \<Rightarrow> deleteNetworkRoutes s network rest st2))
      else deleteNetworkRoutes s network rest st)"

text \<open>
  \<^verbatim>\<open>Service.DeleteNetwork\<close> (lines 121-176). After an error of \<^verbatim>\<open>Get\<close> other than
  not-found the network is nil, and reading its description panics.
\<close>

definition DeleteNetwork :: "infrav1 \<Rightarrow> 'p ComputeService \<Rightarrow> 'p crun \<Rightarrow> error option \<times> 'p crun" where
  "DeleteNetwork api s st =
     (let project = Project (cscope s) in
      case do_networks_Get_Do s project (NetworkName (cscope s)) st of
        (Inl err, st1) \<Rightarrow> if IsNotFound err then (None, st1) else (Some NilPointerPanic, st1)
      | (Inr network, st1) \<Rightarrow>
          if network.Description network \<noteq> ClusterTagKey api (ClusterScope.Name (cscope s))
          then (None, st1)
          else
            (case deleteNetworkRouter s st1 of
               (Some err, st2) \<Rightarrow> (Some err, st2)
             | (None, st2) \<Rightarrow>
                 (let filterString = ''description='' @ k8sNodeRouteTag @ '' name=''
                                       @ ClusterScope.Name (cscope s) @ ''-*'' in
                  case do_routes_List_Filter_Do s project filterString st2 of
                    (Inl err, st3) \<Rightarrow>
                      (Some (Wrapf ''failed to list routes for the cluster'' err), st3)
                  | (Inr routeList, st3) \<Rightarrow>
                      (case deleteNetworkRoutes s network routeList st3 of
                         (Some err, st4) \<Rightarrow> (Some err, st4)
                       | (None, st4) \<Rightarrow>
                           (case (if \<not> AutoCreateSubnetworks network
                                  then deleteSubnetworks s (Subnetworks network) st4
                                  else (None, st4)) of
                              (Some err, st5) \<Rightarrow> (Some err, st5)
                            | (None, st5) \<Rightarrow>
                                (case do_networks_Delete_Do s project (network.Name network) st5 of
                                   (r, st6) \<Rightarrow>
                                     (case checkOrWaitForDeleteOp s r st6 of
                                        (Some opErr, st7) \<Rightarrow>
                                          (Some (Wrapf ''failed to delete network'' opErr), st7)
                                      | (None, st7) \<Rightarrow>
                                          (None, st7\<lparr>status := (status st7)
                                                       \<lparr>Spec_Network_Name := None\<rparr>\<rparr>))))))))"

section \<open>Go library functions used by package compute\<close>

text \<open>
  These functions belong to Go's standard library, not to the repository. They are
  modelled after the library's documented behaviour, on bytes.
\<close>

text \<open>\<^verbatim>\<open>path.Base\<close>: the last element of a slash-separated path.\<close>

definition path_Base :: "string \<Rightarrow> string" where
  "path_Base p =
     (if p = [] then ''.''
      else (let stripped = rev (dropWhile (\<lambda>c. c = CHR ''/'') (rev p));
                lastElem = rev (takeWhile (\<lambda>c. c \<noteq> CHR ''/'') (rev stripped)) in
            if lastElem = [] then ''/'' else lastElem))"

text \<open>\<^verbatim>\<open>strings.Cut(s, sep)\<close> for a one-byte separator: the text before and after its first occurrence.\<close>

definition Cut :: "string \<Rightarrow> char \<Rightarrow> string \<times> string" where
  "Cut s sep = (takeWhile (\<lambda>c. c \<noteq> sep) s, drop 1 (dropWhile (\<lambda>c. c \<noteq> sep) s))"

definition HasPrefix :: "string \<Rightarrow> string \<Rightarrow> bool" where
  "HasPrefix s prefix = (take (length prefix) s = prefix)"

record URL =
  Scheme :: string
  Opaque :: string
  Path :: string
  RawQuery :: string
  Fragment :: string

definition isLetter :: "char \<Rightarrow> bool" where
  "isLetter c = (let n = (of_char c :: nat) in (97 \<le> n \<and> n \<le> 122) \<or> (65 \<le> n \<and> n \<le> 90))"

definition isDigit :: "char \<Rightarrow> bool" where
  "isDigit c = (let n = (of_char c :: nat) in 48 \<le> n \<and> n \<le> 57)"

definition ishex :: "char \<Rightarrow> bool" where
  "ishex c = (let n = (of_char c :: nat) in
                (48 \<le> n \<and> n \<le> 57) \<or> (97 \<le> n \<and> n \<le> 102) \<or> (65 \<le> n \<and> n \<le> 70))"

definition unhex :: "char \<Rightarrow> nat" where
  "unhex c = (let n = (of_char c :: nat) in
                if 48 \<le> n \<and> n \<le> 57 then n - 48
                else if 97 \<le> n \<and> n \<le> 102 then n - 97 + 10
                else if 65 \<le> n \<and> n \<le> 70 then n - 65 + 10
                else 0)"

definition toLower :: "char \<Rightarrow> char" where
  "toLower c = (let n = (of_char c :: nat) in if 65 \<le> n \<and> n \<le> 90 then char_of (n + 32) else c)"

text \<open>\<^verbatim>\<open>stringContainsCTLByte\<close>: a byte below 0x20 or the byte 0x7f.\<close>

definition stringContainsCTLByte :: "string \<Rightarrow> bool" where
  "stringContainsCTLByte s = list_ex (\<lambda>c. (of_char c :: nat) < 32 \<or> (of_char c :: nat) = 127) s"

text \<open>
  \<^verbatim>\<open>unescape\<close> in the modes of a path and of a fragment: \<open>%XX\<close> becomes the byte
  \<open>XX\<close>, and a \<open>%\<close> not followed by two hexadecimal digits is the
  \<^verbatim>\<open>EscapeError\<close> of that escape, cut to three bytes.
\<close>

fun unescape :: "string \<Rightarrow> error + string" where
  "unescape [] = Inr []"
| "unescape (c # cs) =
     (if c = CHR ''%''
      then (case cs of
              a # b # rest \<Rightarrow>
                if ishex a \<and> ishex b
                then (case unescape rest of
                        Inl err \<Rightarrow> Inl err
                      | Inr t \<Rightarrow> Inr (char_of (16 * unhex a + unhex b) # t))
                else Inl (EscapeError (take 3 (c # cs)))
            | _ \<Rightarrow> Inl (EscapeError (take 3 (c # cs))))
      else (case unescape cs of Inl err \<Rightarrow> Inl err | Inr t \<Rightarrow> Inr (c # t)))"

text \<open>\<^verbatim>\<open>getScheme\<close>: the scheme before the first colon, if the text before it is one.\<close>

fun getScheme_from :: "string \<Rightarrow> string \<Rightarrow> string \<Rightarrow> error + string \<times> string" where
  "getScheme_from rawURL seen [] = Inr ([], rawURL)"
| "getScheme_from rawURL seen (c # cs) =
     (if isLetter c then getScheme_from rawURL (seen @ [c]) cs
      else if isDigit c \<or> c = CHR ''+'' \<or> c = CHR ''-'' \<or> c = CHR ''.''
      then (if seen = [] then Inr ([], rawURL) else getScheme_from rawURL (seen @ [c]) cs)
      else if c = CHR '':''
      then (if seen = [] then Inl (Failure ''missing protocol scheme'') else Inr (seen, cs))
      else Inr ([], rawURL))"

definition getScheme :: "string \<Rightarrow> error + string \<times> string" where
  "getScheme rawURL = getScheme_from rawURL [] rawURL"

text \<open>
  \<^verbatim>\<open>url.Parse\<close>, as far as the fields of \<open>URL\<close> go. The user and host of an
  authority are not modelled: \<open>parseAuthority\<close>, the validation of an authority
  (\<open>Some err\<close> when it is rejected), is a parameter.
\<close>

definition url_parse :: "(string \<Rightarrow> error option) \<Rightarrow> string \<Rightarrow> error + URL" where
  "url_parse parseAuthority rawURL =
     (if stringContainsCTLByte rawURL
      then Inl (Failure ''net/url: invalid control character in URL'')
      else if rawURL = ''*''
      then Inr \<lparr>Scheme = [], Opaque = [], Path = ''*'', RawQuery = [], Fragment = []\<rparr>
      else
        (case getScheme rawURL of
           Inl err \<Rightarrow> Inl err
         | Inr (scheme0, rest0) \<Rightarrow>
             (let scheme = map toLower scheme0;
                  (rest, rawQuery) =
                     (if HasSuffix rest0 ''?'' \<and> count_list rest0 CHR ''?'' = 1
                      then (butlast rest0, [])
                      else Cut rest0 CHR ''?'') in
              if \<not> HasPrefix rest ''/'' \<and> scheme \<noteq> []
              then Inr \<lparr>Scheme = scheme, Opaque = rest, Path = [], RawQuery = rawQuery, Fragment = []\<rparr>
              else if \<not> HasPrefix rest ''/'' \<and> CHR '':'' \<in> set (fst (Cut rest CHR ''/''))
              then Inl (Failure ''first path segment in URL cannot contain colon'')
              else
                (case (if HasPrefix rest ''//'' \<and> (if scheme \<noteq> [] then True else \<not> HasPrefix rest ''///'')
                       then (let authority = takeWhile (\<lambda>c. c \<noteq> CHR ''/'') (drop 2 rest);
                                 rest' = dropWhile (\<lambda>c. c \<noteq> CHR ''/'') (drop 2 rest) in
                             case parseAuthority authority of
                               Some err \<Rightarrow> Inl err
                             | None \<Rightarrow> Inr rest')
                       else Inr rest) of
                   Inl err \<Rightarrow> Inl err
                 | Inr p \<Rightarrow>
                     (case unescape p of
                        Inl err \<Rightarrow> Inl err
                      | Inr path \<Rightarrow>
                          Inr \<lparr>Scheme = scheme, Opaque = [], Path = path,
                               RawQuery = rawQuery, Fragment = []\<rparr>)))))"

definition url_Parse :: "(string \<Rightarrow> error option) \<Rightarrow> string \<Rightarrow> error + URL" where
  "url_Parse parseAuthority rawURL =
     (let (u, frag) = Cut rawURL CHR ''#'' in
      case url_parse parseAuthority u of
        Inl err \<Rightarrow> Inl (UrlError ''parse'' u err)
      | Inr url \<Rightarrow>
          if frag = [] then Inr url
          else (case unescape frag of
                  Inl err \<Rightarrow> Inl (UrlError ''parse'' rawURL err)
                | Inr f \<Rightarrow> Inr (url\<lparr>Fragment := f\<rparr>)))"

text \<open>\<^verbatim>\<open>strconv.FormatInt(i, 10)\<close>.\<close>

fun FormatNat :: "nat \<Rightarrow> string" where
  "FormatNat n =
     (if n < 10 then [char_of (48 + n)] else FormatNat (n div 10) @ [char_of (48 + n mod 10)])"

declare FormatNat.simps [simp del]

definition FormatInt :: "int \<Rightarrow> string" where
  "FormatInt i = (if i < 0 then CHR ''-'' # FormatNat (nat (- i)) else FormatNat (nat i))"

section \<open>Package compute: firewalls\<close>

text \<open>
  \<^verbatim>\<open>getFirewallNetworkName\<close> (firewalls.go, lines 103-116). The parser
  \<^verbatim>\<open>url.Parse\<close> is passed in; \<open>url_Parse\<close> above models it.
\<close>

definition getFirewallNetworkName :: "(string \<Rightarrow> error + URL) \<Rightarrow> firewall \<Rightarrow> error + string" where
  "getFirewallNetworkName parseURL firewall =
     (let fireNetUrl = firewall.Network firewall in
      if length fireNetUrl = 0 then Inr []
      else (case parseURL fireNetUrl of
              Inl err \<Rightarrow>
                Inl (Wrapf (''failed to parse network url '' @ [CHR 0x27] @ firewall.Network firewall
                            @ [CHR 0x27] @ '' for firewall '' @ firewall.Name firewall) err)
            | Inr url \<Rightarrow> Inr (path_Base (Path url))))"

text \<open>\<^verbatim>\<open>getFirewallSpecs\<close> (lines 118-161).\<close>

definition getFirewallSpecs :: "infrav1 \<Rightarrow> 'p ComputeService \<Rightarrow> GCPCluster \<Rightarrow> firewall list" where
  "getFirewallSpecs api s cl =
     [\<lparr>firewall.Name = ''allow-'' @ ClusterScope.Name (cscope s) @ ''-''
                         @ APIServerRoleTagValue api @ ''-healthchecks'',
       Network = NetworkSelfLink (cscope s) cl,
       Allowed = [\<lparr>IPProtocol = ''TCP'',
                   Ports = [FormatInt (LoadBalancerBackendPort (cscope s))]\<rparr>],
       Direction = ''INGRESS'',
       SourceRanges = [''35.191.0.0/16'', ''130.211.0.0/22''],
       SourceTags = [],
       TargetTags = [ClusterScope.Name (cscope s) @ ''-control-plane''],
       SelfLink = []\<rparr>,
      \<lparr>firewall.Name = ''allow-'' @ ClusterScope.Name (cscope s) @ ''-''
                         @ APIServerRoleTagValue api @ ''-cluster'',
       Network = NetworkSelfLink (cscope s) cl,
       Allowed = [\<lparr>IPProtocol = ''all'', Ports = []\<rparr>],
       Direction = ''INGRESS'',
       SourceRanges = [],
       SourceTags = [ClusterScope.Name (cscope s) @ ''-control-plane'',
                     ClusterScope.Name (cscope s) @ ''-node''],
       TargetTags = [ClusterScope.Name (cscope s) @ ''-control-plane'',
                     ClusterScope.Name (cscope s) @ ''-node''],
       SelfLink = []\<rparr>]"

text \<open>Lines 53-56: the rule is stored in the cluster status.\<close>

definition storeFirewallRule :: "firewall \<Rightarrow> 'p crun \<Rightarrow> 'p crun" where
  "storeFirewallRule firewall st =
     setNetworkStatus
       (\<lambda>n. n\<lparr>FirewallRules :=
                 AList.update (firewall.Name firewall) (firewall.SelfLink firewall) (FirewallRules n)\<rparr>) st"

text \<open>The loop of \<^verbatim>\<open>ReconcileFirewalls\<close> (lines 33-57).\<close>

fun reconcileFirewallSpecs ::
  "'p ComputeService \<Rightarrow> firewall list \<Rightarrow> 'p crun \<Rightarrow> error option \<times> 'p crun" where
  "reconcileFirewallSpecs s [] st = (None, st)"
| "reconcileFirewallSpecs s (firewallSpec # rest) st =
     (let project = Project (cscope s) in
      case do_firewalls_Get_Do s project (firewall.Name firewallSpec) st of
        (Inr firewall, st1) \<Rightarrow> reconcileFirewallSpecs s rest (storeFirewallRule firewall st1)
      | (Inl err, st1) \<Rightarrow>
          if IsNotFound err
          then (case do_firewalls_Insert_Do s project firewallSpec st1 of
                  (Inl err, st2) \<Rightarrow> (Some (Wrapf ''failed to create firewall rule'' err), st2)
                | (Inr op, st2) \<Rightarrow>
                    (case do_ForComputeOperation s project op st2 of
                       (Some err, st3) \<Rightarrow> (Some (Wrapf ''failed to create firewall rule'' err), st3)
                     | (None, st3) \<Rightarrow>
                         (case do_firewalls_Get_Do s project (firewall.Name firewallSpec) st3 of
                            (Inl err, st4) \<Rightarrow>
                              (Some (Wrapf ''failed to describe firewall rule'' err), st4)
                          | (Inr firewall, st4) \<Rightarrow>
                              reconcileFirewallSpecs s rest (storeFirewallRule firewall st4))))
          else (Some (Wrapf ''failed to describe firewall rule'' err), st1))"

text \<open>\<^verbatim>\<open>Service.ReconcileFirewalls\<close> (lines 32-60).\<close>

definition ReconcileFirewalls :: "infrav1 \<Rightarrow> 'p ComputeService \<Rightarrow> 'p crun \<Rightarrow> error option \<times> 'p crun" where
  "ReconcileFirewalls api s st = reconcileFirewallSpecs s (getFirewallSpecs api s (status st)) st"


text \<open>The loop over the target tags of one rule (lines 87-95).\<close>

fun deleteIfTagged ::
  "'p ComputeService \<Rightarrow> firewall \<Rightarrow> string list \<Rightarrow> 'p crun \<Rightarrow> error option \<times> 'p crun" where
  "deleteIfTagged s firewall [] st = (None, st)"
| "deleteIfTagged s firewall (tt # rest) st =
     (if tt = ClusterScope.Name (cscope s)
      then (case do_firewalls_Delete_Do s (Project (cscope s)) (firewall.Name firewall) st of
              (r, st1) \<Rightarrow>
                (case checkOrWaitForDeleteOp s r st1 of
                   (Some opErr, st2) \<Rightarrow>
                     (Some (Wrapf (''failed to delete firewall '' @ firewall.Name firewall) opErr), st2)
                 | (None, st2) \<Rightarrow> deleteIfTagged s firewall rest st2))
      else deleteIfTagged s firewall rest st)"

text \<open>The sweep: the loop over the listed rules (lines 79-97).\<close>

fun sweepFirewalls ::
  "(string \<Rightarrow> error + URL) \<Rightarrow> 'p ComputeService \<Rightarrow> firewall list \<Rightarrow> 'p crun
     \<Rightarrow> error option \<times> 'p crun" where
  "sweepFirewalls parseURL s [] st = (None, st)"
| "sweepFirewalls parseURL s (firewall # rest) st =
     (case getFirewallNetworkName parseURL firewall of
        Inl err \<Rightarrow>
          (Some (Wrapf (''failed to get network name for firewall '' @ firewall.Name firewall) err), st)
      | Inr networkName \<Rightarrow>
          (case (if networkName = NetworkName (cscope s)
                 then deleteIfTagged s firewall (TargetTags firewall) st
                 else (None, st)) of
             (Some err, st1) \<Rightarrow> (Some err, st1)
           | (None, st1) \<Rightarrow> sweepFirewalls parseURL s rest st1))"


section \<open>Package compute: bastion\<close>

definition getDefaultBastionName :: "'p ComputeService \<Rightarrow> string" where
  "getDefaultBastionName s = ClusterScope.Name (cscope s) @ ''-bastion''"

definition getDefaultBastionZone :: "'p ComputeService \<Rightarrow> string" where
  "getDefaultBastionZone s = ClusterScope.Region (cscope s) @ ''-a''"

definition getDefaultBastionImage :: string where
  "getDefaultBastionImage = ''projects/ubuntu-os-cloud/global/images/family/ubuntu-minimal-1804-lts''"

definition getDefaultBastionMachineType :: string where
  "getDefaultBastionMachineType = ''f1-micro''"

text \<open>\<^verbatim>\<open>compute.CloudPlatformScope\<close>, a constant of the API library.\<close>

definition CloudPlatformScope :: string where
  "CloudPlatformScope = ''https://www.googleapis.com/auth/cloud-platform''"

text \<open>\<^verbatim>\<open>getDefaultBastion\<close> (lines 117-166); the empty metadata object has no fields here.\<close>

definition getDefaultBastion :: "'p ComputeService \<Rightarrow> GCPCluster \<Rightarrow> Instance" where
  "getDefaultBastion s cl =
     (let name = getDefaultBastionName s;
          zone = getDefaultBastionZone s;
          sourceImage = getDefaultBastionImage;
          machineType = getDefaultBastionMachineType in
      \<lparr>Instance.Name = name,
       Zone = zone,
       MachineType = ''zones/'' @ zone @ ''/machineTypes/'' @ machineType,
       CanIpForward = True,
       NetworkInterfaces =
         [\<lparr>networkInterface.Network = NetworkSelfLink (cscope s) cl,
           AccessConfigs = [\<lparr>Type = ''ONE_TO_ONE_NAT'', Name = ''External NAT''\<rparr>]\<rparr>],
       Tags = [Cluster_Name (cscope s) @ ''-bastion''],
       Disks = [\<lparr>AutoDelete = True, Boot = True, DiskSizeGb = 10,
                 DiskType = ''zones/'' @ zone @ ''/diskTypes/'' @ ''pd-standard'',
                 SourceImage = sourceImage\<rparr>],
       ServiceAccounts = [\<lparr>Email = ''default'', Scopes = [CloudPlatformScope]\<rparr>],
       SelfLink = [],
       Status = []\<rparr>)"

text \<open>\<^verbatim>\<open>describeBastionInstance\<close> (lines 103-115).\<close>

definition describeBastionInstance :: "'p ComputeService \<Rightarrow> 'p crun \<Rightarrow> (error + Instance) \<times> 'p crun" where
  "describeBastionInstance s st =
     (let name = getDefaultBastionName s; zone = getDefaultBastionZone s in
      case do_instances_Get_Do s (Project (cscope s)) zone name st of
        (Inl err, st1) \<Rightarrow>
          if IsNotFound err then (Inl err, st1)
          else (Inl (Wrapf (''failed to describe bastion instance: '' @ name @ '' in zone '' @ zone) err), st1)
      | (Inr res, st1) \<Rightarrow> (Inr res, st1))"

text \<open>
  \<^verbatim>\<open>ReconcileBastion\<close> (lines 29-67). As in \<^verbatim>\<open>DeleteNetwork\<close>, an error of
  \<^verbatim>\<open>networks.Get\<close> other than not-found leaves the network nil and the next line
  panics.
\<close>

definition ReconcileBastion :: "infrav1 \<Rightarrow> 'p ComputeService \<Rightarrow> 'p crun \<Rightarrow> error option \<times> 'p crun" where
  "ReconcileBastion api s st =
     (case do_networks_Get_Do s (Project (cscope s)) (NetworkName (cscope s)) st of
        (Inl err, st1) \<Rightarrow> if IsNotFound err then (None, st1) else (Some NilPointerPanic, st1)
      | (Inr network, st1) \<Rightarrow>
          if network.Description network \<noteq> ClusterTagKey api (ClusterScope.Name (cscope s))
          then (None, st1)
          else
            (case (case describeBastionInstance s st1 of
                     (Inr instance, st2) \<Rightarrow> (Inr (Some instance), st2)
                   | (Inl err, st2) \<Rightarrow>
                       if IsNotFound err
                       then do_runInstance s (getDefaultBastion s (status st2)) st2
                       else (Inl err, st2)) of
               (Inl err, st3) \<Rightarrow> (Some err, st3)
             | (Inr None, st3) \<Rightarrow> (None, st3)
             | (Inr (Some instance), st3) \<Rightarrow>
                 (None, st3\<lparr>status := (status st3)
                              \<lparr>Status_Bastion :=
                                 \<lparr>BastionStatus.SelfLink = Some (Instance.SelfLink instance),
                                  InstanceStatus = Some (Instance.Status instance)\<rparr>\<rparr>\<rparr>)))"

text \<open>\<^verbatim>\<open>DeleteBastion\<close> (lines 70-101).\<close>

definition DeleteBastion :: "infrav1 \<Rightarrow> 'p ComputeService \<Rightarrow> 'p crun \<Rightarrow> error option \<times> 'p crun" where
  "DeleteBastion api s st =
     (case do_networks_Get_Do s (Project (cscope s)) (NetworkName (cscope s)) st of
        (Inl err, st1) \<Rightarrow> if IsNotFound err then (None, st1) else (Some NilPointerPanic, st1)
      | (Inr network, st1) \<Rightarrow>
          if network.Description network \<noteq> ClusterTagKey api (ClusterScope.Name (cscope s))
          then (None, st1)
          else
            (case describeBastionInstance s st1 of
               (Inl err, st2) \<Rightarrow>
                 if IsNotFound err then (None, st2)
                 else (Some (Wrapf ''unable to describe bastion instance'' err), st2)
             | (Inr instance, st2) \<Rightarrow>
                 (let zone = getDefaultBastionZone s in
                  case do_instances_Delete_Do s (Project (cscope s)) zone (Instance.Name instance) st2 of
                    (Inl err, st3) \<Rightarrow> (Some (Wrapf ''failed to terminate gcp instance'' err), st3)
                  | (Inr op, st3) \<Rightarrow>
                      (case do_ForComputeOperation s (Project (cscope s)) op st3 of
                         (Some err, st4) \<Rightarrow> (Some (Wrapf ''failed to terminate gcp instance'' err), st4)
                       | (None, st4) \<Rightarrow> (None, st4)))))"

section \<open>A reference provider\<close>

text \<open>
  The provider is outside the repository. The reference provider below follows the
  resource-client contract of the spec (section 6): it keeps the resources of each kind
  by key, \<^verbatim>\<open>Get\<close> answers not-found exactly for an absent key, \<^verbatim>\<open>Insert\<close> stores
  the object and assigns its self-link, \<^verbatim>\<open>Delete\<close> removes it and answers not-found
  when it is absent, and \<^verbatim>\<open>List\<close> answers with the stored routes whose description
  is the one asked for. Nothing
  else changes its state. The parameter \<open>faults\<close> lets a call fail with a given error
  instead, leaving the state as it is.
\<close>

record gcp =
  gcp_networks :: "key \<rightharpoonup> network"
  gcp_subnetworks :: "key \<rightharpoonup> subnetwork"
  gcp_routers :: "key \<rightharpoonup> router"
  gcp_routes :: "route list"

definition keyLink :: "string \<Rightarrow> key \<Rightarrow> string" where
  "keyLink kind k =
     (case k of
        GlobalKey n \<Rightarrow> ''global/'' @ kind @ ''/'' @ n
      | RegionalKey n r \<Rightarrow> ''regions/'' @ r @ ''/'' @ kind @ ''/'' @ n)"

definition keyName :: "key \<Rightarrow> string" where
  "keyName k = (case k of GlobalKey n \<Rightarrow> n | RegionalKey n r \<Rightarrow> n)"

definition matchF :: "F \<Rightarrow> route \<Rightarrow> bool" where
  "matchF fl r = (case fl of Regexp field pattern \<Rightarrow> field = ''description'' \<and> route.Description r = pattern)"

definition storeGet :: "error option \<Rightarrow> 'a option \<Rightarrow> 'w \<Rightarrow> (error + 'a) \<times> 'w" where
  "storeGet fault found w =
     (case fault of
        Some err \<Rightarrow> (Inl err, w)
      | None \<Rightarrow> (case found of None \<Rightarrow> (Inl NotFound, w) | Some x \<Rightarrow> (Inr x, w)))"

definition storeInsert :: "error option \<Rightarrow> 'a option \<Rightarrow> 'w \<Rightarrow> 'w \<Rightarrow> error option \<times> 'w" where
  "storeInsert fault found w w' =
     (case fault of
        Some err \<Rightarrow> (Some err, w)
      | None \<Rightarrow> (case found of Some _ \<Rightarrow> (Some (Failure ''alreadyExists''), w) | None \<Rightarrow> (None, w')))"

definition storeDelete :: "error option \<Rightarrow> 'a option \<Rightarrow> 'w \<Rightarrow> 'w \<Rightarrow> error option \<times> 'w" where
  "storeDelete fault found w w' =
     (case fault of
        Some err \<Rightarrow> (Some err, w)
      | None \<Rightarrow> (case found of None \<Rightarrow> (Some NotFound, w) | Some _ \<Rightarrow> (None, w')))"

definition gcpService :: "Scope \<Rightarrow> (call \<Rightarrow> error option) \<Rightarrow> gcp Service" where
  "gcpService sc faults =
     \<lparr>scope = sc,
      networks_Get = (\<lambda>k w. storeGet (faults (NetworksGet k)) (gcp_networks w k) w),
      networks_Insert = (\<lambda>k obj w.
         storeInsert (faults (NetworksInsert k obj)) (gcp_networks w k) w
           (w\<lparr>gcp_networks := (gcp_networks w)(k \<mapsto> obj\<lparr>network.SelfLink := keyLink ''networks'' k\<rparr>)\<rparr>)),
      networks_Delete = (\<lambda>k w.
         storeDelete (faults (NetworksDelete k)) (gcp_networks w k) w
           (w\<lparr>gcp_networks := (gcp_networks w)(k := None)\<rparr>)),
      subnetworks_Get = (\<lambda>k w. storeGet (faults (SubnetworksGet k)) (gcp_subnetworks w k) w),
      subnetworks_Insert = (\<lambda>k obj w.
         storeInsert (faults (SubnetworksInsert k obj)) (gcp_subnetworks w k) w
           (w\<lparr>gcp_subnetworks := (gcp_subnetworks w)(k \<mapsto> obj)\<rparr>)),
      subnetworks_Delete = (\<lambda>k w.
         storeDelete (faults (SubnetworksDelete k)) (gcp_subnetworks w k) w
           (w\<lparr>gcp_subnetworks := (gcp_subnetworks w)(k := None)\<rparr>)),
      routers_Get = (\<lambda>k w. storeGet (faults (RoutersGet k)) (gcp_routers w k) w),
      routers_Insert = (\<lambda>k obj w.
         storeInsert (faults (RoutersInsert k obj)) (gcp_routers w k) w
           (w\<lparr>gcp_routers := (gcp_routers w)(k \<mapsto> obj\<lparr>router.SelfLink := keyLink ''routers'' k\<rparr>)\<rparr>)),
      routers_Delete = (\<lambda>k w.
         storeDelete (faults (RoutersDelete k)) (gcp_routers w k) w
           (w\<lparr>gcp_routers := (gcp_routers w)(k := None)\<rparr>)),
      routes_List = (\<lambda>fl w.
         storeGet (faults (RoutesList fl)) (Some (filter (matchF fl) (gcp_routes w))) w),
      routes_Delete = (\<lambda>k w.
         storeDelete (faults (RoutesDelete k))
           (find (\<lambda>r. route.Name r = keyName k) (gcp_routes w)) w
           (w\<lparr>gcp_routes := filter (\<lambda>r. route.Name r \<noteq> keyName k) (gcp_routes w)\<rparr>))\<rparr>"

definition noFaults :: "'c \<Rightarrow> error option" where
  "noFaults c = None"

text \<open>The same for the clients of package compute; an operation is finished when it is returned.\<close>

record gce =
  gce_networks :: "string \<times> string \<rightharpoonup> network"
  gce_subnetworks :: "string \<times> string \<times> string \<rightharpoonup> subnetwork"
  gce_routers :: "string \<times> string \<times> string \<rightharpoonup> router"
  gce_routes :: "string \<Rightarrow> route list"
  gce_firewalls :: "string \<Rightarrow> firewall list"
  gce_instances :: "string \<times> string \<times> string \<rightharpoonup> Instance"

definition storeOp ::
  "string \<Rightarrow> error option \<Rightarrow> bool \<Rightarrow> error \<Rightarrow> 'w \<Rightarrow> 'w \<Rightarrow> (error + operation) \<times> 'w" where
  "storeOp name fault ok refusal w w' =
     (case fault of
        Some err \<Rightarrow> (Inl err, w)
      | None \<Rightarrow> if ok then (Inr (Operation name), w') else (Inl refusal, w))"

definition gceService :: "ClusterScope \<Rightarrow> (apicall \<Rightarrow> error option) \<Rightarrow> gce ComputeService" where
  "gceService sc faults =
     \<lparr>cscope = sc,
      networks_Get_Do = (\<lambda>p n w. storeGet (faults (NetworksGetDo p n)) (gce_networks w (p, n)) w),
      networks_Insert_Do = (\<lambda>p obj w.
         storeOp ''insert'' (faults (NetworksInsertDo p obj))
           (gce_networks w (p, network.Name obj) = None) (Failure ''alreadyExists'') w
           (w\<lparr>gce_networks := (gce_networks w)((p, network.Name obj) \<mapsto>
                 obj\<lparr>network.SelfLink := ''projects/'' @ p @ ''/global/networks/'' @ network.Name obj\<rparr>)\<rparr>)),
      networks_Delete_Do = (\<lambda>p n w.
         storeOp ''delete'' (faults (NetworksDeleteDo p n))
           (gce_networks w (p, n) \<noteq> None) NotFound w
           (w\<lparr>gce_networks := (gce_networks w)((p, n) := None)\<rparr>)),
      subnetworks_Get_Do = (\<lambda>p r n w.
         storeGet (faults (SubnetworksGetDo p r n)) (gce_subnetworks w (p, r, n)) w),
      subnetworks_Insert_Do = (\<lambda>p r obj w.
         storeOp ''insert'' (faults (SubnetworksInsertDo p r obj))
           (gce_subnetworks w (p, r, subnetwork.Name obj) = None) (Failure ''alreadyExists'') w
           (w\<lparr>gce_subnetworks := (gce_subnetworks w)((p, r, subnetwork.Name obj) \<mapsto> obj)\<rparr>)),
      subnetworks_Delete_Do = (\<lambda>p r n w.
         storeOp ''delete'' (faults (SubnetworksDeleteDo p r n))
           (gce_subnetworks w (p, r, n) \<noteq> None) NotFound w
           (w\<lparr>gce_subnetworks := (gce_subnetworks w)((p, r, n) := None)\<rparr>)),
      routers_Get_Do = (\<lambda>p r n w. storeGet (faults (RoutersGetDo p r n)) (gce_routers w (p, r, n)) w),
      routers_Insert_Do = (\<lambda>p r obj w.
         storeOp ''insert'' (faults (RoutersInsertDo p r obj))
           (gce_routers w (p, r, router.Name obj) = None) (Failure ''alreadyExists'') w
           (w\<lparr>gce_routers := (gce_routers w)((p, r, router.Name obj) \<mapsto>
                 obj\<lparr>router.SelfLink := ''projects/'' @ p @ ''/regions/'' @ r @ ''/routers/'' @ router.Name obj\<rparr>)\<rparr>)),
      routers_Patch_Do = (\<lambda>p r n obj w.
         storeOp ''patch'' (faults (RoutersPatchDo p r n obj))
           (gce_routers w (p, r, n) \<noteq> None) NotFound w
           (w\<lparr>gce_routers := (gce_routers w)((p, r, n) \<mapsto> obj)\<rparr>)),
      routers_Delete_Do = (\<lambda>p r n w.
         storeOp ''delete'' (faults (RoutersDeleteDo p r n))
           (gce_routers w (p, r, n) \<noteq> None) NotFound w
           (w\<lparr>gce_routers := (gce_routers w)((p, r, n) := None)\<rparr>)),
      routes_List_Filter_Do = (\<lambda>p fl w.
         storeGet (faults (RoutesListDo p fl))
           (Some (filter (\<lambda>r. route.Description r = k8sNodeRouteTag) (gce_routes w p))) w),
      routes_Delete_Do = (\<lambda>p n w.
         storeOp ''delete'' (faults (RoutesDeleteDo p n))
           (find (\<lambda>r. route.Name r = n) (gce_routes w p) \<noteq> None) NotFound w
           (w\<lparr>gce_routes := (gce_routes w)(p := filter (\<lambda>r. route.Name r \<noteq> n) (gce_routes w p))\<rparr>)),
      firewalls_Get_Do = (\<lambda>p n w.
         storeGet (faults (FirewallsGetDo p n)) (find (\<lambda>f. firewall.Name f = n) (gce_firewalls w p)) w),
      firewalls_Insert_Do = (\<lambda>p obj w.
         storeOp ''insert'' (faults (FirewallsInsertDo p obj))
           (find (\<lambda>f. firewall.Name f = firewall.Name obj) (gce_firewalls w p) = None)
           (Failure ''alreadyExists'') w
           (w\<lparr>gce_firewalls := (gce_firewalls w)(p := gce_firewalls w p @
                 [obj\<lparr>firewall.SelfLink := ''projects/'' @ p @ ''/global/firewalls/'' @ firewall.Name obj\<rparr>])\<rparr>)),
      firewalls_Delete_Do = (\<lambda>p n w.
         storeOp ''delete'' (faults (FirewallsDeleteDo p n))
           (find (\<lambda>f. firewall.Name f = n) (gce_firewalls w p) \<noteq> None) NotFound w
           (w\<lparr>gce_firewalls := (gce_firewalls w)(p := filter (\<lambda>f. firewall.Name f \<noteq> n) (gce_firewalls w p))\<rparr>)),
      firewalls_List_Do = (\<lambda>p w. storeGet (faults (FirewallsListDo p)) (Some (gce_firewalls w p)) w),
      instances_Get_Do = (\<lambda>p z n w. storeGet (faults (InstancesGetDo p z n)) (gce_instances w (p, z, n)) w),
      instances_Delete_Do = (\<lambda>p z n w.
         storeOp ''delete'' (faults (InstancesDeleteDo p z n))
           (gce_instances w (p, z, n) \<noteq> None) NotFound w
           (w\<lparr>gce_instances := (gce_instances w)((p, z, n) := None)\<rparr>)),
      runInstance = (\<lambda>spec w.
         (case faults (RunInstance spec) of
            Some err \<Rightarrow> (Inl err, w)
          | None \<Rightarrow>
              (let created = spec\<lparr>Instance.SelfLink := ''zones/'' @ Zone spec @ ''/instances/'' @ Instance.Name spec,
                                   Instance.Status := ''RUNNING''\<rparr> in
               (Inr (Some created),
                w\<lparr>gce_instances := (gce_instances w)((Project sc, Zone spec, Instance.Name spec) \<mapsto> created)\<rparr>)))),
      ForComputeOperation = (\<lambda>p op w.
         (case faults (WaitForComputeOperation p op) of Some err \<Rightarrow> (Some err, w) | None \<Rightarrow> (None, w)))\<rparr>"

section \<open>Properties of a run\<close>

text \<open>The calls a run from \<open>st\<close> to \<open>st'\<close> has issued.\<close>

definition issued :: "('p, 'c, 'g) run \<Rightarrow> ('p, 'c, 'g) run \<Rightarrow> ('c \<times> error option) list" where
  "issued st st' = drop (length (calls st)) (calls st')"

text \<open>The calls that change the provider's state.\<close>

fun mutating :: "call \<Rightarrow> bool" where
  "mutating (NetworksInsert _ _) = True"
| "mutating (NetworksDelete _) = True"
| "mutating (SubnetworksInsert _ _) = True"
| "mutating (SubnetworksDelete _) = True"
| "mutating (RoutersInsert _ _) = True"
| "mutating (RoutersDelete _) = True"
| "mutating (RoutesDelete _) = True"
| "mutating _ = False"

fun mutatingDo :: "apicall \<Rightarrow> bool" where
  "mutatingDo (NetworksInsertDo _ _) = True"
| "mutatingDo (NetworksDeleteDo _ _) = True"
| "mutatingDo (SubnetworksInsertDo _ _ _) = True"
| "mutatingDo (SubnetworksDeleteDo _ _ _) = True"
| "mutatingDo (RoutersInsertDo _ _ _) = True"
| "mutatingDo (RoutersPatchDo _ _ _ _) = True"
| "mutatingDo (RoutersDeleteDo _ _ _) = True"
| "mutatingDo (RoutesDeleteDo _ _) = True"
| "mutatingDo (FirewallsInsertDo _ _) = True"
| "mutatingDo (FirewallsDeleteDo _ _) = True"
| "mutatingDo (InstancesDeleteDo _ _ _) = True"
| "mutatingDo (RunInstance _) = True"
| "mutatingDo _ = False"

text \<open>
  The place of a delete call in the teardown: \<open>deleteStep\<close> is the order of
  \<^verbatim>\<open>networks.Delete\<close>, \<open>claimedStep\<close> the order the spec gives (router, routes,
  subnetworks, network), \<open>deleteStepDo\<close> that order for the calls of package compute.
\<close>

fun deleteStep :: "call \<Rightarrow> nat option" where
  "deleteStep (RoutersDelete _) = Some 1"
| "deleteStep (SubnetworksDelete _) = Some 2"
| "deleteStep (RoutesDelete _) = Some 3"
| "deleteStep (NetworksDelete _) = Some 4"
| "deleteStep _ = None"

fun claimedStep :: "call \<Rightarrow> nat option" where
  "claimedStep (RoutersDelete _) = Some 1"
| "claimedStep (RoutesDelete _) = Some 2"
| "claimedStep (SubnetworksDelete _) = Some 3"
| "claimedStep (NetworksDelete _) = Some 4"
| "claimedStep _ = None"

fun deleteStepDo :: "apicall \<Rightarrow> nat option" where
  "deleteStepDo (RoutersDeleteDo _ _ _) = Some 1"
| "deleteStepDo (RoutesDeleteDo _ _) = Some 2"
| "deleteStepDo (SubnetworksDeleteDo _ _ _) = Some 3"
| "deleteStepDo (NetworksDeleteDo _ _) = Some 4"
| "deleteStepDo _ = None"

text \<open>A log is in order when the steps of its delete calls never decrease.\<close>

definition inOrder :: "('c \<Rightarrow> nat option) \<Rightarrow> ('c \<times> error option) list \<Rightarrow> bool" where
  "inOrder ph new = sorted (List.map_filter ph (map fst new))"

definition onlyStep :: "('c \<Rightarrow> nat option) \<Rightarrow> nat \<Rightarrow> ('c \<times> error option) list \<Rightarrow> bool" where
  "onlyStep ph k new = list_all (\<lambda>c. ph (fst c) = None \<or> ph (fst c) = Some k) new"

definition fromStep :: "('c \<Rightarrow> nat option) \<Rightarrow> nat \<Rightarrow> ('c \<times> error option) list \<Rightarrow> bool" where
  "fromStep ph k new =
     (sorted (List.map_filter ph (map fst new)) \<and>
      list_all (\<lambda>x. k \<le> x) (List.map_filter ph (map fst new)))"

text \<open>
  A not-found answer is \<open>tolerated\<close> on the calls whose result
  \<^verbatim>\<open>networks.Delete\<close> tests with \<^verbatim>\<open>IsNotFound\<close>. The predicate \<open>discipline\<close>
  describes the logs the code produces, for the lemmas about its runs: every call before
  the last one succeeded or was tolerated, and the run either returns nil after such calls
  only, or returns the error of its last call.
\<close>

definition tolerated :: "call \<times> error option \<Rightarrow> bool" where
  "tolerated c =
     (snd c = Some NotFound \<and>
      (case fst c of
         NetworksGet _ \<Rightarrow> True
       | RoutersGet _ \<Rightarrow> True
       | RoutersDelete _ \<Rightarrow> True
       | SubnetworksGet _ \<Rightarrow> True
       | _ \<Rightarrow> False))"

definition passed :: "call \<times> error option \<Rightarrow> bool" where
  "passed c = (snd c = None \<or> tolerated c)"

definition discipline :: "error option \<Rightarrow> (call \<times> error option) list \<Rightarrow> bool" where
  "discipline r new =
     (list_all passed (butlast new) \<and>
      (case r of
         None \<Rightarrow> list_all passed new
       | Some e \<Rightarrow> new \<noteq> [] \<and> snd (last new) = Some e \<and> \<not> tolerated (last new)))"

text \<open>The keys and the filter that \<^verbatim>\<open>networks.Delete\<close> and \<^verbatim>\<open>Reconcile\<close> use.\<close>

definition networkKey :: "Scope \<Rightarrow> key" where
  "networkKey sc = GlobalKey (Scope.NetworkName sc)"

definition routerKey :: "Scope \<Rightarrow> key" where
  "routerKey sc = RegionalKey (router.Name (NatRouterSpec sc)) (Scope.Region sc)"

definition subnetKey :: "subnetwork \<Rightarrow> key" where
  "subnetKey subnet = RegionalKey (subnetwork.Name subnet) (subnetwork.Region subnet)"

definition nodeRoutes :: F where
  "nodeRoutes = Regexp ''description'' k8sNodeRouteTag"

text \<open>The status after \<^verbatim>\<open>Delete\<close> has set both self-links to nil.\<close>

definition cleared :: "NetworkStatus \<Rightarrow> NetworkStatus" where
  "cleared n = n\<lparr>Router := None, NetworkStatus.SelfLink := None\<rparr>"

section \<open>Example inputs\<close>

definition exampleApi :: infrav1 where
  "exampleApi = \<lparr>ClusterTagKey = (\<lambda>name. ''capg-cluster-'' @ name), APIServerRoleTagValue = ''apiserver''\<rparr>"

definition exampleSubnet :: subnetwork where
  "exampleSubnet =
     \<lparr>subnetwork.Name = ''sub1'', Region = ''us-central1'', Network = ''global/networks/my-network'',
      IpCidrRange = ''10.0.0.0/24'', EnableFlowLogs = False\<rparr>"

definition exampleNetwork :: network where
  "exampleNetwork =
     \<lparr>network.Name = ''my-network'', Description = ''capg-cluster-my-cluster'',
      AutoCreateSubnetworks = False, SelfLink = ''global/networks/my-network'',
      Subnetworks = [''regions/us-central1/subnetworks/sub1''], ForceSendFields = []\<rparr>"

definition exampleRouter :: router where
  "exampleRouter =
     \<lparr>router.Name = ''my-network-router'', Description = ''capg-cluster-my-cluster'',
      Network = ''global/networks/my-network'', Nats = [],
      SelfLink = ''regions/us-central1/routers/my-network-router''\<rparr>"

definition exampleRoute :: route where
  "exampleRoute =
     \<lparr>route.Name = ''my-cluster-node1'', Network = ''global/networks/my-network'',
      Description = ''k8s-node-route''\<rparr>"

definition exampleScope :: Scope where
  "exampleScope =
     \<lparr>Scope.Name = ''my-cluster'', NetworkName = ''my-network'', Region = ''us-central1'',
      IsSharedVpc = False,
      NetworkSpec = exampleNetwork\<lparr>network.SelfLink := [], Subnetworks := []\<rparr>,
      SubnetworkSpec = [exampleSubnet],
      NatRouterSpec = exampleRouter\<lparr>router.Description := [], router.Network := [], router.SelfLink := []\<rparr>\<rparr>"

definition emptyWorld :: gcp where
  "emptyWorld =
     \<lparr>gcp_networks = Map.empty, gcp_subnetworks = Map.empty, gcp_routers = Map.empty, gcp_routes = []\<rparr>"

text \<open>A provider that holds the cluster's network, subnetwork, router and one node route.\<close>

definition exampleWorld :: gcp where
  "exampleWorld =
     \<lparr>gcp_networks = [GlobalKey ''my-network'' \<mapsto> exampleNetwork],
      gcp_subnetworks = [RegionalKey ''sub1'' ''us-central1'' \<mapsto> exampleSubnet],
      gcp_routers = [RegionalKey ''my-network-router'' ''us-central1'' \<mapsto> exampleRouter],
      gcp_routes = [exampleRoute]\<rparr>"

text \<open>A provider whose network of that name belongs to someone else.\<close>

definition foreignNetwork :: network where
  "foreignNetwork = exampleNetwork\<lparr>network.Description := ''someone-else''\<rparr>"

definition foreignWorld :: gcp where
  "foreignWorld = exampleWorld\<lparr>gcp_networks := [GlobalKey ''my-network'' \<mapsto> foreignNetwork]\<rparr>"

definition startRun :: "'p \<Rightarrow> ('p, 'c, NetworkStatus) run" where
  "startRun w =
     \<lparr>world = w,
      status = \<lparr>NetworkStatus.SelfLink = Some ''global/networks/my-network'',
                Router = Some ''regions/us-central1/routers/my-network-router'',
                FirewallRules = []\<rparr>,
      calls = []\<rparr>"

definition exampleClusterScope :: ClusterScope where
  "exampleClusterScope =
     \<lparr>ClusterScope.Name = ''my-cluster'', Cluster_Name = ''my-cluster'', Project = ''my-project'',
      Region = ''us-central1'', NetworkName = ''my-network'',
      Subnets = [\<lparr>SubnetSpec.Name = ''sub1'', Region = ''us-central1'', CidrBlock = ''10.0.0.0/24'',
                  EnableFlowLogs = Some False\<rparr>],
      LoadBalancerBackendPort = 6443,
      NetworkSelfLink = (\<lambda>cl. case NetworkStatus.SelfLink (Status_Network cl) of None \<Rightarrow> [] | Some l \<Rightarrow> l)\<rparr>"

definition emptyGce :: gce where
  "emptyGce =
     \<lparr>gce_networks = Map.empty, gce_subnetworks = Map.empty, gce_routers = Map.empty,
      gce_routes = (\<lambda>p. []), gce_firewalls = (\<lambda>p. []), gce_instances = Map.empty\<rparr>"

definition exampleGce :: gce where
  "exampleGce =
     emptyGce
       \<lparr>gce_networks := [(''my-project'', ''my-network'') \<mapsto> exampleNetwork],
        gce_subnetworks := [(''my-project'', ''us-central1'', ''sub1'') \<mapsto> exampleSubnet],
        gce_routers := [(''my-project'', ''us-central1'', ''my-network-router'') \<mapsto> exampleRouter],
        gce_routes := (\<lambda>p. if p = ''my-project'' then [exampleRoute] else [])\<rparr>"

definition foreignGce :: gce where
  "foreignGce = exampleGce\<lparr>gce_networks := [(''my-project'', ''my-network'') \<mapsto> foreignNetwork]\<rparr>"

definition startClusterRun :: "'p \<Rightarrow> ('p, 'c, GCPCluster) run" where
  "startClusterRun w =
     \<lparr>world = w,
      status = \<lparr>Spec_Network_Name = Some ''my-network'',
                Spec_Network_AutoCreateSubnetworks = Some False,
                Status_Network = \<lparr>NetworkStatus.SelfLink = None, Router = None, FirewallRules = []\<rparr>,
                Status_Bastion = \<lparr>BastionStatus.SelfLink = None, InstanceStatus = None\<rparr>\<rparr>,
      calls = []\<rparr>"

text \<open>A fault for the reference provider: the given call fails with the given error.\<close>

definition failing :: "'c \<Rightarrow> error \<Rightarrow> 'c \<Rightarrow> error option" where
  "failing c err c' = (if c' = c then Some err else None)"






text \<open>
  The calls a loop over the rules \<open>fws\<close> may issue when it deletes only rules for which
  \<open>T\<close> holds: the delete, in project \<open>p\<close>, of a rule of the list for which \<open>T\<close> holds,
  and the wait for an operation.
\<close>
fun sweepCall :: "(firewall \<Rightarrow> bool) \<Rightarrow> string \<Rightarrow> firewall list \<Rightarrow> apicall \<Rightarrow> bool" where
  "sweepCall T p fws (FirewallsDeleteDo q n) =
     (q = p \<and> list_ex (\<lambda>fw. firewall.Name fw = n \<and> T fw) fws)"
| "sweepCall T p fws (WaitForComputeOperation q op) = True"
| "sweepCall T p fws _ = False"

text \<open>Example rules: the zero value of \<^verbatim>\<open>compute.Firewall\<close>, a rule of the cluster on its
  network, and a rule on another network.\<close>
definition zeroFirewall :: firewall where
  "zeroFirewall =
     \<lparr>firewall.Name = [], Network = [], Allowed = [], Direction = [], SourceRanges = [],
      SourceTags = [], TargetTags = [], SelfLink = []\<rparr>"

definition clusterRule :: firewall where
  "clusterRule =
     zeroFirewall\<lparr>firewall.Name := ''k8s-fw-a1b2c3'',
                  firewall.Network := ''projects/p/global/networks/my-network'',
                  TargetTags := [''my-cluster'']\<rparr>"

definition unrelatedRule :: firewall where
  "unrelatedRule =
     zeroFirewall\<lparr>firewall.Name := ''allow-ssh'',
                  firewall.Network := ''projects/p/global/networks/other-network'',
                  TargetTags := [''my-cluster'']\<rparr>"

text \<open>An authority check that accepts every authority.\<close>
definition noAuthority :: "string \<Rightarrow> error option" where
  "noAuthority authority = None"

text \<open>A shared-VPC scope, and a host project that holds the shared network in custom mode but
  not the declared subnetwork.\<close>
definition sharedScope :: Scope where
  "sharedScope = exampleScope\<lparr>IsSharedVpc := True\<rparr>"

definition hostWorld :: gcp where
  "hostWorld =
     emptyWorld\<lparr>gcp_networks :=
       [GlobalKey ''my-network'' \<mapsto> exampleNetwork\<lparr>network.Description := ''shared host network''\<rparr>]\<rparr>"

text \<open>A provider whose router already has a NAT configuration.\<close>
definition natRouter :: router where
  "natRouter = exampleRouter\<lparr>Nats := [\<lparr>routerNat.Name = ''my-network-nat'', NatIpAllocateOption = ''MANUAL_ONLY'',
                                        SourceSubnetworkIpRangesToNat = ''LIST_OF_SUBNETWORKS''\<rparr>]\<rparr>"

definition natGce :: gce where
  "natGce = exampleGce\<lparr>gce_routers := [(''my-project'', ''us-central1'', ''my-network-router'') \<mapsto> natRouter]\<rparr>"

text \<open>The calls on the router client, in each package.\<close>
fun routerCall :: "call \<Rightarrow> bool" where
  "routerCall (RoutersGet _) = True"
| "routerCall (RoutersInsert _ _) = True"
| "routerCall (RoutersDelete _) = True"
| "routerCall _ = False"

fun routerCallDo :: "apicall \<Rightarrow> bool" where
  "routerCallDo (RoutersGetDo _ _ _) = True"
| "routerCallDo (RoutersInsertDo _ _ _) = True"
| "routerCallDo (RoutersPatchDo _ _ _ _) = True"
| "routerCallDo (RoutersDeleteDo _ _ _) = True"
| "routerCallDo _ = False"

text \<open>The provider after \<^verbatim>\<open>ReconcileBastion\<close> has run on the example provider.\<close>
definition bastionGce :: gce where
  "bastionGce =
     world (snd (ReconcileBastion exampleApi (gceService exampleClusterScope noFaults) (startClusterRun exampleGce)))"

text \<open>
  The states in which \<^verbatim>\<open>networks.Reconcile\<close> has nothing left to do on the reference
  provider: the network is there (or is missing in shared-VPC mode, where it is never
  created) and its self-link is recorded, the declared subnetworks of a custom-mode network
  are there, and the router of an owned network is there and recorded (or is missing in
  shared-VPC mode).
\<close>
definition converged :: "infrav1 \<Rightarrow> Scope \<Rightarrow> gcp \<Rightarrow> NetworkStatus \<Rightarrow> bool" where
  "converged api sc w stat =
     (case gcp_networks w (networkKey sc) of
        None \<Rightarrow> IsSharedVpc sc
      | Some n \<Rightarrow>
          NetworkStatus.SelfLink stat = Some (network.SelfLink n) \<and>
          (AutoCreateSubnetworks n \<or>
           list_all (\<lambda>x. gcp_subnetworks w (subnetKey x) \<noteq> None) (SubnetworkSpec sc)) \<and>
          (network.Description n \<noteq> ClusterTagKey api (Scope.Name sc) \<or>
           (case gcp_routers w (routerKey sc) of
              None \<Rightarrow> IsSharedVpc sc
            | Some r \<Rightarrow> Router stat = Some (router.SelfLink r))))"

text \<open>
  A reconciler \<open>f\<close> is idempotent from the run state \<open>st\<close> when, called again on the state
  its first call left, it issues no call for which \<open>mut\<close> holds and leaves the status as
  the first call left it.
\<close>
definition idempotentRun ::
  "('c \<Rightarrow> bool) \<Rightarrow> (('p, 'c, 'g) run \<Rightarrow> error option \<times> ('p, 'c, 'g) run) \<Rightarrow> ('p, 'c, 'g) run \<Rightarrow> bool" where
  "idempotentRun mut f st =
     (let st1 = snd (f st); st2 = snd (f st1) in
      list_all (\<lambda>c. \<not> mut (fst c)) (issued st1 st2) \<and> status st2 = status st1)"

text \<open>
  The subnetwork loop of package compute has nothing left to do: every declared
  subnetwork is there, up to the first absent one whose flow-logs flag is nil, where the
  loop panics before it inserts.
\<close>
fun settledSubnets :: "ClusterScope \<Rightarrow> gce \<Rightarrow> SubnetSpec list \<Rightarrow> bool" where
  "settledSubnets sc w [] = True"
| "settledSubnets sc w (x # xs) =
     (case gce_subnetworks w (Project sc, ClusterScope.Region sc, SubnetSpec.Name x) of
        Some _ \<Rightarrow> settledSubnets sc w xs
      | None \<Rightarrow> SubnetSpec.EnableFlowLogs x = None)"

text \<open>The states in which \<^verbatim>\<open>ReconcileNetwork\<close> has nothing left to do on the reference provider.\<close>
definition convergedDo :: "ClusterScope \<Rightarrow> gce \<Rightarrow> GCPCluster \<Rightarrow> bool" where
  "convergedDo sc w cl =
     (case gce_networks w (Project sc, ClusterScope.NetworkName sc) of
        None \<Rightarrow> False
      | Some n \<Rightarrow>
          Spec_Network_Name cl = Some (network.Name n) \<and>
          Spec_Network_AutoCreateSubnetworks cl = Some (AutoCreateSubnetworks n) \<and>
          NetworkStatus.SelfLink (Status_Network cl) = Some (network.SelfLink n) \<and>
          (AutoCreateSubnetworks n \<or> settledSubnets sc w (Subnets sc)))"

text \<open>Every router is kept under its own name.\<close>
definition namedRouters :: "gce \<Rightarrow> bool" where
  "namedRouters w = (\<forall>p r n rt. gce_routers w (p, r, n) = Some rt \<longrightarrow> router.Name rt = n)"

text \<open>
  The rule named \<open>n\<close> is in project \<open>p\<close> of the provider, and the status maps its name to
  its self-link.
\<close>
definition recorded :: "string \<Rightarrow> gce \<Rightarrow> GCPCluster \<Rightarrow> string \<Rightarrow> bool" where
  "recorded p w cl n =
     (case find (\<lambda>f. firewall.Name f = n) (gce_firewalls w p) of
        None \<Rightarrow> False
      | Some f \<Rightarrow> map_of (FirewallRules (Status_Network cl)) n = Some (firewall.SelfLink f))"

text \<open>A rule of the cluster with a full reference to its network, and a rule on the
  cluster's network without the cluster's name among its target tags.\<close>
definition urlRule :: firewall where
  "urlRule =
     zeroFirewall\<lparr>firewall.Name := ''k8s-fw-d4e5f6'',
                  firewall.Network := ''https://www.googleapis.com/compute/v1/projects/p/global/networks/my-network'',
                  TargetTags := [''other'', ''my-cluster'']\<rparr>"

definition untaggedRule :: firewall where
  "untaggedRule =
     zeroFirewall\<lparr>firewall.Name := ''allow-icmp'',
                  firewall.Network := ''projects/p/global/networks/my-network'',
                  TargetTags := [''my-cluster-node'']\<rparr>"

definition sweepGce :: gce where
  "sweepGce = exampleGce\<lparr>gce_firewalls :=
     (\<lambda>p. if p = ''my-project'' then [clusterRule, unrelatedRule, urlRule, untaggedRule] else [])\<rparr>"

text \<open>
  The log of a completed subnetwork loop over the declared subnetworks \<open>xs\<close>: for each of
  them in turn its \<^verbatim>\<open>Get\<close>, answered not-found, or its \<^verbatim>\<open>Get\<close>, answered with
  the subnetwork, and then its \<^verbatim>\<open>Delete\<close>.
\<close>
fun subnetLog :: "subnetwork list \<Rightarrow> (call \<times> error option) list \<Rightarrow> bool" where
  "subnetLog [] log = (log = [])"
| "subnetLog (x # xs) ((c, Some e) # rest) =
     (c = SubnetworksGet (subnetKey x) \<and> IsNotFound e \<and> subnetLog xs rest)"
| "subnetLog (x # xs) ((c, None) # (d, a) # rest) =
     (c = SubnetworksGet (subnetKey x) \<and> d = SubnetworksDelete (subnetKey x) \<and> subnetLog xs rest)"
| "subnetLog (x # xs) _ = False"

text \<open>The delete call on the router client.\<close>
fun routerDelete :: "call \<Rightarrow> bool" where
  "routerDelete (RoutersDelete _) = True"
| "routerDelete _ = False"

text \<open>The router that \<^verbatim>\<open>Get\<close> returns in the provider state \<open>w\<close> has the cluster's tag.\<close>
definition ownsRouter :: "infrav1 \<Rightarrow> 'p Service \<Rightarrow> 'p \<Rightarrow> bool" where
  "ownsRouter api s w =
     (case fst (routers_Get s (routerKey (scope s)) w) of
        Inl _ \<Rightarrow> False
      | Inr rt \<Rightarrow> router.Description rt = ClusterTagKey api (Scope.Name (scope s)))"

text \<open>
  The states of a run of \<^verbatim>\<open>networks.Delete\<close> from \<open>st\<close> after its router step (lines
  93-105) and, when the fetched network is \<open>nw\<close>, after its subnetwork loop (lines 107-122),
  where it lists the routes.
\<close>
definition afterRouter :: "infrav1 \<Rightarrow> 'p Service \<Rightarrow> 'p nrun \<Rightarrow> 'p nrun" where
  "afterRouter api s st = snd (deleteRouter api s (snd (do_networks_Get s (networkKey (scope s)) st)))"

definition afterSubnets :: "infrav1 \<Rightarrow> 'p Service \<Rightarrow> network \<Rightarrow> 'p nrun \<Rightarrow> 'p nrun" where
  "afterSubnets api s nw st =
     (if \<not> AutoCreateSubnetworks nw
      then snd (deleteSubnets s (SubnetworkSpec (scope s)) (afterRouter api s st))
      else afterRouter api s st)"

text \<open>The delete calls of a log of package compute, in the order they were issued.\<close>
definition deleteCalls :: "(apicall \<times> error option) list \<Rightarrow> apicall list" where
  "deleteCalls log = filter (\<lambda>c. deleteStepDo c \<noteq> None) (map fst log)"

text \<open>The state of a run of \<^verbatim>\<open>compute.DeleteNetwork\<close> from \<open>st\<close> after its router step
  (lines 133-143), where it lists the routes.\<close>
definition afterRouterDo :: "'p ComputeService \<Rightarrow> 'p crun \<Rightarrow> 'p crun" where
  "afterRouterDo s st =
     snd (deleteNetworkRouter s
            (snd (do_networks_Get_Do s (Project (cscope s)) (ClusterScope.NetworkName (cscope s)) st)))"

text \<open>
  The not-found answers that \<^verbatim>\<open>networks.Delete\<close> passes over: it tests the error of
  the router's \<^verbatim>\<open>Get\<close> (line 96), of the router's \<^verbatim>\<open>Delete\<close> (line 102) and of a
  subnetwork's \<^verbatim>\<open>Get\<close> (line 111) with \<^verbatim>\<open>IsNotFound\<close>.
\<close>
fun skipped :: "call \<times> error option \<Rightarrow> bool" where
  "skipped (RoutersGet _, Some e) = IsNotFound e"
| "skipped (RoutersDelete _, Some e) = IsNotFound e"
| "skipped (SubnetworksGet _, Some e) = IsNotFound e"
| "skipped _ = False"

text \<open>A provider whose router of the derived name has another description than the
  cluster's tag.\<close>
definition foreignRouterGce :: gce where
  "foreignRouterGce =
     exampleGce\<lparr>gce_routers := [(''my-project'', ''us-central1'', ''my-network-router'') \<mapsto>
                                  exampleRouter\<lparr>router.Description := ''someone-else''\<rparr>]\<rparr>"

text \<open>The cluster's name is among the target tags of the rule.\<close>
definition taggedRule :: "'p ComputeService \<Rightarrow> firewall \<Rightarrow> bool" where
  "taggedRule s fw = list_ex (\<lambda>tt. tt = ClusterScope.Name (cscope s)) (TargetTags fw)"

section \<open>Lemmas about runs\<close>

lemma getCall_run:
  "getCall c f st = (r, st') \<Longrightarrow>
     status st' = status st \<and> calls st' = calls st @ [(c, errOf r)] \<and> f (world st) = (r, world st')"
  by (auto simp: getCall_def split: prod.splits)

lemma mutCall_run:
  "mutCall c f st = (r, st') \<Longrightarrow>
     status st' = status st \<and> calls st' = calls st @ [(c, r)] \<and> f (world st) = (r, world st')"
  by (auto simp: mutCall_def split: prod.splits)

lemmas do_defs = do_networks_Get_def do_networks_Insert_def do_networks_Delete_def
  do_subnetworks_Get_def do_subnetworks_Insert_def do_subnetworks_Delete_def
  do_routers_Get_def do_routers_Insert_def do_routers_Delete_def
  do_routes_List_def do_routes_Delete_def

lemma discipline_Nil [simp]: "discipline None []"
  by (simp add: discipline_def)

lemma discipline_append:
  "discipline None a \<Longrightarrow> discipline r b \<Longrightarrow> discipline r (a @ b)"
  by (cases b rule: rev_cases) (auto simp: discipline_def butlast_append split: option.splits)

lemma discipline_Cons:
  "snd c = None \<Longrightarrow> discipline r new \<Longrightarrow> discipline r (c # new)"
  using discipline_append[of "[c]" r new] by (simp add: discipline_def passed_def)

lemma discipline_single_None [simp]: "discipline None [(c, None)]"
  by (simp add: discipline_def passed_def)

lemma discipline_single_Some:
  "\<not> tolerated (c, Some e) \<Longrightarrow> discipline (Some e) [(c, Some e)]"
  by (simp add: discipline_def)

lemma discipline_single_tolerated:
  "tolerated (c, e) \<Longrightarrow> discipline None [(c, e)]"
  by (simp add: discipline_def passed_def)

lemma deleteRouter_run:
  assumes "deleteRouter api s st = (r, st')"
  shows "status st' = status st \<and>
     (\<exists>new. calls st' = calls st @ new \<and>
        list_all (\<lambda>c. fst c = RoutersGet (routerKey (scope s)) \<or> fst c = RoutersDelete (routerKey (scope s))) new \<and>
        discipline r new \<and>
        (list_ex (\<lambda>c. fst c = RoutersDelete (routerKey (scope s))) new \<longrightarrow>
           (\<exists>rt w. routers_Get s (routerKey (scope s)) (world st) = (Inr rt, w) \<and>
                   router.Description rt = ClusterTagKey api (Scope.Name (scope s)))))"
  using assms unfolding deleteRouter_def Let_def do_defs routerKey_def
  by (auto simp: discipline_def passed_def tolerated_def errOf_def IsNotFound_def
           split: prod.splits sum.splits if_splits option.splits
           dest!: getCall_run mutCall_run)

lemma deleteSubnets_run:
  "deleteSubnets s xs st = (r, st') \<Longrightarrow>
     status st' = status st \<and>
     (\<exists>new. calls st' = calls st @ new \<and>
        list_all (\<lambda>c. list_ex (\<lambda>x. fst c = SubnetworksGet (subnetKey x) \<or> fst c = SubnetworksDelete (subnetKey x)) xs) new \<and>
        discipline r new)"
proof (induction xs arbitrary: st)
  case Nil
  then show ?case by simp
next
  case (Cons x xs)
  let ?k = "subnetKey x"
  let ?P = "\<lambda>ys c. list_ex (\<lambda>x. fst c = SubnetworksGet (subnetKey x) \<or> fst c = SubnetworksDelete (subnetKey x)) ys"
  have mono: "list_all (?P xs) new \<Longrightarrow> list_all (?P (x # xs)) new" for new
    by (induction new) auto
  obtain g st1 where g: "do_subnetworks_Get s ?k st = (g, st1)" by (cases "do_subnetworks_Get s ?k st")
  then have g': "status st1 = status st" "calls st1 = calls st @ [(SubnetworksGet ?k, errOf g)]"
    by (auto simp: do_defs dest: getCall_run)
  show ?case
  proof (cases g)
    case (Inl err)
    show ?thesis
    proof (cases "IsNotFound err")
      case True
      with Cons.prems g Inl have "deleteSubnets s xs st1 = (r, st')" by (simp add: subnetKey_def)
      from Cons.IH[OF this] obtain new where n: "status st' = status st1" "calls st' = calls st1 @ new"
        "list_all (?P xs) new" "discipline r new"
        by blast
      have "discipline None [(SubnetworksGet ?k, errOf g)]" using True Inl
        by (intro discipline_single_tolerated) (simp add: tolerated_def errOf_def IsNotFound_def)
      with n have "discipline r ((SubnetworksGet ?k, errOf g) # new)"
        using discipline_append by fastforce
      with n g' mono[OF n(3)] show ?thesis
        by (intro conjI exI[of _ "(SubnetworksGet ?k, errOf g) # new"]) auto
    next
      case False
      with Cons.prems g Inl have "r = Some err" "st' = st1" by (simp_all add: subnetKey_def)
      then show ?thesis using g' Inl False
        by (auto simp: discipline_def tolerated_def errOf_def IsNotFound_def)
    qed
  next
    case (Inr sn)
    obtain d st2 where d: "do_subnetworks_Delete s ?k st1 = (d, st2)" by (cases "do_subnetworks_Delete s ?k st1")
    then have d': "status st2 = status st1" "calls st2 = calls st1 @ [(SubnetworksDelete ?k, d)]"
      by (auto simp: do_defs dest: mutCall_run)
    show ?thesis
    proof (cases d)
      case None
      with Cons.prems g Inr d have "deleteSubnets s xs st2 = (r, st')" by (simp add: subnetKey_def)
      from Cons.IH[OF this] obtain new where n: "status st' = status st2" "calls st' = calls st2 @ new"
        "list_all (?P xs) new" "discipline r new"
        by blast
      have "discipline None [(SubnetworksGet ?k, None), (SubnetworksDelete ?k, None)]"
        by (simp add: discipline_def passed_def)
      with n have "discipline r ([(SubnetworksGet ?k, None), (SubnetworksDelete ?k, None)] @ new)"
        by (intro discipline_append)
      with n g' d' Inr None mono[OF n(3)] show ?thesis
        by (intro conjI exI[of _ "(SubnetworksGet ?k, None) # (SubnetworksDelete ?k, None) # new"])
           (auto simp: errOf_def)
    next
      case (Some e)
      with Cons.prems g Inr d have "r = Some e" "st' = st2" by (simp_all add: subnetKey_def)
      then show ?thesis using g' d' Inr Some
        by (auto simp: discipline_def tolerated_def errOf_def passed_def)
    qed
  qed
qed

lemma deleteRoutes_run:
  "deleteRoutes s rs st = (r, st') \<Longrightarrow>
     status st' = status st \<and>
     (\<exists>new. calls st' = calls st @ new \<and>
        list_all (\<lambda>c. list_ex (\<lambda>rt. HasSuffix (route.Network rt) (Scope.NetworkName (scope s)) \<and>
                                 fst c = RoutesDelete (GlobalKey (route.Name rt))) rs) new \<and>
        discipline r new)"
proof (induction rs arbitrary: st)
  case Nil
  then show ?case by simp
next
  case (Cons x xs)
  let ?P = "\<lambda>ys c. list_ex (\<lambda>rt. HasSuffix (route.Network rt) (Scope.NetworkName (scope s)) \<and>
                                 fst c = RoutesDelete (GlobalKey (route.Name rt))) ys"
  have mono: "list_all (?P xs) new \<Longrightarrow> list_all (?P (x # xs)) new" for new
    by (induction new) auto
  show ?case
  proof (cases "HasSuffix (route.Network x) (Scope.NetworkName (scope s))")
    case False
    with Cons.prems have "deleteRoutes s xs st = (r, st')" by simp
    from Cons.IH[OF this] mono show ?thesis by blast
  next
    case True
    let ?k = "GlobalKey (route.Name x)"
    obtain d st1 where d: "do_routes_Delete s ?k st = (d, st1)" by (cases "do_routes_Delete s ?k st")
    then have d': "status st1 = status st" "calls st1 = calls st @ [(RoutesDelete ?k, d)]"
      by (auto simp: do_defs dest: mutCall_run)
    show ?thesis
    proof (cases d)
      case None
      with Cons.prems True d have "deleteRoutes s xs st1 = (r, st')" by simp
      from Cons.IH[OF this] obtain new where n: "status st' = status st1" "calls st' = calls st1 @ new"
        "list_all (?P xs) new" "discipline r new"
        by blast
      from n have "discipline r ([(RoutesDelete ?k, None)] @ new)"
        by (intro discipline_append) simp_all
      with n d' None True mono[OF n(3)] show ?thesis
        by (intro conjI exI[of _ "(RoutesDelete ?k, None) # new"]) auto
    next
      case (Some e)
      with Cons.prems True d have "r = Some e" "st' = st1" by simp_all
      then show ?thesis using d' Some True
        by (auto simp: discipline_def tolerated_def)
    qed
  qed
qed

lemma Delete_owned_run:
  assumes ns: "\<not> IsSharedVpc (scope s)"
      and get: "networks_Get s (networkKey (scope s)) (world st) = (Inr nw, w1)"
      and own: "network.Description nw = ClusterTagKey api (Scope.Name (scope s))"
      and run: "Delete api s st = (r, st')"
  shows "\<exists>n1 n2 n3 n4.
          calls st' = calls st @ (NetworksGet (networkKey (scope s)), None) # n1 @ n2 @ n3 @ n4 \<and>
          list_all (\<lambda>c. fst c = RoutersGet (routerKey (scope s)) \<or> fst c = RoutersDelete (routerKey (scope s))) n1 \<and>
          (list_ex (\<lambda>c. fst c = RoutersDelete (routerKey (scope s))) n1 \<longrightarrow>
             (\<exists>rt w. routers_Get s (routerKey (scope s)) w1 = (Inr rt, w) \<and>
                     router.Description rt = ClusterTagKey api (Scope.Name (scope s)))) \<and>
          list_all (\<lambda>c. list_ex (\<lambda>x. fst c = SubnetworksGet (subnetKey x) \<or> fst c = SubnetworksDelete (subnetKey x))
                            (SubnetworkSpec (scope s))) n2 \<and>
          (n2 \<noteq> [] \<longrightarrow> \<not> AutoCreateSubnetworks nw) \<and>
          list_all (\<lambda>c. fst c = RoutesList nodeRoutes \<or>
                        (\<exists>rs w w'. routes_List s nodeRoutes w = (Inr rs, w') \<and>
                           list_ex (\<lambda>rt. HasSuffix (route.Network rt) (Scope.NetworkName (scope s)) \<and>
                                         fst c = RoutesDelete (GlobalKey (route.Name rt))) rs)) n3 \<and>
          list_all (\<lambda>c. fst c = NetworksDelete (networkKey (scope s))) n4 \<and>
          discipline r ((NetworksGet (networkKey (scope s)), None) # n1 @ n2 @ n3 @ n4) \<and>
          (case r of
             None \<Rightarrow> n4 = [(NetworksDelete (networkKey (scope s)), None)] \<and> status st' = cleared (status st)
           | Some _ \<Rightarrow> status st' = status st)"
proof -
  let ?k = "networkKey (scope s)"
  let ?rk = "routerKey (scope s)"
  let ?g = "(NetworksGet ?k, None :: error option)"
  define st1 where "st1 = st\<lparr>world := w1, calls := calls st @ [?g]\<rparr>"
  have g: "do_networks_Get s (GlobalKey (Scope.NetworkName (scope s))) st = (Inr nw, st1)"
    using get by (simp add: do_defs getCall_def st1_def errOf_def networkKey_def)
  have st1: "status st1 = status st" "calls st1 = calls st @ [?g]" "world st1 = w1"
    by (simp_all add: st1_def)
  have dg: "discipline None [?g]" by simp
  obtain r1 st2 where s1: "deleteRouter api s st1 = (r1, st2)" by (cases "deleteRouter api s st1")
  from deleteRouter_run[OF s1] st1 obtain n1 where n1:
    "status st2 = status st" "calls st2 = calls st @ ?g # n1"
    "list_all (\<lambda>c. fst c = RoutersGet ?rk \<or> fst c = RoutersDelete ?rk) n1" "discipline r1 n1"
    "list_ex (\<lambda>c. fst c = RoutersDelete ?rk) n1 \<longrightarrow>
       (\<exists>rt w. routers_Get s ?rk w1 = (Inr rt, w) \<and> router.Description rt = ClusterTagKey api (Scope.Name (scope s)))"
    by auto
  show ?thesis
  proof (cases r1)
    case (Some e)
    with run ns g own s1 have "r = Some e" "st' = st2" by (simp_all add: Delete_def)
    moreover have "discipline (Some e) ([?g] @ n1)" using n1(4) Some by (simp add: discipline_Cons)
    ultimately show ?thesis using n1 Some
      by (intro exI[of _ n1] exI[of _ "[]"]) simp
  next
    case None
    define sub where "sub = (if \<not> AutoCreateSubnetworks nw then deleteSubnets s (SubnetworkSpec (scope s)) st2 else (None, st2))"
    obtain r2 st3 where s2: "sub = (r2, st3)" by (cases sub)
    have "\<exists>n2. status st3 = status st2 \<and> calls st3 = calls st2 @ n2 \<and>
            list_all (\<lambda>c. list_ex (\<lambda>x. fst c = SubnetworksGet (subnetKey x) \<or> fst c = SubnetworksDelete (subnetKey x))
                            (SubnetworkSpec (scope s))) n2 \<and>
            (n2 \<noteq> [] \<longrightarrow> \<not> AutoCreateSubnetworks nw) \<and> discipline r2 n2"
    proof (cases "AutoCreateSubnetworks nw")
      case True
      with s2 show ?thesis by (intro exI[of _ "[]"]) (auto simp: sub_def)
    next
      case False
      with s2 have "deleteSubnets s (SubnetworkSpec (scope s)) st2 = (r2, st3)" by (simp add: sub_def)
      from deleteSubnets_run[OF this] False show ?thesis by blast
    qed
    then obtain n2 where n2: "status st3 = status st2" "calls st3 = calls st2 @ n2"
      "list_all (\<lambda>c. list_ex (\<lambda>x. fst c = SubnetworksGet (subnetKey x) \<or> fst c = SubnetworksDelete (subnetKey x))
                            (SubnetworkSpec (scope s))) n2"
      "n2 \<noteq> [] \<longrightarrow> \<not> AutoCreateSubnetworks nw" "discipline r2 n2"
      by blast
    have d1: "discipline None ([?g] @ n1)" using n1(4) None by (simp add: discipline_Cons)
    have d12: "discipline r2 (([?g] @ n1) @ n2)"
      using d1 n2(5) by (rule discipline_append)
    show ?thesis
    proof (cases r2)
      case (Some e)
      with run ns g own s1 None s2 have "r = Some e" "st' = st3" by (simp_all add: Delete_def sub_def)
      then show ?thesis using n1 n2 Some d12
        by (intro exI[of _ n1] exI[of _ n2] exI[of _ "[]"]) simp
    next
      case None2: None
      obtain l st4 where l: "do_routes_List s nodeRoutes st3 = (l, st4)" by (cases "do_routes_List s nodeRoutes st3")
      then have l': "status st4 = status st3" "calls st4 = calls st3 @ [(RoutesList nodeRoutes, errOf l)]"
        "routes_List s nodeRoutes (world st3) = (l, world st4)"
        by (auto simp: do_defs dest: getCall_run)
      show ?thesis
      proof (cases l)
        case (Inl e)
        with run ns g own s1 None s2 None2 l have "r = Some e" "st' = st4"
          by (simp_all add: Delete_def sub_def nodeRoutes_def)
        moreover have "discipline (Some e) ((([?g] @ n1) @ n2) @ [(RoutesList nodeRoutes, Some e)])"
          using d12 None2 by (intro discipline_append[where b = "[_]"] discipline_single_Some) (simp_all add: tolerated_def)
        ultimately show ?thesis using n1 n2 l' Inl
          by (intro exI[of _ n1] exI[of _ n2] exI[of _ "[(RoutesList nodeRoutes, Some e)]"] exI[of _ "[]"])
             (simp add: errOf_def)
      next
        case (Inr rs)
        obtain r3 st5 where s3: "deleteRoutes s rs st4 = (r3, st5)" by (cases "deleteRoutes s rs st4")
        from deleteRoutes_run[OF s3] obtain n3 where n3: "status st5 = status st4" "calls st5 = calls st4 @ n3"
          "list_all (\<lambda>c. list_ex (\<lambda>rt. HasSuffix (route.Network rt) (Scope.NetworkName (scope s)) \<and>
                                 fst c = RoutesDelete (GlobalKey (route.Name rt))) rs) n3" "discipline r3 n3"
          by blast
        let ?l = "(RoutesList nodeRoutes, None :: error option)"
        let ?P3 = "\<lambda>c. fst c = RoutesList nodeRoutes \<or>
                        (\<exists>rs w w'. routes_List s nodeRoutes w = (Inr rs, w') \<and>
                           list_ex (\<lambda>rt. HasSuffix (route.Network rt) (Scope.NetworkName (scope s)) \<and>
                                         fst c = RoutesDelete (GlobalKey (route.Name rt))) rs)"
        have p3: "list_all ?P3 (?l # n3)"
          using n3(3) l'(3) Inr by (auto simp: list_all_iff)
        have d12l: "discipline None ((([?g] @ n1) @ n2) @ [?l])"
          using d12 None2 by (intro discipline_append[where b = "[_]"]) simp_all
        have d123: "discipline r3 (((([?g] @ n1) @ n2) @ [?l]) @ n3)"
          using d12l n3(4) by (rule discipline_append)
        show ?thesis
        proof (cases r3)
          case (Some e)
          with run ns g own s1 None s2 None2 l Inr s3 have "r = Some e" "st' = st5"
            by (simp_all add: Delete_def sub_def nodeRoutes_def)
          then show ?thesis using n1 n2 n3 l' Inr Some d123 p3
            by (intro exI[of _ n1] exI[of _ n2] exI[of _ "?l # n3"] exI[of _ "[]"]) (simp add: errOf_def)
        next
          case None3: None
          obtain d st6 where d: "do_networks_Delete s (GlobalKey (Scope.NetworkName (scope s))) st5 = (d, st6)"
            by (cases "do_networks_Delete s (GlobalKey (Scope.NetworkName (scope s))) st5")
          then have d': "status st6 = status st5" "calls st6 = calls st5 @ [(NetworksDelete ?k, d)]"
            by (auto simp: do_defs networkKey_def dest: mutCall_run)
          show ?thesis
          proof (cases d)
            case (Some e)
            with run ns g own s1 None s2 None2 l Inr s3 None3 d have "r = Some e" "st' = st6"
              by (simp_all add: Delete_def sub_def nodeRoutes_def)
            moreover have "discipline (Some e) ((((([?g] @ n1) @ n2) @ [?l]) @ n3) @ [(NetworksDelete ?k, Some e)])"
              using d123 None3 by (intro discipline_append[where b = "[_]"] discipline_single_Some) (simp_all add: tolerated_def)
            ultimately show ?thesis using n1 n2 n3 l' d' Inr Some p3
              by (intro exI[of _ n1] exI[of _ n2] exI[of _ "?l # n3"] exI[of _ "[(NetworksDelete ?k, Some e)]"])
                 (simp add: errOf_def)
          next
            case None4: None
            with run ns g own s1 None s2 None2 l Inr s3 None3 d
            have "r = None" "st' = st6\<lparr>status := cleared (status st6)\<rparr>"
              by (simp_all add: Delete_def sub_def nodeRoutes_def cleared_def)
            moreover have "discipline None ((((([?g] @ n1) @ n2) @ [?l]) @ n3) @ [(NetworksDelete ?k, None)])"
              using d123 None3 by (intro discipline_append[where b = "[_]"]) simp_all
            ultimately show ?thesis using n1 n2 n3 l' d' Inr None4 p3
              by (intro exI[of _ n1] exI[of _ n2] exI[of _ "?l # n3"] exI[of _ "[(NetworksDelete ?k, None)]"])
                 (simp add: errOf_def)
          qed
        qed
      qed
    qed
  qed
qed

lemma map_filter_append: "List.map_filter f (xs @ ys) = List.map_filter f xs @ List.map_filter f ys"
  by (simp add: List.map_filter_def)

lemma onlyStep_Nil [simp]: "onlyStep ph k []"
  by (simp add: onlyStep_def)

lemma onlyStep_append [simp]: "onlyStep ph k (a @ b) = (onlyStep ph k a \<and> onlyStep ph k b)"
  by (simp add: onlyStep_def)

lemma onlyStep_Cons [simp]:
  "onlyStep ph k (c # b) = ((ph (fst c) = None \<or> ph (fst c) = Some k) \<and> onlyStep ph k b)"
  by (simp add: onlyStep_def)

lemma fromStep_Nil [simp]: "fromStep ph k []"
  by (simp add: fromStep_def List.map_filter_def)

lemma onlyStep_map_filter: "onlyStep ph k a \<Longrightarrow> set (List.map_filter ph (map fst a)) \<subseteq> {k}"
  by (induction a) (auto simp: List.map_filter_def onlyStep_def)

lemma fromStep_append:
  assumes "onlyStep ph k a" "fromStep ph j b" "k \<le> j"
  shows "fromStep ph k (a @ b)"
proof -
  have a: "set (List.map_filter ph (map fst a)) \<subseteq> {k}" using assms(1) by (rule onlyStep_map_filter)
  have const_sorted: "set xs \<subseteq> {k} \<Longrightarrow> sorted xs" for xs :: "nat list"
    by (induction xs) auto
  from a have "sorted (List.map_filter ph (map fst a))" by (rule const_sorted)
  with a assms(2,3) show ?thesis
    by (fastforce simp: fromStep_def map_filter_append sorted_append list_all_iff)
qed

lemma fromStep_inOrder: "fromStep ph k new \<Longrightarrow> inOrder ph new"
  by (simp add: fromStep_def inOrder_def)

lemmas doDo_defs = do_networks_Get_Do_def do_networks_Insert_Do_def do_networks_Delete_Do_def
  do_subnetworks_Get_Do_def do_subnetworks_Insert_Do_def do_subnetworks_Delete_Do_def
  do_routers_Get_Do_def do_routers_Insert_Do_def do_routers_Patch_Do_def do_routers_Delete_Do_def
  do_routes_List_Filter_Do_def do_routes_Delete_Do_def
  do_firewalls_Get_Do_def do_firewalls_Insert_Do_def do_firewalls_Delete_Do_def do_firewalls_List_Do_def
  do_instances_Get_Do_def do_instances_Delete_Do_def do_runInstance_def do_ForComputeOperation_def

lemma checkOrWait_run:
  "checkOrWaitForDeleteOp s r st = (x, st') \<Longrightarrow>
     status st' = status st \<and>
     (\<exists>new. calls st' = calls st @ new \<and> list_all (\<lambda>c. \<exists>p op. fst c = WaitForComputeOperation p op) new)"
  by (auto simp: checkOrWaitForDeleteOp_def doDo_defs split: sum.splits if_splits dest!: mutCall_run)

lemma checkOrWait_step:
  "checkOrWaitForDeleteOp s r st = (x, st') \<Longrightarrow>
     status st' = status st \<and> (\<exists>new. calls st' = calls st @ new \<and> onlyStep deleteStepDo k new)"
  by (drule checkOrWait_run) (fastforce simp: onlyStep_def list_all_iff)

lemma deleteNetworkRouter_step:
  "deleteNetworkRouter s st = (r, st') \<Longrightarrow>
     status st' = status st \<and> (\<exists>new. calls st' = calls st @ new \<and> onlyStep deleteStepDo 1 new)"
  unfolding deleteNetworkRouter_def Let_def doDo_defs
  by (auto split: prod.splits sum.splits if_splits option.splits
           dest!: getCall_run checkOrWait_step[where k = 1])

lemma deleteNetworkRoutes_step:
  "deleteNetworkRoutes s nw rs st = (r, st') \<Longrightarrow>
     status st' = status st \<and> (\<exists>new. calls st' = calls st @ new \<and> onlyStep deleteStepDo 2 new)"
proof (induction rs arbitrary: st)
  case Nil
  then show ?case by simp
next
  case (Cons x xs)
  show ?case
  proof (cases "HasSuffix (route.Network x) (network.Name nw)")
    case False
    with Cons show ?thesis by simp
  next
    case True
    obtain d st1 where d: "do_routes_Delete_Do s (Project (cscope s)) (route.Name x) st = (d, st1)"
      by (cases "do_routes_Delete_Do s (Project (cscope s)) (route.Name x) st")
    then have d': "status st1 = status st"
      "calls st1 = calls st @ [(RoutesDeleteDo (Project (cscope s)) (route.Name x), errOf d)]"
      by (auto simp: doDo_defs dest: getCall_run)
    obtain c st2 where c: "checkOrWaitForDeleteOp s d st1 = (c, st2)" by (cases "checkOrWaitForDeleteOp s d st1")
    from checkOrWait_step[OF c, of 2] obtain n1 where n1: "status st2 = status st1" "calls st2 = calls st1 @ n1"
      "onlyStep deleteStepDo 2 n1" by blast
    show ?thesis
    proof (cases c)
      case (Some e)
      with Cons.prems True d c have "st' = st2" by simp
      with d' n1 show ?thesis by auto
    next
      case None
      with Cons.prems True d c have "deleteNetworkRoutes s nw xs st2 = (r, st')" by simp
      from Cons.IH[OF this] obtain n2 where "status st' = status st2" "calls st' = calls st2 @ n2"
        "onlyStep deleteStepDo 2 n2" by blast
      with d' n1 show ?thesis
        by (intro conjI exI[of _ "(RoutesDeleteDo (Project (cscope s)) (route.Name x), errOf d) # n1 @ n2"])
           auto
    qed
  qed
qed

lemma deleteSubnetworks_step:
  "deleteSubnetworks s urls st = (r, st') \<Longrightarrow>
     status st' = status st \<and> (\<exists>new. calls st' = calls st @ new \<and> onlyStep deleteStepDo 3 new)"
proof (induction urls arbitrary: st)
  case Nil
  then show ?case by simp
next
  case (Cons x xs)
  show ?case
  proof (cases "getSubnetNameFromUrl x = []")
    case True
    with Cons show ?thesis by simp
  next
    case False
    let ?c = "SubnetworksDeleteDo (Project (cscope s)) (ClusterScope.Region (cscope s)) (getSubnetNameFromUrl x)"
    obtain d st1 where d: "do_subnetworks_Delete_Do s (Project (cscope s)) (ClusterScope.Region (cscope s)) (getSubnetNameFromUrl x) st = (d, st1)"
      by (cases "do_subnetworks_Delete_Do s (Project (cscope s)) (ClusterScope.Region (cscope s)) (getSubnetNameFromUrl x) st")
    then have d': "status st1 = status st" "calls st1 = calls st @ [(?c, errOf d)]"
      by (auto simp: doDo_defs dest: getCall_run)
    show ?thesis
    proof (cases d)
      case (Inl e)
      with Cons.prems False d have "st' = st1" by simp
      with d' show ?thesis by auto
    next
      case (Inr op)
      obtain c st2 where c: "do_ForComputeOperation s (Project (cscope s)) op st1 = (c, st2)"
        by (cases "do_ForComputeOperation s (Project (cscope s)) op st1")
      then have c': "status st2 = status st1"
        "calls st2 = calls st1 @ [(WaitForComputeOperation (Project (cscope s)) op, c)]"
        by (auto simp: doDo_defs dest: mutCall_run)
      show ?thesis
      proof (cases c)
        case (Some e)
        with Cons.prems False d Inr c have "st' = st2" by simp
        with d' c' show ?thesis by auto
      next
        case None
        with Cons.prems False d Inr c have "deleteSubnetworks s xs st2 = (r, st')" by simp
        from Cons.IH[OF this] obtain n2 where "status st' = status st2" "calls st' = calls st2 @ n2"
          "onlyStep deleteStepDo 3 n2" by blast
        with d' c' show ?thesis
          by (intro conjI exI[of _ "(?c, errOf d) # (WaitForComputeOperation (Project (cscope s)) op, c) # n2"])
             auto
      qed
    qed
  qed
qed

lemma fromStep_single_None [simp]: "ph c = None \<Longrightarrow> fromStep ph k [(c, e)]"
  by (simp add: fromStep_def List.map_filter_def)

lemma fromStep_onlyStep: "onlyStep ph k a \<Longrightarrow> fromStep ph k a"
  using fromStep_append[of ph k a k "[]"] by simp

lemma fromStep_mono: "fromStep ph j a \<Longrightarrow> k \<le> j \<Longrightarrow> fromStep ph k a"
  using fromStep_append[of ph k "[]" j a] by simp

lemma fromStep_prepend:
  "fromStep ph j b \<Longrightarrow> onlyStep ph k a \<Longrightarrow> k \<le> j \<Longrightarrow> fromStep ph k (a @ b)"
  by (rule fromStep_append)

lemma DeleteNetwork_owned_run:
  assumes get: "networks_Get_Do s (Project (cscope s)) (ClusterScope.NetworkName (cscope s)) (world st) = (Inr nw, w1)"
      and own: "network.Description nw = ClusterTagKey api (ClusterScope.Name (cscope s))"
      and run: "DeleteNetwork api s st = (r, st')"
  shows "\<exists>new. calls st' = calls st @ (NetworksGetDo (Project (cscope s)) (ClusterScope.NetworkName (cscope s)), None) # new \<and>
           fromStep deleteStepDo 1 new \<and>
           (status st' = status st \<or> (r = None \<and> status st' = (status st)\<lparr>Spec_Network_Name := None\<rparr>))"
proof -
  let ?p = "Project (cscope s)"
  let ?g = "(NetworksGetDo ?p (ClusterScope.NetworkName (cscope s)), None :: error option)"
  let ?fs = "''description='' @ k8sNodeRouteTag @ '' name='' @ ClusterScope.Name (cscope s) @ ''-*''"
  define st1 where "st1 = st\<lparr>world := w1, calls := calls st @ [?g]\<rparr>"
  have g: "do_networks_Get_Do s ?p (ClusterScope.NetworkName (cscope s)) st = (Inr nw, st1)"
    using get by (simp add: doDo_defs getCall_def st1_def errOf_def)
  have st1: "status st1 = status st" "calls st1 = calls st @ [?g]"
    by (simp_all add: st1_def)
  obtain r1 st2 where s1: "deleteNetworkRouter s st1 = (r1, st2)" by (cases "deleteNetworkRouter s st1")
  from deleteNetworkRouter_step[OF s1] st1 obtain n1 where n1:
    "status st2 = status st" "calls st2 = calls st @ ?g # n1" "onlyStep deleteStepDo 1 n1"
    by auto
  show ?thesis
  proof (cases r1)
    case (Some e)
    with run g own s1 have "st' = st2" by (simp add: DeleteNetwork_def)
    with n1 show ?thesis by (auto intro: fromStep_onlyStep)
  next
    case None
    obtain l st3 where l: "do_routes_List_Filter_Do s ?p ?fs st2 = (l, st3)"
      by (cases "do_routes_List_Filter_Do s ?p ?fs st2")
    then have l': "status st3 = status st2" "calls st3 = calls st2 @ [(RoutesListDo ?p ?fs, errOf l)]"
      by (auto simp: doDo_defs dest: getCall_run)
    let ?l = "(RoutesListDo ?p ?fs, errOf l)"
    have n1l: "onlyStep deleteStepDo 1 (n1 @ [?l])" using n1 by simp
    show ?thesis
    proof (cases l)
      case (Inl e)
      with run g own s1 None l have "st' = st3" by (simp add: DeleteNetwork_def)
      with n1 l' n1l show ?thesis by (auto intro: fromStep_onlyStep)
    next
      case (Inr rs)
      obtain r3 st4 where s3: "deleteNetworkRoutes s nw rs st3 = (r3, st4)"
        by (cases "deleteNetworkRoutes s nw rs st3")
      from deleteNetworkRoutes_step[OF s3] obtain n3 where n3:
        "status st4 = status st3" "calls st4 = calls st3 @ n3" "onlyStep deleteStepDo 2 n3"
        by blast
      show ?thesis
      proof (cases r3)
        case (Some e)
        with run g own s1 None l Inr s3 have "st' = st4" by (simp add: DeleteNetwork_def)
        moreover have "fromStep deleteStepDo 1 ((n1 @ [?l]) @ n3)"
          using n1l fromStep_onlyStep[OF n3(3)] by (rule fromStep_append) simp
        ultimately show ?thesis using n1 l' n3 by auto
      next
        case None3: None
        define sub where "sub = (if \<not> AutoCreateSubnetworks nw then deleteSubnetworks s (Subnetworks nw) st4 else (None, st4))"
        obtain r4 st5 where s4: "sub = (r4, st5)" by (cases sub)
        have "\<exists>n4. status st5 = status st4 \<and> calls st5 = calls st4 @ n4 \<and> onlyStep deleteStepDo 3 n4"
        proof (cases "AutoCreateSubnetworks nw")
          case True
          with s4 show ?thesis by (intro exI[of _ "[]"]) (auto simp: sub_def)
        next
          case False
          with s4 have "deleteSubnetworks s (Subnetworks nw) st4 = (r4, st5)" by (simp add: sub_def)
          from deleteSubnetworks_step[OF this] show ?thesis by blast
        qed
        then obtain n4 where n4: "status st5 = status st4" "calls st5 = calls st4 @ n4" "onlyStep deleteStepDo 3 n4"
          by blast
        show ?thesis
        proof (cases r4)
          case (Some e)
          with run g own s1 None l Inr s3 None3 s4 have "st' = st5" by (simp add: DeleteNetwork_def sub_def)
          moreover have "fromStep deleteStepDo 2 (n3 @ n4)"
            using n3(3) fromStep_onlyStep[OF n4(3)] by (rule fromStep_append) simp
          then have "fromStep deleteStepDo 1 ((n1 @ [?l]) @ n3 @ n4)"
            using n1l by (rule fromStep_prepend) simp
          ultimately show ?thesis using n1 l' n3 n4 by auto
        next
          case None4: None
          let ?dc = "NetworksDeleteDo ?p (network.Name nw)"
          obtain d st6 where d: "do_networks_Delete_Do s ?p (network.Name nw) st5 = (d, st6)"
            by (cases "do_networks_Delete_Do s ?p (network.Name nw) st5")
          then have d': "status st6 = status st5" "calls st6 = calls st5 @ [(?dc, errOf d)]"
            by (auto simp: doDo_defs dest: getCall_run)
          obtain c st7 where c: "checkOrWaitForDeleteOp s d st6 = (c, st7)" by (cases "checkOrWaitForDeleteOp s d st6")
          from checkOrWait_step[OF c, of 4] obtain n5 where n5: "status st7 = status st6" "calls st7 = calls st6 @ n5"
            "onlyStep deleteStepDo 4 n5" by blast
          have "fromStep deleteStepDo 4 ((?dc, errOf d) # n5)"
            using n5(3) by (intro fromStep_onlyStep) simp
          then have "fromStep deleteStepDo 3 (n4 @ (?dc, errOf d) # n5)"
            using n4(3) by (rule fromStep_prepend) simp
          then have "fromStep deleteStepDo 2 (n3 @ n4 @ (?dc, errOf d) # n5)"
            using n3(3) by (rule fromStep_prepend) simp
          then have f: "fromStep deleteStepDo 1 ((n1 @ [?l]) @ n3 @ n4 @ (?dc, errOf d) # n5)"
            using n1l by (rule fromStep_prepend) simp
          have cl: "calls st7 = calls st @ ?g # (n1 @ [?l]) @ n3 @ n4 @ (?dc, errOf d) # n5"
            using n1 l' n3 n4 d' n5 by simp
          have stt: "status st7 = status st" using n1 l' n3 n4 d' n5 by simp
          show ?thesis
          proof (cases c)
            case (Some e)
            with run g own s1 None l Inr s3 None3 s4 None4 d c have "st' = st7"
              by (simp add: DeleteNetwork_def sub_def)
            with f cl stt show ?thesis by blast
          next
            case None5: None
            with run g own s1 None l Inr s3 None3 s4 None4 d c
            have "r = None" "st' = st7\<lparr>status := (status st7)\<lparr>Spec_Network_Name := None\<rparr>\<rparr>"
              by (simp_all add: DeleteNetwork_def sub_def)
            with f cl stt show ?thesis by (intro exI[of _ "(n1 @ [?l]) @ n3 @ n4 @ (?dc, errOf d) # n5"]) simp
          qed
        qed
      qed
    qed
  qed
qed

lemma DeleteNetwork_not_owned:
  assumes "networks_Get_Do s (Project (cscope s)) (ClusterScope.NetworkName (cscope s)) (world st) = (g, w1)"
      and "case g of Inl e \<Rightarrow> True | Inr nw \<Rightarrow> network.Description nw \<noteq> ClusterTagKey api (ClusterScope.Name (cscope s))"
  shows "DeleteNetwork api s st =
           ((case g of Inl e \<Rightarrow> if IsNotFound e then None else Some NilPointerPanic | Inr _ \<Rightarrow> None),
            st\<lparr>world := w1,
               calls := calls st @ [(NetworksGetDo (Project (cscope s)) (ClusterScope.NetworkName (cscope s)), errOf g)]\<rparr>)"
  using assms by (auto simp: DeleteNetwork_def doDo_defs getCall_def split: sum.splits)

lemma Delete_not_owned:
  assumes "\<not> IsSharedVpc (scope s)"
      and "networks_Get s (networkKey (scope s)) (world st) = (g, w1)"
      and "case g of Inl e \<Rightarrow> True | Inr nw \<Rightarrow> network.Description nw \<noteq> ClusterTagKey api (Scope.Name (scope s))"
  shows "Delete api s st =
           ((case g of Inl e \<Rightarrow> IgnoreNotFound e | Inr _ \<Rightarrow> None),
            st\<lparr>world := w1, calls := calls st @ [(NetworksGet (networkKey (scope s)), errOf g)]\<rparr>)"
  using assms by (auto simp: Delete_def do_defs getCall_def networkKey_def split: sum.splits)

lemma Delete_shared:
  "IsSharedVpc (scope s) \<Longrightarrow> Delete api s st = (None, st\<lparr>status := cleared (status st)\<rparr>)"
  by (simp add: Delete_def cleared_def)

lemma issued_append [simp]: "calls st' = calls st @ new \<Longrightarrow> issued st st' = new"
  by (simp add: issued_def)

lemma issued_self [simp]: "issued st (st\<lparr>status := x\<rparr>) = []"
  by (simp add: issued_def)

lemma Delete_discipline: "discipline (fst (Delete api s st)) (issued st (snd (Delete api s st)))"
proof (cases "IsSharedVpc (scope s)")
  case True
  then show ?thesis by (simp add: Delete_shared)
next
  case False
  obtain g w1 where g: "networks_Get s (networkKey (scope s)) (world st) = (g, w1)"
    by (cases "networks_Get s (networkKey (scope s)) (world st)")
  show ?thesis
  proof (cases "case g of Inl e \<Rightarrow> True | Inr nw \<Rightarrow> network.Description nw \<noteq> ClusterTagKey api (Scope.Name (scope s))")
    case True
    from Delete_not_owned[OF False g True] show ?thesis
      by (auto simp: discipline_def passed_def tolerated_def errOf_def IgnoreNotFound_def IsNotFound_def
               split: sum.splits)
  next
    case no: False
    then obtain nw where nw: "g = Inr nw" "network.Description nw = ClusterTagKey api (Scope.Name (scope s))"
      by (cases g) auto
    obtain r st' where run: "Delete api s st = (r, st')" by (cases "Delete api s st")
    from Delete_owned_run[OF False g[unfolded nw(1)] nw(2) run] show ?thesis
      using run by auto
  qed
qed

lemma Delete_status:
  "status (snd (Delete api s st)) = status st \<or>
   (fst (Delete api s st) = None \<and> status (snd (Delete api s st)) = cleared (status st) \<and>
    (IsSharedVpc (scope s) \<or>
     (issued st (snd (Delete api s st)) \<noteq> [] \<and>
      last (issued st (snd (Delete api s st))) = (NetworksDelete (networkKey (scope s)), None))))"
proof (cases "IsSharedVpc (scope s)")
  case True
  then show ?thesis by (simp add: Delete_shared)
next
  case False
  obtain g w1 where g: "networks_Get s (networkKey (scope s)) (world st) = (g, w1)"
    by (cases "networks_Get s (networkKey (scope s)) (world st)")
  show ?thesis
  proof (cases "case g of Inl e \<Rightarrow> True | Inr nw \<Rightarrow> network.Description nw \<noteq> ClusterTagKey api (Scope.Name (scope s))")
    case True
    from Delete_not_owned[OF False g True] show ?thesis by simp
  next
    case no: False
    then obtain nw where nw: "g = Inr nw" "network.Description nw = ClusterTagKey api (Scope.Name (scope s))"
      by (cases g) auto
    obtain r st' where run: "Delete api s st = (r, st')" by (cases "Delete api s st")
    from Delete_owned_run[OF False g[unfolded nw(1)] nw(2) run] show ?thesis
      using run by (cases r) auto
  qed
qed

lemma DeleteNetwork_order: "inOrder deleteStepDo (issued cst (snd (DeleteNetwork api cs cst)))"
proof -
  obtain g w1 where g: "networks_Get_Do cs (Project (cscope cs)) (ClusterScope.NetworkName (cscope cs)) (world cst) = (g, w1)"
    by (cases "networks_Get_Do cs (Project (cscope cs)) (ClusterScope.NetworkName (cscope cs)) (world cst)")
  show ?thesis
  proof (cases "case g of Inl e \<Rightarrow> True | Inr nw \<Rightarrow> network.Description nw \<noteq> ClusterTagKey api (ClusterScope.Name (cscope cs))")
    case True
    from DeleteNetwork_not_owned[OF g True] show ?thesis
      by (simp add: inOrder_def List.map_filter_def)
  next
    case False
    then obtain nw where nw: "g = Inr nw" "network.Description nw = ClusterTagKey api (ClusterScope.Name (cscope cs))"
      by (cases g) auto
    obtain r st' where run: "DeleteNetwork api cs cst = (r, st')" by (cases "DeleteNetwork api cs cst")
    from DeleteNetwork_owned_run[OF g[unfolded nw(1)] nw(2) run] obtain new where
      "calls st' = calls cst @ (NetworksGetDo (Project (cscope cs)) (ClusterScope.NetworkName (cscope cs)), None) # new"
      "fromStep deleteStepDo 1 new" by blast
    moreover from this(2) have "fromStep deleteStepDo 0 ([(NetworksGetDo (Project (cscope cs)) (ClusterScope.NetworkName (cscope cs)), None)] @ new)"
      by (rule fromStep_prepend) simp_all
    ultimately show ?thesis using run by (simp add: fromStep_inOrder)
  qed
qed

lemmas example_defs = exampleApi_def exampleSubnet_def exampleNetwork_def exampleRouter_def exampleRoute_def
  exampleScope_def emptyWorld_def exampleWorld_def foreignNetwork_def foreignWorld_def startRun_def
  exampleClusterScope_def emptyGce_def exampleGce_def foreignGce_def startClusterRun_def

lemmas store_defs = gcpService_def gceService_def storeGet_def storeInsert_def storeDelete_def storeOp_def
  noFaults_def failing_def

lemma deleteIfTagged_run:
  "deleteIfTagged s fw tags st = (r, st') \<Longrightarrow>
     status st' = status st \<and>
     (\<exists>new. calls st' = calls st @ new \<and>
        list_all (\<lambda>c. fst c = FirewallsDeleteDo (Project (cscope s)) (firewall.Name fw) \<or>
                      (\<exists>p op. fst c = WaitForComputeOperation p op)) new \<and>
        (list_ex (\<lambda>c. fst c = FirewallsDeleteDo (Project (cscope s)) (firewall.Name fw)) new
           \<longrightarrow> list_ex (\<lambda>tt. tt = ClusterScope.Name (cscope s)) tags) \<and>
        (r = None \<and> list_ex (\<lambda>tt. tt = ClusterScope.Name (cscope s)) tags
           \<longrightarrow> list_ex (\<lambda>c. fst c = FirewallsDeleteDo (Project (cscope s)) (firewall.Name fw)) new))"
proof (induction tags arbitrary: st)
  case Nil
  then show ?case by simp
next
  case (Cons tt rest)
  let ?d = "FirewallsDeleteDo (Project (cscope s)) (firewall.Name fw)"
  show ?case
  proof (cases "tt = ClusterScope.Name (cscope s)")
    case False
    with Cons.prems have "deleteIfTagged s fw rest st = (r, st')" by simp
    from Cons.IH[OF this] False show ?thesis by auto
  next
    case True
    obtain d st1 where d: "do_firewalls_Delete_Do s (Project (cscope s)) (firewall.Name fw) st = (d, st1)"
      by (cases "do_firewalls_Delete_Do s (Project (cscope s)) (firewall.Name fw) st")
    then have d': "status st1 = status st" "calls st1 = calls st @ [(?d, errOf d)]"
      by (auto simp: doDo_defs dest: getCall_run)
    obtain c st2 where c: "checkOrWaitForDeleteOp s d st1 = (c, st2)" by (cases "checkOrWaitForDeleteOp s d st1")
    from checkOrWait_run[OF c] obtain n1 where n1: "status st2 = status st1" "calls st2 = calls st1 @ n1"
      "list_all (\<lambda>c. \<exists>p op. fst c = WaitForComputeOperation p op) n1" by blast
    show ?thesis
    proof (cases c)
      case (Some e)
      with Cons.prems True d c have "st' = st2" "r \<noteq> None" by auto
      with d' n1 True show ?thesis
        by (intro conjI exI[of _ "(?d, errOf d) # n1"]) (auto simp: list_all_iff)
    next
      case None
      with Cons.prems True d c have "deleteIfTagged s fw rest st2 = (r, st')" by simp
      from Cons.IH[OF this] obtain n2 where n2: "status st' = status st2" "calls st' = calls st2 @ n2"
        "list_all (\<lambda>c. fst c = ?d \<or> (\<exists>p op. fst c = WaitForComputeOperation p op)) n2"
        by blast
      with d' n1 True show ?thesis
        by (intro conjI exI[of _ "(?d, errOf d) # n1 @ n2"]) (auto simp: list_all_iff)
    qed
  qed
qed

lemma url_Parse_network_reference:
  "url_Parse parseAuthority ''projects/myproject/global/networks/my-network'' =
     Inr \<lparr>Scheme = [], Opaque = [], Path = ''projects/myproject/global/networks/my-network'',
          RawQuery = [], Fragment = []\<rparr>"
  by (simp add: url_Parse_def Cut_def url_parse_def stringContainsCTLByte_def getScheme_def isLetter_def
        isDigit_def HasSuffix_def HasPrefix_def toLower_def Let_def)

lemma createOrGetRouter_existing:
  "routers_Get s (routerKey (scope s)) (world st) = (Inr rt, w) \<Longrightarrow>
     createOrGetRouter api s nw st =
       (Inr rt, st\<lparr>world := w, calls := calls st @ [(RoutersGet (routerKey (scope s)), None)]\<rparr>)"
  by (simp add: createOrGetRouter_def Let_def do_defs getCall_def errOf_def routerKey_def)

lemma getOrInsertNatRouter_existing:
  "routers_Get_Do s (Project (cscope s)) (ClusterScope.Region (cscope s))
      (getRouterName (ClusterScope.NetworkName (cscope s))) (world st) = (Inr rt, w) \<Longrightarrow>
     getOrInsertNatRouter s nw st =
       (Inr rt, st\<lparr>world := w,
                  calls := calls st @ [(RoutersGetDo (Project (cscope s)) (ClusterScope.Region (cscope s))
                                          (getRouterName (ClusterScope.NetworkName (cscope s))), None)]\<rparr>)"
  by (simp add: getOrInsertNatRouter_def Let_def doDo_defs getCall_def errOf_def)

lemma case_answer_Inr:
  "fst X = Inr op \<Longrightarrow> (case X of (Inl e, w) \<Rightarrow> A e w | (Inr op, w) \<Rightarrow> B op w) = B op (snd X)"
  by (cases X) auto

lemma createOrGetNetwork_run:
  "createOrGetNetwork s st = (r, st') \<Longrightarrow>
     status st' = status st \<and>
     (\<exists>new. calls st' = calls st @ new \<and> list_all (\<lambda>c. \<not> routerCall (fst c)) new)"
  unfolding createOrGetNetwork_def Let_def do_defs
  by (auto split: prod.splits sum.splits if_splits option.splits dest!: getCall_run mutCall_run)

lemma createOrGetSubNetwork_run:
  "createOrGetSubNetwork s x st = (r, st') \<Longrightarrow>
     status st' = status st \<and>
     (\<exists>new. calls st' = calls st @ new \<and> list_all (\<lambda>c. \<not> routerCall (fst c)) new)"
  unfolding createOrGetSubNetwork_def Let_def do_defs
  by (auto split: prod.splits sum.splits if_splits option.splits dest!: getCall_run mutCall_run)

lemma reconcileSubnets_run:
  "reconcileSubnets s xs st = (r, st') \<Longrightarrow>
     status st' = status st \<and>
     (\<exists>new. calls st' = calls st @ new \<and> list_all (\<lambda>c. \<not> routerCall (fst c)) new)"
proof (induction xs arbitrary: st)
  case Nil
  then show ?case by simp
next
  case (Cons x xs)
  obtain g st1 where g: "createOrGetSubNetwork s x st = (g, st1)" by (cases "createOrGetSubNetwork s x st")
  from createOrGetSubNetwork_run[OF g] obtain n1 where
    n1: "status st1 = status st" "calls st1 = calls st @ n1" "list_all (\<lambda>c. \<not> routerCall (fst c)) n1"
    by blast
  show ?case
  proof (cases g)
    case (Inl e)
    with Cons.prems g have "st' = st1" by simp
    with n1 show ?thesis by simp
  next
    case (Inr y)
    with Cons.prems g have "reconcileSubnets s xs st1 = (r, st')" by simp
    from Cons.IH[OF this] n1 show ?thesis by auto
  qed
qed

lemma Reconcile_router_guard:
  "list_ex (\<lambda>c. routerCall (fst c)) (issued st (snd (Reconcile api s st))) \<or>
   Router (status (snd (Reconcile api s st))) \<noteq> Router (status st)
     \<Longrightarrow> \<exists>nw st1. createOrGetNetwork s st = (Inr nw, st1) \<and>
                    network.Description nw = ClusterTagKey api (Scope.Name (scope s))"
proof (rule ccontr)
  assume a: "list_ex (\<lambda>c. routerCall (fst c)) (issued st (snd (Reconcile api s st))) \<or>
   Router (status (snd (Reconcile api s st))) \<noteq> Router (status st)"
  assume n: "\<not> (\<exists>nw st1. createOrGetNetwork s st = (Inr nw, st1) \<and>
                    network.Description nw = ClusterTagKey api (Scope.Name (scope s)))"
  obtain g st1 where g: "createOrGetNetwork s st = (g, st1)" by (cases "createOrGetNetwork s st")
  from createOrGetNetwork_run[OF g] obtain n1 where
    n1: "status st1 = status st" "calls st1 = calls st @ n1" "list_all (\<lambda>c. \<not> routerCall (fst c)) n1"
    by blast
  show False
  proof (cases g)
    case (Inl e)
    with g have "Reconcile api s st = (Some e, st1)" by (simp add: Reconcile_def)
    with a n1 show False by (auto simp: list_all_iff list_ex_iff)
  next
    case (Inr nw)
    with n g have d: "network.Description nw \<noteq> ClusterTagKey api (Scope.Name (scope s))" by simp
    let ?st2 = "st1\<lparr>status := (status st1)\<lparr>NetworkStatus.SelfLink := Some (network.SelfLink nw)\<rparr>\<rparr>"
    obtain r3 st3 where s3: "(if \<not> AutoCreateSubnetworks nw
                 then reconcileSubnets s (SubnetworkSpec (scope s)) ?st2
                 else (None, ?st2)) = (r3, st3)"
      by (cases "(if \<not> AutoCreateSubnetworks nw
                 then reconcileSubnets s (SubnetworkSpec (scope s)) ?st2
                 else (None, ?st2))")
    have "status st3 = status ?st2 \<and>
          (\<exists>new. calls st3 = calls ?st2 @ new \<and> list_all (\<lambda>c. \<not> routerCall (fst c)) new)"
    proof (cases "AutoCreateSubnetworks nw")
      case True
      with s3 show ?thesis by auto
    next
      case False
      with s3 have "reconcileSubnets s (SubnetworkSpec (scope s)) ?st2 = (r3, st3)" by simp
      from reconcileSubnets_run[OF this] show ?thesis .
    qed
    then obtain n3 where n3: "status st3 = status ?st2" "calls st3 = calls ?st2 @ n3"
       "list_all (\<lambda>c. \<not> routerCall (fst c)) n3" by blast
    have run: "Reconcile api s st =
            (case r3 of Some err \<Rightarrow> (Some err, st3)
             | None \<Rightarrow> (None, st3\<lparr>status := (status st3)\<lparr>NetworkStatus.SelfLink := Some (network.SelfLink nw)\<rparr>\<rparr>))"
      using g Inr d s3 by (simp add: Reconcile_def Let_def split: option.splits)
    from a show False unfolding run using n1 n3
      by (cases r3) (auto simp: issued_def list_all_iff list_ex_iff)
  qed
qed

lemma DeleteNetwork_guard:
  assumes g: "networks_Get_Do s (Project (cscope s)) (ClusterScope.NetworkName (cscope s)) (world st) = (g, w1)"
      and m: "list_ex (\<lambda>c. mutatingDo (fst c)) (issued st (snd (DeleteNetwork api s st)))"
  shows "\<exists>nw. g = Inr nw \<and> network.Description nw = ClusterTagKey api (ClusterScope.Name (cscope s))"
proof (rule ccontr)
  assume "\<not> ?thesis"
  then have "case g of Inl e \<Rightarrow> True | Inr nw \<Rightarrow> network.Description nw \<noteq> ClusterTagKey api (ClusterScope.Name (cscope s))"
    by (cases g) auto
  from DeleteNetwork_not_owned[OF g this] m show False by simp
qed

lemma ReconcileBastion_not_owned:
  assumes "networks_Get_Do s (Project (cscope s)) (ClusterScope.NetworkName (cscope s)) (world st) = (g, w1)"
      and "case g of Inl e \<Rightarrow> True | Inr nw \<Rightarrow> network.Description nw \<noteq> ClusterTagKey api (ClusterScope.Name (cscope s))"
  shows "ReconcileBastion api s st =
           ((case g of Inl e \<Rightarrow> if IsNotFound e then None else Some NilPointerPanic | Inr _ \<Rightarrow> None),
            st\<lparr>world := w1,
               calls := calls st @ [(NetworksGetDo (Project (cscope s)) (ClusterScope.NetworkName (cscope s)), errOf g)]\<rparr>)"
  using assms by (auto simp: ReconcileBastion_def doDo_defs getCall_def split: sum.splits)

lemma DeleteBastion_not_owned:
  assumes "networks_Get_Do s (Project (cscope s)) (ClusterScope.NetworkName (cscope s)) (world st) = (g, w1)"
      and "case g of Inl e \<Rightarrow> True | Inr nw \<Rightarrow> network.Description nw \<noteq> ClusterTagKey api (ClusterScope.Name (cscope s))"
  shows "DeleteBastion api s st =
           ((case g of Inl e \<Rightarrow> if IsNotFound e then None else Some NilPointerPanic | Inr _ \<Rightarrow> None),
            st\<lparr>world := w1,
               calls := calls st @ [(NetworksGetDo (Project (cscope s)) (ClusterScope.NetworkName (cscope s)), errOf g)]\<rparr>)"
  using assms by (auto simp: DeleteBastion_def doDo_defs getCall_def split: sum.splits)

lemma ReconcileBastion_guard:
  assumes g: "networks_Get_Do s (Project (cscope s)) (ClusterScope.NetworkName (cscope s)) (world st) = (g, w1)"
      and m: "list_ex (\<lambda>c. mutatingDo (fst c)) (issued st (snd (ReconcileBastion api s st))) \<or>
              status (snd (ReconcileBastion api s st)) \<noteq> status st"
  shows "\<exists>nw. g = Inr nw \<and> network.Description nw = ClusterTagKey api (ClusterScope.Name (cscope s))"
proof (rule ccontr)
  assume "\<not> ?thesis"
  then have "case g of Inl e \<Rightarrow> True | Inr nw \<Rightarrow> network.Description nw \<noteq> ClusterTagKey api (ClusterScope.Name (cscope s))"
    by (cases g) auto
  from ReconcileBastion_not_owned[OF g this] m show False by simp
qed

lemma DeleteBastion_guard:
  assumes g: "networks_Get_Do s (Project (cscope s)) (ClusterScope.NetworkName (cscope s)) (world st) = (g, w1)"
      and m: "list_ex (\<lambda>c. mutatingDo (fst c)) (issued st (snd (DeleteBastion api s st)))"
  shows "\<exists>nw. g = Inr nw \<and> network.Description nw = ClusterTagKey api (ClusterScope.Name (cscope s))"
proof (rule ccontr)
  assume "\<not> ?thesis"
  then have "case g of Inl e \<Rightarrow> True | Inr nw \<Rightarrow> network.Description nw \<noteq> ClusterTagKey api (ClusterScope.Name (cscope s))"
    by (cases g) auto
  from DeleteBastion_not_owned[OF g this] m show False by simp
qed

lemma getNetworkSpec_tag:
  "network.Description (getNetworkSpec api s cl) = ClusterTagKey api (ClusterScope.Name (cscope s)) \<and>
   network.Name (getNetworkSpec api s cl) = ClusterScope.NetworkName (cscope s)"
  by (simp add: getNetworkSpec_def Let_def split: option.splits)

lemma getOrInsertNetwork_run:
  "getOrInsertNetwork s spec st = (r, st') \<Longrightarrow>
     status st' = status st \<and>
     (\<exists>new. calls st' = calls st @ new \<and> list_all (\<lambda>c. \<not> routerCallDo (fst c)) new \<and>
        (\<forall>nw. r = Inr (nw, True) \<longrightarrow>
           list_ex (\<lambda>c. fst c = NetworksInsertDo (Project (cscope s)) spec \<and> snd c = None) new \<and>
           (\<exists>e w. networks_Get_Do s (Project (cscope s)) (network.Name spec) (world st) = (Inl e, w) \<and>
                  IsNotFound e)))"
  unfolding getOrInsertNetwork_def Let_def doDo_defs
  by (auto simp: errOf_def split: prod.splits sum.splits if_splits option.splits dest!: getCall_run mutCall_run)

lemma createSubnetworks_run:
  "createSubnetworks s xs st = (r, st') \<Longrightarrow>
     status st' = status st \<and>
     (\<exists>new. calls st' = calls st @ new \<and> list_all (\<lambda>c. \<not> routerCallDo (fst c)) new)"
proof (induction xs arbitrary: st)
  case Nil
  then show ?case by simp
next
  case (Cons x xs)
  from Cons.prems show ?case
    unfolding createSubnetworks.simps Let_def doDo_defs
    by (auto split: prod.splits sum.splits if_splits option.splits
             dest!: getCall_run mutCall_run Cons.IH)
qed

lemma ReconcileNetwork_router_guard:
  assumes m: "list_ex (\<lambda>c. routerCallDo (fst c)) (issued st (snd (ReconcileNetwork api s st))) \<or>
              Router (Status_Network (status (snd (ReconcileNetwork api s st)))) \<noteq> Router (Status_Network (status st))"
  shows "(\<exists>e w. networks_Get_Do s (Project (cscope s)) (ClusterScope.NetworkName (cscope s)) (world st) = (Inl e, w) \<and>
               IsNotFound e) \<and>
         list_ex (\<lambda>c. fst c = NetworksInsertDo (Project (cscope s)) (getNetworkSpec api s (status st)) \<and> snd c = None)
           (issued st (snd (ReconcileNetwork api s st)))"
proof -
  let ?spec = "getNetworkSpec api s (status st)"
  obtain g st1 where g: "getOrInsertNetwork s ?spec st = (g, st1)" by (cases "getOrInsertNetwork s ?spec st")
  from getOrInsertNetwork_run[OF g] obtain n1 where
    n1: "status st1 = status st" "calls st1 = calls st @ n1" "list_all (\<lambda>c. \<not> routerCallDo (fst c)) n1"
    and ins: "\<And>nw. g = Inr (nw, True) \<Longrightarrow>
           list_ex (\<lambda>c. fst c = NetworksInsertDo (Project (cscope s)) ?spec \<and> snd c = None) n1 \<and>
           (\<exists>e w. networks_Get_Do s (Project (cscope s)) (network.Name ?spec) (world st) = (Inl e, w) \<and>
                  IsNotFound e)"
    by blast
  obtain r st' where run: "ReconcileNetwork api s st = (r, st')" by (cases "ReconcileNetwork api s st")
  have ext: "\<exists>new. calls st' = calls st1 @ new"
   and quiet: "\<forall>nw. g \<noteq> Inr (nw, True) \<Longrightarrow>
           Router (Status_Network (status st')) = Router (Status_Network (status st1)) \<and>
           (\<exists>new. calls st' = calls st1 @ new \<and> list_all (\<lambda>c. \<not> routerCallDo (fst c)) new)"
  proof -
    show "\<exists>new. calls st' = calls st1 @ new"
    proof (cases g)
      case (Inl e)
      with run g show ?thesis by (simp add: ReconcileNetwork_def)
    next
      case (Inr p)
      obtain nw b where p: "p = (nw, b)" by (cases p)
      obtain r2 st2 where c: "(if b then (case createCloudNat s nw st1 of
                         (Some err, st2) \<Rightarrow> (Some (Wrapf ''failed to create cloudnat gateway'' err), st2)
                       | (None, st2) \<Rightarrow> (None, st2)) else (None, st1)) = (r2, st2)"
        by (cases "(if b then (case createCloudNat s nw st1 of
                         (Some err, st2) \<Rightarrow> (Some (Wrapf ''failed to create cloudnat gateway'' err), st2)
                       | (None, st2) \<Rightarrow> (None, st2)) else (None, st1))")
      have c2: "\<exists>new. calls st2 = calls st1 @ new"
        using c unfolding createCloudNat_def getOrInsertNatRouter_def patchRouterNat_def Let_def doDo_defs
          setNetworkStatus_def
        by (auto split: prod.splits sum.splits if_splits option.splits dest!: getCall_run mutCall_run)
      show ?thesis
      proof (cases r2)
        case (Some e)
        with run g Inr p c have "st' = st2" by (simp add: ReconcileNetwork_def)
        with c2 show ?thesis by simp
      next
        case None
        let ?st5 = "setNetworkStatus (\<lambda>n. n\<lparr>NetworkStatus.SelfLink := Some (network.SelfLink nw)\<rparr>)
                     (st2\<lparr>status := (status st2)
                             \<lparr>Spec_Network_Name := Some (network.Name nw),
                              Spec_Network_AutoCreateSubnetworks := Some (AutoCreateSubnetworks nw)\<rparr>\<rparr>)"
        have s5: "calls ?st5 = calls st2" by (simp add: setNetworkStatus_def)
        from run g Inr p c None have
          "(if \<not> AutoCreateSubnetworks nw then createSubnetworks s (Subnets (cscope s)) ?st5 else (None, ?st5)) = (r, st')"
          by (simp add: ReconcileNetwork_def Let_def)
        then have "\<exists>new. calls st' = calls ?st5 @ new"
          by (auto split: if_splits dest!: createSubnetworks_run)
        with s5 c2 show ?thesis by auto
      qed
    qed
  next
    assume q: "\<forall>nw. g \<noteq> Inr (nw, True)"
    show "Router (Status_Network (status st')) = Router (Status_Network (status st1)) \<and>
           (\<exists>new. calls st' = calls st1 @ new \<and> list_all (\<lambda>c. \<not> routerCallDo (fst c)) new)"
    proof (cases g)
      case (Inl e)
      with run g show ?thesis by (simp add: ReconcileNetwork_def)
    next
      case (Inr p)
      with q obtain nw where p: "p = (nw, False)" by (cases p) auto
      let ?st5 = "setNetworkStatus (\<lambda>n. n\<lparr>NetworkStatus.SelfLink := Some (network.SelfLink nw)\<rparr>)
                     (st1\<lparr>status := (status st1)
                             \<lparr>Spec_Network_Name := Some (network.Name nw),
                              Spec_Network_AutoCreateSubnetworks := Some (AutoCreateSubnetworks nw)\<rparr>\<rparr>)"
      have s5: "calls ?st5 = calls st1"
               "Router (Status_Network (status ?st5)) = Router (Status_Network (status st1))"
        by (simp_all add: setNetworkStatus_def)
      from run g Inr p have
        "(if \<not> AutoCreateSubnetworks nw then createSubnetworks s (Subnets (cscope s)) ?st5 else (None, ?st5)) = (r, st')"
        by (simp add: ReconcileNetwork_def Let_def)
      then have "status st' = status ?st5 \<and>
                 (\<exists>new. calls st' = calls ?st5 @ new \<and> list_all (\<lambda>c. \<not> routerCallDo (fst c)) new)"
        by (auto split: if_splits dest!: createSubnetworks_run)
      with s5 show ?thesis by auto
    qed
  qed
  have t: "\<exists>nw. g = Inr (nw, True)"
  proof (rule ccontr)
    assume "\<not> ?thesis"
    then have "\<forall>nw. g \<noteq> Inr (nw, True)" by simp
    from quiet[OF this] m n1 run show False
      by (fastforce simp: issued_def list_all_iff list_ex_iff)
  qed
  then obtain nw where nw: "g = Inr (nw, True)" ..
  from ins[OF nw] ext n1(2) run show ?thesis
    by (auto simp: getNetworkSpec_tag issued_def list_ex_iff)
qed

lemma gcp_scope [simp]: "scope (gcpService sc f) = sc"
  by (simp add: gcpService_def)

lemma createOrGetNetwork_store:
  "createOrGetNetwork (gcpService sc noFaults) st =
     (case gcp_networks (world st) (networkKey sc) of
        Some n \<Rightarrow> (Inr n, st\<lparr>calls := calls st @ [(NetworksGet (networkKey sc), None)]\<rparr>)
      | None \<Rightarrow>
          if IsSharedVpc sc
          then (Inl NotFound, st\<lparr>calls := calls st @ [(NetworksGet (networkKey sc), Some NotFound)]\<rparr>)
          else (Inr ((NetworkSpec sc)\<lparr>network.SelfLink := keyLink ''networks'' (networkKey sc)\<rparr>),
                st\<lparr>world := (world st)\<lparr>gcp_networks := (gcp_networks (world st))
                        (networkKey sc \<mapsto> (NetworkSpec sc)\<lparr>network.SelfLink := keyLink ''networks'' (networkKey sc)\<rparr>)\<rparr>,
                   calls := calls st @ [(NetworksGet (networkKey sc), Some NotFound),
                                        (NetworksInsert (networkKey sc) (NetworkSpec sc), None),
                                        (NetworksGet (networkKey sc), None)]\<rparr>))"
  by (simp add: createOrGetNetwork_def do_defs getCall_def mutCall_def gcpService_def storeGet_def storeInsert_def
        noFaults_def errOf_def IsNotFound_def networkKey_def Let_def split: option.splits)

lemma createOrGetSubNetwork_store:
  "createOrGetSubNetwork (gcpService sc noFaults) x st =
     (case gcp_subnetworks (world st) (subnetKey x) of
        Some y \<Rightarrow> (Inr y, st\<lparr>calls := calls st @ [(SubnetworksGet (subnetKey x), None)]\<rparr>)
      | None \<Rightarrow>
          (Inr x,
           st\<lparr>world := (world st)\<lparr>gcp_subnetworks := (gcp_subnetworks (world st))(subnetKey x \<mapsto> x)\<rparr>,
              calls := calls st @ [(SubnetworksGet (subnetKey x), Some NotFound),
                                   (SubnetworksInsert (subnetKey x) x, None),
                                   (SubnetworksGet (subnetKey x), None)]\<rparr>))"
  by (simp add: createOrGetSubNetwork_def do_defs getCall_def mutCall_def gcpService_def storeGet_def storeInsert_def
        noFaults_def errOf_def IsNotFound_def subnetKey_def Let_def split: option.splits)

lemma createOrGetRouter_store:
  "createOrGetRouter api (gcpService sc noFaults) nw st =
     (case gcp_routers (world st) (routerKey sc) of
        Some r \<Rightarrow> (Inr r, st\<lparr>calls := calls st @ [(RoutersGet (routerKey sc), None)]\<rparr>)
      | None \<Rightarrow>
          if IsSharedVpc sc
          then (Inl NotFound, st\<lparr>calls := calls st @ [(RoutersGet (routerKey sc), Some NotFound)]\<rparr>)
          else (let spec = (NatRouterSpec sc)\<lparr>router.Network := network.SelfLink nw,
                                              router.Description := ClusterTagKey api (Scope.Name sc)\<rparr>;
                    r = spec\<lparr>router.SelfLink := keyLink ''routers'' (routerKey sc)\<rparr> in
                (Inr r,
                 st\<lparr>world := (world st)\<lparr>gcp_routers := (gcp_routers (world st))(routerKey sc \<mapsto> r)\<rparr>,
                    calls := calls st @ [(RoutersGet (routerKey sc), Some NotFound),
                                         (RoutersInsert (routerKey sc) spec, None),
                                         (RoutersGet (routerKey sc), None)]\<rparr>)))"
  by (simp add: createOrGetRouter_def do_defs getCall_def mutCall_def gcpService_def storeGet_def storeInsert_def
        noFaults_def errOf_def IsNotFound_def routerKey_def Let_def split: option.splits)

lemma reconcileSubnets_store_post:
  "reconcileSubnets (gcpService sc noFaults) xs st = (r, st') \<Longrightarrow>
     r = None \<and> status st' = status st \<and>
     gcp_networks (world st') = gcp_networks (world st) \<and>
     gcp_routers (world st') = gcp_routers (world st) \<and>
     (\<forall>k. gcp_subnetworks (world st) k \<noteq> None \<longrightarrow> gcp_subnetworks (world st') k \<noteq> None) \<and>
     list_all (\<lambda>x. gcp_subnetworks (world st') (subnetKey x) \<noteq> None) xs \<and>
     (\<exists>new. calls st' = calls st @ new)"
proof (induction xs arbitrary: st)
  case Nil
  then show ?case by simp
next
  case (Cons x xs)
  show ?case
  proof (cases "gcp_subnetworks (world st) (subnetKey x)")
    case None
    let ?st1 = "st\<lparr>world := (world st)\<lparr>gcp_subnetworks := (gcp_subnetworks (world st))(subnetKey x \<mapsto> x)\<rparr>,
              calls := calls st @ [(SubnetworksGet (subnetKey x), Some NotFound),
                                   (SubnetworksInsert (subnetKey x) x, None),
                                   (SubnetworksGet (subnetKey x), None)]\<rparr>"
    from Cons.prems None have "reconcileSubnets (gcpService sc noFaults) xs ?st1 = (r, st')"
      by (simp add: createOrGetSubNetwork_store)
    from Cons.IH[OF this] show ?thesis by auto
  next
    case (Some y)
    let ?st1 = "st\<lparr>calls := calls st @ [(SubnetworksGet (subnetKey x), None)]\<rparr>"
    from Cons.prems Some have "reconcileSubnets (gcpService sc noFaults) xs ?st1 = (r, st')"
      by (simp add: createOrGetSubNetwork_store)
    from Cons.IH[OF this] Some show ?thesis by auto
  qed
qed

lemma reconcileSubnets_store_pre:
  "list_all (\<lambda>x. gcp_subnetworks (world st) (subnetKey x) \<noteq> None) xs \<Longrightarrow>
     \<exists>new. reconcileSubnets (gcpService sc noFaults) xs st = (None, st\<lparr>calls := calls st @ new\<rparr>) \<and>
           list_all (\<lambda>c. \<not> mutating (fst c)) new"
proof (induction xs arbitrary: st)
  case Nil
  have "reconcileSubnets (gcpService sc noFaults) [] st = (None, st\<lparr>calls := calls st @ []\<rparr>)" by simp
  then show ?case by (intro exI[of _ "[]"]) simp
next
  case (Cons x xs)
  then obtain y where y: "gcp_subnetworks (world st) (subnetKey x) = Some y" by auto
  let ?st1 = "st\<lparr>calls := calls st @ [(SubnetworksGet (subnetKey x), None)]\<rparr>"
  from Cons.prems have "list_all (\<lambda>x. gcp_subnetworks (world ?st1) (subnetKey x) \<noteq> None) xs" by simp
  from Cons.IH[OF this] obtain new where
    n: "reconcileSubnets (gcpService sc noFaults) xs ?st1 = (None, ?st1\<lparr>calls := calls ?st1 @ new\<rparr>)"
       "list_all (\<lambda>c. \<not> mutating (fst c)) new" by blast
  have "reconcileSubnets (gcpService sc noFaults) (x # xs) st =
          (None, st\<lparr>calls := calls st @ ((SubnetworksGet (subnetKey x), None) # new)\<rparr>)"
    using y n(1) by (simp add: createOrGetSubNetwork_store)
  moreover have "list_all (\<lambda>c. \<not> mutating (fst c)) ((SubnetworksGet (subnetKey x), None) # new)"
    using n(2) by simp
  ultimately show ?case by blast
qed

lemma Reconcile_converges:
  "converged api sc (world (snd (Reconcile api (gcpService sc noFaults) st)))
     (status (snd (Reconcile api (gcpService sc noFaults) st)))"
proof -
  let ?s = "gcpService sc noFaults"
  obtain g st1 where g: "createOrGetNetwork ?s st = (g, st1)" by (cases "createOrGetNetwork ?s st")
  show ?thesis
  proof (cases g)
    case (Inl e)
    with g have "gcp_networks (world st1) (networkKey sc) = None \<and> IsSharedVpc sc"
      by (auto simp: createOrGetNetwork_store split: option.splits if_splits)
    moreover from g Inl have "Reconcile api ?s st = (Some e, st1)" by (simp add: Reconcile_def)
    ultimately show ?thesis by (simp add: converged_def)
  next
    case (Inr n)
    with g have n: "gcp_networks (world st1) (networkKey sc) = Some n"
      by (auto simp: createOrGetNetwork_store split: option.splits if_splits)
    let ?st2 = "st1\<lparr>status := (status st1)\<lparr>NetworkStatus.SelfLink := Some (network.SelfLink n)\<rparr>\<rparr>"
    obtain r3 st3 where s3: "(if \<not> AutoCreateSubnetworks n
                 then reconcileSubnets ?s (SubnetworkSpec (scope ?s)) ?st2
                 else (None, ?st2)) = (r3, st3)"
      by (cases "(if \<not> AutoCreateSubnetworks n
                 then reconcileSubnets ?s (SubnetworkSpec (scope ?s)) ?st2
                 else (None, ?st2))")
    have p3: "r3 = None \<and> status st3 = status ?st2 \<and>
              gcp_networks (world st3) = gcp_networks (world st1) \<and>
              gcp_routers (world st3) = gcp_routers (world st1) \<and>
              (AutoCreateSubnetworks n \<or>
               list_all (\<lambda>x. gcp_subnetworks (world st3) (subnetKey x) \<noteq> None) (SubnetworkSpec sc))"
    proof (cases "AutoCreateSubnetworks n")
      case True
      with s3 show ?thesis by auto
    next
      case False
      with s3 have "reconcileSubnets ?s (SubnetworkSpec sc) ?st2 = (r3, st3)" by simp
      from reconcileSubnets_store_post[OF this] show ?thesis by simp
    qed
    show ?thesis
    proof (cases "network.Description n = ClusterTagKey api (Scope.Name sc)")
      case False
      with g Inr s3 p3 have "Reconcile api ?s st =
          (None, st3\<lparr>status := (status st3)\<lparr>NetworkStatus.SelfLink := Some (network.SelfLink n)\<rparr>\<rparr>)"
        by (simp add: Reconcile_def Let_def)
      then have run: "world (snd (Reconcile api ?s st)) = world st3"
           "status (snd (Reconcile api ?s st)) = (status st3)\<lparr>NetworkStatus.SelfLink := Some (network.SelfLink n)\<rparr>"
        by simp_all
      have f: "gcp_networks (world st3) (networkKey sc) = Some n"
              "AutoCreateSubnetworks n \<or>
                 list_all (\<lambda>x. gcp_subnetworks (world st3) (subnetKey x) \<noteq> None) (SubnetworkSpec sc)"
        using n p3 by simp_all
      show ?thesis unfolding run converged_def using f False by simp
    next
      case True
      obtain r4 st4 where s4: "createOrGetRouter api ?s n st3 = (r4, st4)"
        by (cases "createOrGetRouter api ?s n st3")
      show ?thesis
      proof (cases r4)
        case (Inl e)
        with s4 have q: "gcp_routers (world st4) (routerKey sc) = None \<and> IsSharedVpc sc \<and>
                      world st4 = world st3 \<and> status st4 = status st3"
          by (auto simp: createOrGetRouter_store Let_def split: option.splits if_splits)
        from g \<open>g = Inr n\<close> s3 p3 True s4 Inl have run: "Reconcile api ?s st = (Some e, st4)"
          by (simp add: Reconcile_def Let_def)
        have f: "gcp_networks (world st4) (networkKey sc) = Some n"
                "NetworkStatus.SelfLink (status st4) = Some (network.SelfLink n)"
                "AutoCreateSubnetworks n \<or>
                   list_all (\<lambda>x. gcp_subnetworks (world st4) (subnetKey x) \<noteq> None) (SubnetworkSpec sc)"
                "gcp_routers (world st4) (routerKey sc) = None" "IsSharedVpc sc"
          using n p3 q by auto
        show ?thesis unfolding run converged_def using f by simp
      next
        case (Inr rt)
        with s4 have q: "gcp_routers (world st4) (routerKey sc) = Some rt \<and>
                      gcp_networks (world st4) = gcp_networks (world st3) \<and>
                      gcp_subnetworks (world st4) = gcp_subnetworks (world st3) \<and> status st4 = status st3"
          by (auto simp: createOrGetRouter_store Let_def split: option.splits if_splits)
        from g \<open>g = Inr n\<close> s3 p3 True s4 Inr have "Reconcile api ?s st =
           (None, st4\<lparr>status := (status st4)\<lparr>Router := Some (router.SelfLink rt),
                                              NetworkStatus.SelfLink := Some (network.SelfLink n)\<rparr>\<rparr>)"
          by (simp add: Reconcile_def Let_def)
        then have run: "world (snd (Reconcile api ?s st)) = world st4"
           "status (snd (Reconcile api ?s st)) = (status st4)\<lparr>Router := Some (router.SelfLink rt),
                                              NetworkStatus.SelfLink := Some (network.SelfLink n)\<rparr>"
          by simp_all
        have f: "gcp_networks (world st4) (networkKey sc) = Some n"
                "AutoCreateSubnetworks n \<or>
                   list_all (\<lambda>x. gcp_subnetworks (world st4) (subnetKey x) \<noteq> None) (SubnetworkSpec sc)"
                "gcp_routers (world st4) (routerKey sc) = Some rt"
          using n p3 q by auto
        show ?thesis unfolding run converged_def using f by simp
      qed
    qed
  qed
qed

lemma Reconcile_converged:
  assumes c: "converged api sc (world st) (status st)"
  shows "\<exists>new. snd (Reconcile api (gcpService sc noFaults) st) = st\<lparr>calls := calls st @ new\<rparr> \<and>
               list_all (\<lambda>c. \<not> mutating (fst c)) new"
proof -
  let ?s = "gcpService sc noFaults"
  show ?thesis
  proof (cases "gcp_networks (world st) (networkKey sc)")
    case None
    with c have "IsSharedVpc sc" by (simp add: converged_def)
    with None have "Reconcile api ?s st =
        (Some NotFound, st\<lparr>calls := calls st @ [(NetworksGet (networkKey sc), Some NotFound)]\<rparr>)"
      by (simp add: Reconcile_def createOrGetNetwork_store)
    then show ?thesis by (intro exI[of _ "[(NetworksGet (networkKey sc), Some NotFound)]"]) simp
  next
    case (Some n)
    define st1 where "st1 = st\<lparr>calls := calls st @ [(NetworksGet (networkKey sc), None)]\<rparr>"
    from Some c have sl: "NetworkStatus.SelfLink (status st) = Some (network.SelfLink n)"
      and sub: "AutoCreateSubnetworks n \<or>
               list_all (\<lambda>x. gcp_subnetworks (world st) (subnetKey x) \<noteq> None) (SubnetworkSpec sc)"
      and rt: "network.Description n \<noteq> ClusterTagKey api (Scope.Name sc) \<or>
           (case gcp_routers (world st) (routerKey sc) of
              None \<Rightarrow> IsSharedVpc sc
            | Some r \<Rightarrow> Router (status st) = Some (router.SelfLink r))"
      by (simp_all add: converged_def)
    have g: "createOrGetNetwork ?s st = (Inr n, st1)"
      using Some by (simp add: createOrGetNetwork_store st1_def)
    define st2 where "st2 = st1\<lparr>status := (status st1)\<lparr>NetworkStatus.SelfLink := Some (network.SelfLink n)\<rparr>\<rparr>"
    have st2: "st2 = st1" using sl by (simp add: st2_def st1_def)
    have "\<exists>n3. (if \<not> AutoCreateSubnetworks n
                 then reconcileSubnets ?s (SubnetworkSpec (scope ?s)) st2
                 else (None, st2)) = (None, st2\<lparr>calls := calls st2 @ n3\<rparr>) \<and>
               list_all (\<lambda>c. \<not> mutating (fst c)) n3"
    proof (cases "AutoCreateSubnetworks n")
      case True
      then show ?thesis by (intro exI[of _ "[]"]) simp
    next
      case False
      with sub have "list_all (\<lambda>x. gcp_subnetworks (world st2) (subnetKey x) \<noteq> None) (SubnetworkSpec sc)"
        by (simp add: st2 st1_def)
      from reconcileSubnets_store_pre[OF this, of sc] False show ?thesis by simp
    qed
    then obtain n3 st3 where s3: "(if \<not> AutoCreateSubnetworks n
                 then reconcileSubnets ?s (SubnetworkSpec (scope ?s)) st2
                 else (None, st2)) = (None, st3)"
          and st3: "st3 = st2\<lparr>calls := calls st2 @ n3\<rparr>"
          and m3: "list_all (\<lambda>c. \<not> mutating (fst c)) n3" by blast
    have e3: "st3 = st\<lparr>calls := calls st @ ((NetworksGet (networkKey sc), None) # n3)\<rparr>"
      by (simp add: st3 st2 st1_def)
    have run: "Reconcile api ?s st =
       (case (if network.Description n = ClusterTagKey api (Scope.Name sc)
                      then (case createOrGetRouter api ?s n st3 of
                              (Inl err, st4) \<Rightarrow> (Some err, st4)
                            | (Inr router, st4) \<Rightarrow>
                                (None, st4\<lparr>status := (status st4)\<lparr>Router := Some (router.SelfLink router)\<rparr>\<rparr>))
                      else (None, st3)) of
                  (Some err, st5) \<Rightarrow> (Some err, st5)
                | (None, st5) \<Rightarrow>
                    (None, st5\<lparr>status := (status st5)\<lparr>NetworkStatus.SelfLink := Some (network.SelfLink n)\<rparr>\<rparr>))"
      unfolding Reconcile_def g prod.case sum.case Let_def st2_def[symmetric] s3 option.case
      by simp
    show ?thesis
    proof (cases "network.Description n = ClusterTagKey api (Scope.Name sc)")
      case False
      then have "Reconcile api ?s st =
              (None, st3\<lparr>status := (status st3)\<lparr>NetworkStatus.SelfLink := Some (network.SelfLink n)\<rparr>\<rparr>)"
        unfolding run by simp
      also have "st3\<lparr>status := (status st3)\<lparr>NetworkStatus.SelfLink := Some (network.SelfLink n)\<rparr>\<rparr> =
                 st\<lparr>calls := calls st @ ((NetworksGet (networkKey sc), None) # n3)\<rparr>"
        using sl by (simp add: e3)
      finally show ?thesis using m3
        by (intro exI[of _ "(NetworksGet (networkKey sc), None) # n3"]) simp
    next
      case True
      have w3: "world st3 = world st" "status st3 = status st" by (simp_all add: e3)
      show ?thesis
      proof (cases "gcp_routers (world st) (routerKey sc)")
        case None
        with rt True have sh: "IsSharedVpc sc" by simp
        have "Reconcile api ?s st =
              (Some NotFound, st3\<lparr>calls := calls st3 @ [(RoutersGet (routerKey sc), Some NotFound)]\<rparr>)"
          unfolding run using True None sh w3
          by (simp add: createOrGetRouter_store)
        then show ?thesis using m3
          by (intro exI[of _ "(NetworksGet (networkKey sc), None) # n3 @ [(RoutersGet (routerKey sc), Some NotFound)]"])
             (simp add: e3)
      next
        case (Some r)
        with rt True have rs: "Router (status st) = Some (router.SelfLink r)" by simp
        have "Reconcile api ?s st =
              (None, st3\<lparr>calls := calls st3 @ [(RoutersGet (routerKey sc), None)],
                           status := (status st3)\<lparr>Router := Some (router.SelfLink r),
                                                 NetworkStatus.SelfLink := Some (network.SelfLink n)\<rparr>\<rparr>)"
          unfolding run using True Some w3
          by (simp add: createOrGetRouter_store)
        also have "st3\<lparr>calls := calls st3 @ [(RoutersGet (routerKey sc), None)],
                           status := (status st3)\<lparr>Router := Some (router.SelfLink r),
                                                 NetworkStatus.SelfLink := Some (network.SelfLink n)\<rparr>\<rparr> =
                   st\<lparr>calls := calls st @ ((NetworksGet (networkKey sc), None) # n3 @ [(RoutersGet (routerKey sc), None)])\<rparr>"
          using sl rs by (simp add: e3)
        finally show ?thesis using m3
          by (intro exI[of _ "(NetworksGet (networkKey sc), None) # n3 @ [(RoutersGet (routerKey sc), None)]"]) simp
      qed
    qed
  qed
qed

lemma Reconcile_twice:
  "idempotentRun mutating (Reconcile api (gcpService sc noFaults)) st"
proof -
  let ?f = "Reconcile api (gcpService sc noFaults)"
  from Reconcile_converged[OF Reconcile_converges[of api sc st]] obtain new where
    "snd (?f (snd (?f st))) = (snd (?f st))\<lparr>calls := calls (snd (?f st)) @ new\<rparr>"
    "list_all (\<lambda>c. \<not> mutating (fst c)) new" by blast
  then show ?thesis by (simp add: idempotentRun_def Let_def)
qed

lemma gce_cscope [simp]: "cscope (gceService sc f) = sc"
  by (simp add: gceService_def)

lemma gce_ops:
  "networks_Get_Do (gceService sc noFaults) p n w =
     (case gce_networks w (p, n) of None \<Rightarrow> (Inl NotFound, w) | Some x \<Rightarrow> (Inr x, w))"
  "networks_Insert_Do (gceService sc noFaults) p obj w =
     (if gce_networks w (p, network.Name obj) = None
      then (Inr (Operation ''insert''),
            w\<lparr>gce_networks := (gce_networks w)((p, network.Name obj) \<mapsto>
               obj\<lparr>network.SelfLink := ''projects/'' @ p @ ''/global/networks/'' @ network.Name obj\<rparr>)\<rparr>)
      else (Inl (Failure ''alreadyExists''), w))"
  "subnetworks_Get_Do (gceService sc noFaults) p r n w =
     (case gce_subnetworks w (p, r, n) of None \<Rightarrow> (Inl NotFound, w) | Some x \<Rightarrow> (Inr x, w))"
  "subnetworks_Insert_Do (gceService sc noFaults) p r sobj w =
     (if gce_subnetworks w (p, r, subnetwork.Name sobj) = None
      then (Inr (Operation ''insert''),
            w\<lparr>gce_subnetworks := (gce_subnetworks w)((p, r, subnetwork.Name sobj) \<mapsto> sobj)\<rparr>)
      else (Inl (Failure ''alreadyExists''), w))"
  "routers_Get_Do (gceService sc noFaults) p r n w =
     (case gce_routers w (p, r, n) of None \<Rightarrow> (Inl NotFound, w) | Some x \<Rightarrow> (Inr x, w))"
  "routers_Insert_Do (gceService sc noFaults) p r robj w =
     (if gce_routers w (p, r, router.Name robj) = None
      then (Inr (Operation ''insert''),
            w\<lparr>gce_routers := (gce_routers w)((p, r, router.Name robj) \<mapsto>
               robj\<lparr>router.SelfLink := ''projects/'' @ p @ ''/regions/'' @ r @ ''/routers/'' @ router.Name robj\<rparr>)\<rparr>)
      else (Inl (Failure ''alreadyExists''), w))"
  "routers_Patch_Do (gceService sc noFaults) p r n robj w =
     (if gce_routers w (p, r, n) \<noteq> None
      then (Inr (Operation ''patch''), w\<lparr>gce_routers := (gce_routers w)((p, r, n) \<mapsto> robj)\<rparr>)
      else (Inl NotFound, w))"
  "firewalls_Get_Do (gceService sc noFaults) p n w =
     (case find (\<lambda>f. firewall.Name f = n) (gce_firewalls w p) of
        None \<Rightarrow> (Inl NotFound, w) | Some x \<Rightarrow> (Inr x, w))"
  "firewalls_Insert_Do (gceService sc noFaults) p fobj w =
     (if find (\<lambda>f. firewall.Name f = firewall.Name fobj) (gce_firewalls w p) = None
      then (Inr (Operation ''insert''),
            w\<lparr>gce_firewalls := (gce_firewalls w)(p := gce_firewalls w p @
               [fobj\<lparr>firewall.SelfLink := ''projects/'' @ p @ ''/global/firewalls/'' @ firewall.Name fobj\<rparr>])\<rparr>)
      else (Inl (Failure ''alreadyExists''), w))"
  "ForComputeOperation (gceService sc noFaults) p op w = (None, w)"
  by (simp_all add: gceService_def storeGet_def storeOp_def noFaults_def split: option.splits)

lemmas gce_eval = doDo_defs getCall_def mutCall_def gce_ops errOf_def IsNotFound_def

lemma getOrInsertNetwork_store:
  "getOrInsertNetwork (gceService sc noFaults) spec st =
     (case gce_networks (world st) (Project sc, network.Name spec) of
        Some n \<Rightarrow> (Inr (n, False), st\<lparr>calls := calls st @ [(NetworksGetDo (Project sc) (network.Name spec), None)]\<rparr>)
      | None \<Rightarrow>
          (let n = spec\<lparr>network.SelfLink := ''projects/'' @ Project sc @ ''/global/networks/'' @ network.Name spec\<rparr> in
           (Inr (n, True),
            st\<lparr>world := (world st)\<lparr>gce_networks := (gce_networks (world st))((Project sc, network.Name spec) \<mapsto> n)\<rparr>,
               calls := calls st @ [(NetworksGetDo (Project sc) (network.Name spec), Some NotFound),
                                    (NetworksInsertDo (Project sc) spec, None),
                                    (WaitForComputeOperation (Project sc) (Operation ''insert''), None),
                                    (NetworksGetDo (Project sc) (network.Name spec), None)]\<rparr>)))"
  by (simp add: getOrInsertNetwork_def gce_eval Let_def split: option.splits)

lemma getOrInsertNatRouter_store:
  assumes "network.Name nw = ClusterScope.NetworkName sc"
  shows "getOrInsertNatRouter (gceService sc noFaults) nw st =
     (let k = (Project sc, ClusterScope.Region sc, getRouterName (ClusterScope.NetworkName sc)) in
      case gce_routers (world st) k of
        Some rt \<Rightarrow>
          (Inr rt, st\<lparr>calls := calls st @ [(RoutersGetDo (Project sc) (ClusterScope.Region sc)
                                               (getRouterName (ClusterScope.NetworkName sc)), None)]\<rparr>)
      | None \<Rightarrow>
          (let spec = getRouterSpec (gceService sc noFaults) nw;
               rt = spec\<lparr>router.SelfLink := ''projects/'' @ Project sc @ ''/regions/'' @ ClusterScope.Region sc
                                                @ ''/routers/'' @ router.Name spec\<rparr> in
           (Inr rt,
            st\<lparr>world := (world st)\<lparr>gce_routers := (gce_routers (world st))(k \<mapsto> rt)\<rparr>,
               calls := calls st @
                 [(RoutersGetDo (Project sc) (ClusterScope.Region sc) (getRouterName (ClusterScope.NetworkName sc)),
                   Some NotFound),
                  (RoutersInsertDo (Project sc) (ClusterScope.Region sc) spec, None),
                  (WaitForComputeOperation (Project sc) (Operation ''insert''), None),
                  (RoutersGetDo (Project sc) (ClusterScope.Region sc) (getRouterName (ClusterScope.NetworkName sc)),
                   None)]\<rparr>)))"
proof -
  have n: "router.Name (getRouterSpec (gceService sc noFaults) nw) = getRouterName (ClusterScope.NetworkName sc)"
    using assms by (simp add: getRouterSpec_def)
  show ?thesis
    unfolding getOrInsertNatRouter_def Let_def gce_cscope
    by (simp add: gce_eval n split: option.splits)
qed

lemma patchRouterNat_store:
  assumes "gce_routers (world st) (Project sc, ClusterScope.Region sc, router.Name rt) \<noteq> None"
  shows "\<exists>w new. patchRouterNat (gceService sc noFaults) rt st = (None, st\<lparr>world := w, calls := calls st @ new\<rparr>) \<and>
           gce_networks w = gce_networks (world st) \<and> gce_subnetworks w = gce_subnetworks (world st)"
proof (cases "Nats rt = []")
  case True
  let ?rt = "rt\<lparr>Nats := [getRouterNatSpec (gceService sc noFaults)]\<rparr>"
  let ?w = "(world st)\<lparr>gce_routers := (gce_routers (world st))((Project sc, ClusterScope.Region sc, router.Name rt) \<mapsto> ?rt)\<rparr>"
  let ?new = "[(RoutersPatchDo (Project sc) (ClusterScope.Region sc) (router.Name rt) ?rt, None),
               (WaitForComputeOperation (Project sc) (Operation ''patch''), None)]"
  have "patchRouterNat (gceService sc noFaults) rt st = (None, st\<lparr>world := ?w, calls := calls st @ ?new\<rparr>)"
    using True assms unfolding patchRouterNat_def Let_def gce_cscope
    by (simp add: gce_eval)
  then show ?thesis by (intro exI[of _ ?w] exI[of _ ?new]) simp
next
  case False
  then have "patchRouterNat (gceService sc noFaults) rt st = (None, st\<lparr>world := world st, calls := calls st @ []\<rparr>)"
    by (simp add: patchRouterNat_def Let_def)
  then show ?thesis by (intro exI[of _ "world st"] exI[of _ "[]"]) simp
qed

lemma createCloudNat_store:
  assumes run: "createCloudNat (gceService sc noFaults) nw st = (r, st')"
      and nm: "network.Name nw = ClusterScope.NetworkName sc"
      and wf: "namedRouters (world st)"
  shows "r = None \<and>
     gce_networks (world st') = gce_networks (world st) \<and>
     gce_subnetworks (world st') = gce_subnetworks (world st) \<and>
     Spec_Network_Name (status st') = Spec_Network_Name (status st) \<and>
     Spec_Network_AutoCreateSubnetworks (status st') = Spec_Network_AutoCreateSubnetworks (status st) \<and>
     NetworkStatus.SelfLink (Status_Network (status st')) = NetworkStatus.SelfLink (Status_Network (status st))"
proof -
  let ?k = "(Project sc, ClusterScope.Region sc, getRouterName (ClusterScope.NetworkName sc))"
  have "\<exists>rt st1. getOrInsertNatRouter (gceService sc noFaults) nw st = (Inr rt, st1) \<and>
            gce_routers (world st1) (Project sc, ClusterScope.Region sc, router.Name rt) \<noteq> None \<and>
            gce_networks (world st1) = gce_networks (world st) \<and>
            gce_subnetworks (world st1) = gce_subnetworks (world st) \<and> status st1 = status st"
  proof (cases "gce_routers (world st) ?k")
    case None
    have n: "router.Name (getRouterSpec (gceService sc noFaults) nw) = getRouterName (ClusterScope.NetworkName sc)"
      using nm by (simp add: getRouterSpec_def)
    show ?thesis
      unfolding getOrInsertNatRouter_store[OF nm, of st] Let_def None option.case
      by (simp add: n)
  next
    case (Some rt)
    with wf have nm2: "router.Name rt = getRouterName (ClusterScope.NetworkName sc)"
      by (simp add: namedRouters_def)
    show ?thesis
      unfolding getOrInsertNatRouter_store[OF nm, of st] Let_def
      by (simp add: Some nm2)
  qed
  then obtain rt st1 where g: "getOrInsertNatRouter (gceService sc noFaults) nw st = (Inr rt, st1)"
    and p1: "gce_routers (world st1) (Project sc, ClusterScope.Region sc, router.Name rt) \<noteq> None"
            "gce_networks (world st1) = gce_networks (world st)"
            "gce_subnetworks (world st1) = gce_subnetworks (world st)" "status st1 = status st"
    by blast
  from patchRouterNat_store[OF p1(1)] obtain w new where
    p: "patchRouterNat (gceService sc noFaults) rt st1 = (None, st1\<lparr>world := w, calls := calls st1 @ new\<rparr>)"
       "gce_networks w = gce_networks (world st1)" "gce_subnetworks w = gce_subnetworks (world st1)"
    by blast
  from run have "r = None \<and> st' = setNetworkStatus (\<lambda>n. n\<lparr>Router := Some (router.SelfLink rt)\<rparr>)
                                     (st1\<lparr>world := w, calls := calls st1 @ new\<rparr>)"
    by (simp add: createCloudNat_def g p(1))
  with p p1 show ?thesis by (simp add: setNetworkStatus_def)
qed

lemma createSubnetworks_store_post:
  "createSubnetworks (gceService sc noFaults) xs st = (r, st') \<Longrightarrow>
     status st' = status st \<and>
     gce_networks (world st') = gce_networks (world st) \<and>
     (\<forall>k. gce_subnetworks (world st) k \<noteq> None \<longrightarrow> gce_subnetworks (world st') k \<noteq> None) \<and>
     settledSubnets sc (world st') xs"
proof (induction xs arbitrary: st)
  case Nil
  then show ?case by simp
next
  case (Cons x xs)
  let ?k = "(Project sc, ClusterScope.Region sc, SubnetSpec.Name x)"
  show ?case
  proof (cases "gce_subnetworks (world st) ?k")
    case (Some y)
    let ?st1 = "st\<lparr>calls := calls st @ [(SubnetworksGetDo (Project sc) (ClusterScope.Region sc) (SubnetSpec.Name x), None)]\<rparr>"
    from Cons.prems Some have "createSubnetworks (gceService sc noFaults) xs ?st1 = (r, st')"
      by (simp add: gce_eval Let_def)
    from Cons.IH[OF this] have ih: "status st' = status st"
       "gce_networks (world st') = gce_networks (world st)"
       "\<forall>k. gce_subnetworks (world st) k \<noteq> None \<longrightarrow> gce_subnetworks (world st') k \<noteq> None"
       "settledSubnets sc (world st') xs" by simp_all
    from ih(3) Some obtain y' where "gce_subnetworks (world st') ?k = Some y'" by fastforce
    with ih show ?thesis by simp
  next
    case None
    show ?thesis
    proof (cases "SubnetSpec.EnableFlowLogs x")
      case n: None
      with Cons.prems None have "st' = st\<lparr>calls := calls st @
          [(SubnetworksGetDo (Project sc) (ClusterScope.Region sc) (SubnetSpec.Name x), Some NotFound)]\<rparr>"
        by (simp add: gce_eval Let_def getSubnetworkSpec_def)
      with None n show ?thesis by simp
    next
      case (Some b)
      obtain y where y: "getSubnetworkSpec (gceService sc noFaults) (status st) x = Inr y"
           "subnetwork.Name y = SubnetSpec.Name x"
        using Some by (simp add: getSubnetworkSpec_def)
      let ?st4 = "st\<lparr>world := (world st)\<lparr>gce_subnetworks := (gce_subnetworks (world st))(?k \<mapsto> y)\<rparr>,
                     calls := calls st @
                       [(SubnetworksGetDo (Project sc) (ClusterScope.Region sc) (SubnetSpec.Name x), Some NotFound),
                        (SubnetworksInsertDo (Project sc) (ClusterScope.Region sc) y, None),
                        (WaitForComputeOperation (Project sc) (Operation ''insert''), None),
                        (SubnetworksGetDo (Project sc) (ClusterScope.Region sc) (SubnetSpec.Name x), None)]\<rparr>"
      from Cons.prems None y have "createSubnetworks (gceService sc noFaults) xs ?st4 = (r, st')"
        by (simp add: gce_eval Let_def)
      from Cons.IH[OF this] have ih: "status st' = status st"
         "gce_networks (world st') = gce_networks (world st)"
         "\<forall>k. gce_subnetworks (world ?st4) k \<noteq> None \<longrightarrow> gce_subnetworks (world st') k \<noteq> None"
         "settledSubnets sc (world st') xs" by simp_all
      have "gce_subnetworks (world ?st4) ?k \<noteq> None" by simp
      with ih(3) obtain y' where y': "gce_subnetworks (world st') ?k = Some y'" by fastforce
      have "\<forall>k. gce_subnetworks (world st) k \<noteq> None \<longrightarrow> gce_subnetworks (world ?st4) k \<noteq> None"
        by simp
      with ih(3) have "\<forall>k. gce_subnetworks (world st) k \<noteq> None \<longrightarrow> gce_subnetworks (world st') k \<noteq> None"
        by blast
      with ih y' show ?thesis by simp
    qed
  qed
qed

lemma createSubnetworks_store_pre:
  "settledSubnets sc (world st) xs \<Longrightarrow>
     \<exists>new. snd (createSubnetworks (gceService sc noFaults) xs st) = st\<lparr>calls := calls st @ new\<rparr> \<and>
           list_all (\<lambda>c. \<not> mutatingDo (fst c)) new"
proof (induction xs arbitrary: st)
  case Nil
  show ?case by (intro exI[of _ "[]"]) simp
next
  case (Cons x xs)
  let ?k = "(Project sc, ClusterScope.Region sc, SubnetSpec.Name x)"
  let ?g = "SubnetworksGetDo (Project sc) (ClusterScope.Region sc) (SubnetSpec.Name x)"
  show ?case
  proof (cases "gce_subnetworks (world st) ?k")
    case None
    with Cons.prems have "SubnetSpec.EnableFlowLogs x = None" by simp
    with None have "snd (createSubnetworks (gceService sc noFaults) (x # xs) st) =
                      st\<lparr>calls := calls st @ [(?g, Some NotFound)]\<rparr>"
      by (simp add: gce_eval Let_def getSubnetworkSpec_def)
    then show ?thesis by (intro exI[of _ "[(?g, Some NotFound)]"]) simp
  next
    case (Some y)
    let ?st1 = "st\<lparr>calls := calls st @ [(?g, None)]\<rparr>"
    from Cons.prems Some have "settledSubnets sc (world ?st1) xs" by simp
    from Cons.IH[OF this] obtain new where
      n: "snd (createSubnetworks (gceService sc noFaults) xs ?st1) = ?st1\<lparr>calls := calls ?st1 @ new\<rparr>"
         "list_all (\<lambda>c. \<not> mutatingDo (fst c)) new" by blast
    have "snd (createSubnetworks (gceService sc noFaults) (x # xs) st) =
            st\<lparr>calls := calls st @ ((?g, None) # new)\<rparr>"
      using Some n(1) by (simp add: gce_eval Let_def)
    then show ?thesis using n(2) by (intro exI[of _ "(?g, None) # new"]) simp
  qed
qed

lemma ReconcileNetwork_converges:
  assumes wf: "namedRouters (world st)"
  shows "convergedDo sc (world (snd (ReconcileNetwork api (gceService sc noFaults) st)))
           (status (snd (ReconcileNetwork api (gceService sc noFaults) st)))"
proof -
  let ?s = "gceService sc noFaults"
  let ?spec = "getNetworkSpec api ?s (status st)"
  let ?k = "(Project sc, ClusterScope.NetworkName sc)"
  have nm: "network.Name ?spec = ClusterScope.NetworkName sc" by (simp add: getNetworkSpec_tag)
  have "\<exists>n b st1. getOrInsertNetwork ?s ?spec st = (Inr (n, b), st1) \<and>
          gce_networks (world st1) ?k = Some n \<and> status st1 = status st \<and>
          gce_routers (world st1) = gce_routers (world st) \<and>
          (b \<longrightarrow> network.Name n = ClusterScope.NetworkName sc)"
    unfolding getOrInsertNetwork_store nm Let_def
    by (cases "gce_networks (world st) ?k") (auto simp: nm)
  then obtain n b st1 where g: "getOrInsertNetwork ?s ?spec st = (Inr (n, b), st1)"
    and p1: "gce_networks (world st1) ?k = Some n" "status st1 = status st"
            "gce_routers (world st1) = gce_routers (world st)"
            "b \<Longrightarrow> network.Name n = ClusterScope.NetworkName sc"
    by blast
  have wf1: "namedRouters (world st1)" using wf p1(3) by (simp add: namedRouters_def)
  obtain r3 st3 where c: "(if b then (case createCloudNat ?s n st1 of
                         (Some err, st2) \<Rightarrow> (Some (Wrapf ''failed to create cloudnat gateway'' err), st2)
                       | (None, st2) \<Rightarrow> (None, st2)) else (None, st1)) = (r3, st3)"
    by (cases "(if b then (case createCloudNat ?s n st1 of
                         (Some err, st2) \<Rightarrow> (Some (Wrapf ''failed to create cloudnat gateway'' err), st2)
                       | (None, st2) \<Rightarrow> (None, st2)) else (None, st1))")
  have p3: "r3 = None \<and> gce_networks (world st3) = gce_networks (world st1)"
  proof (cases b)
    case False
    with c show ?thesis by auto
  next
    case True
    obtain r2 st2 where c2: "createCloudNat ?s n st1 = (r2, st2)" by (cases "createCloudNat ?s n st1")
    from createCloudNat_store[OF c2 p1(4)[OF True] wf1] c c2 True show ?thesis by auto
  qed
  let ?st5 = "setNetworkStatus (\<lambda>x. x\<lparr>NetworkStatus.SelfLink := Some (network.SelfLink n)\<rparr>)
                (st3\<lparr>status := (status st3)
                        \<lparr>Spec_Network_Name := Some (network.Name n),
                         Spec_Network_AutoCreateSubnetworks := Some (AutoCreateSubnetworks n)\<rparr>\<rparr>)"
  have run: "ReconcileNetwork api ?s st =
               (if \<not> AutoCreateSubnetworks n then createSubnetworks ?s (Subnets (cscope ?s)) ?st5 else (None, ?st5))"
    unfolding ReconcileNetwork_def g using c p3 by (simp add: Let_def)
  have s5: "gce_networks (world ?st5) ?k = Some n"
           "Spec_Network_Name (status ?st5) = Some (network.Name n)"
           "Spec_Network_AutoCreateSubnetworks (status ?st5) = Some (AutoCreateSubnetworks n)"
           "NetworkStatus.SelfLink (Status_Network (status ?st5)) = Some (network.SelfLink n)"
    using p1 p3 by (simp_all add: setNetworkStatus_def)
  show ?thesis
  proof (cases "AutoCreateSubnetworks n")
    case True
    with run have "snd (ReconcileNetwork api ?s st) = ?st5" by simp
    then show ?thesis unfolding convergedDo_def using s5 True by simp
  next
    case False
    obtain r st' where f: "createSubnetworks ?s (Subnets sc) ?st5 = (r, st')"
      by (cases "createSubnetworks ?s (Subnets sc) ?st5")
    from createSubnetworks_store_post[OF f] have
      q: "status st' = status ?st5" "gce_networks (world st') = gce_networks (world ?st5)"
         "settledSubnets sc (world st') (Subnets sc)" by simp_all
    from run False f have "snd (ReconcileNetwork api ?s st) = st'" by simp
    then show ?thesis unfolding convergedDo_def using s5 q by simp
  qed
qed

lemma ReconcileNetwork_converged:
  assumes c: "convergedDo sc (world st) (status st)"
  shows "\<exists>new. snd (ReconcileNetwork api (gceService sc noFaults) st) = st\<lparr>calls := calls st @ new\<rparr> \<and>
               list_all (\<lambda>c. \<not> mutatingDo (fst c)) new"
proof -
  let ?s = "gceService sc noFaults"
  let ?spec = "getNetworkSpec api ?s (status st)"
  let ?k = "(Project sc, ClusterScope.NetworkName sc)"
  let ?g = "(NetworksGetDo (Project sc) (ClusterScope.NetworkName sc), None :: error option)"
  have nm: "network.Name ?spec = ClusterScope.NetworkName sc" by (simp add: getNetworkSpec_tag)
  from c obtain n where n: "gce_networks (world st) ?k = Some n"
    and s: "Spec_Network_Name (status st) = Some (network.Name n)"
           "Spec_Network_AutoCreateSubnetworks (status st) = Some (AutoCreateSubnetworks n)"
           "NetworkStatus.SelfLink (Status_Network (status st)) = Some (network.SelfLink n)"
    and sub: "AutoCreateSubnetworks n \<or> settledSubnets sc (world st) (Subnets sc)"
    by (auto simp: convergedDo_def split: option.splits)
  define st1 where "st1 = st\<lparr>calls := calls st @ [?g]\<rparr>"
  have g: "getOrInsertNetwork ?s ?spec st = (Inr (n, False), st1)"
    unfolding getOrInsertNetwork_store nm using n by (simp add: st1_def)
  define st5 where "st5 = setNetworkStatus (\<lambda>x. x\<lparr>NetworkStatus.SelfLink := Some (network.SelfLink n)\<rparr>)
                (st1\<lparr>status := (status st1)
                        \<lparr>Spec_Network_Name := Some (network.Name n),
                         Spec_Network_AutoCreateSubnetworks := Some (AutoCreateSubnetworks n)\<rparr>\<rparr>)"
  have e5: "st5 = st1" using s by (simp add: st5_def st1_def setNetworkStatus_def)
  have run: "ReconcileNetwork api ?s st =
               (if \<not> AutoCreateSubnetworks n then createSubnetworks ?s (Subnets (cscope ?s)) st5 else (None, st5))"
    unfolding ReconcileNetwork_def g st5_def by (simp add: Let_def)
  show ?thesis
  proof (cases "AutoCreateSubnetworks n")
    case True
    with run have "snd (ReconcileNetwork api ?s st) = st\<lparr>calls := calls st @ [?g]\<rparr>"
      by (simp add: e5 st1_def)
    then show ?thesis by (intro exI[of _ "[?g]"]) simp
  next
    case False
    with sub have "settledSubnets sc (world st1) (Subnets sc)" by (simp add: st1_def)
    from createSubnetworks_store_pre[OF this] obtain new where
      f: "snd (createSubnetworks ?s (Subnets sc) st1) = st1\<lparr>calls := calls st1 @ new\<rparr>"
         "list_all (\<lambda>c. \<not> mutatingDo (fst c)) new" by blast
    from run False f(1) have "snd (ReconcileNetwork api ?s st) = st\<lparr>calls := calls st @ (?g # new)\<rparr>"
      by (simp add: e5 st1_def)
    then show ?thesis using f(2) by (intro exI[of _ "?g # new"]) simp
  qed
qed

lemma ReconcileNetwork_twice:
  "namedRouters (world st) \<Longrightarrow> idempotentRun mutatingDo (ReconcileNetwork api (gceService sc noFaults)) st"
proof -
  assume wf: "namedRouters (world st)"
  let ?f = "ReconcileNetwork api (gceService sc noFaults)"
  from ReconcileNetwork_converged[OF ReconcileNetwork_converges[OF wf, of sc api]] obtain new where
    "snd (?f (snd (?f st))) = (snd (?f st))\<lparr>calls := calls (snd (?f st)) @ new\<rparr>"
    "list_all (\<lambda>c. \<not> mutatingDo (fst c)) new" by blast
  then show ?thesis by (simp add: idempotentRun_def Let_def)
qed

lemma find_append_cases:
  "find P (xs @ ys) = (case find P xs of None \<Rightarrow> find P ys | Some x \<Rightarrow> Some x)"
  by (induction xs) auto

lemma find_Some_holds: "find P xs = Some x \<Longrightarrow> P x"
  by (induction xs) (auto split: if_splits)

lemma storeFirewallRule_recorded:
  assumes f: "find (\<lambda>f. firewall.Name f = m) (gce_firewalls (world st) p) = Some f"
  shows "recorded p (world (storeFirewallRule f st)) (status (storeFirewallRule f st)) m"
    and "recorded p (world st) (status st) n \<Longrightarrow>
         recorded p (world (storeFirewallRule f st)) (status (storeFirewallRule f st)) n"
proof -
  from find_Some_holds[OF f] have nm: "firewall.Name f = m" .
  show "recorded p (world (storeFirewallRule f st)) (status (storeFirewallRule f st)) m"
    using f by (simp add: recorded_def storeFirewallRule_def setNetworkStatus_def nm update_conv')
  assume "recorded p (world st) (status st) n"
  then show "recorded p (world (storeFirewallRule f st)) (status (storeFirewallRule f st)) n"
    using f by (cases "n = m")
      (auto simp: recorded_def storeFirewallRule_def setNetworkStatus_def nm update_conv' split: option.splits)
qed

lemma storeFirewallRule_same:
  assumes f: "find (\<lambda>f. firewall.Name f = m) (gce_firewalls (world st) p) = Some f"
      and r: "recorded p (world st) (status st) m"
  shows "storeFirewallRule f st = st"
proof -
  from find_Some_holds[OF f] have nm: "firewall.Name f = m" .
  from r f have "map_of (FirewallRules (Status_Network (status st))) (firewall.Name f) = Some (firewall.SelfLink f)"
    by (simp add: recorded_def nm)
  then show ?thesis by (simp add: storeFirewallRule_def setNetworkStatus_def update_triv)
qed

lemma reconcileFirewallSpecs_store_post:
  "reconcileFirewallSpecs (gceService sc noFaults) specs st = (r, st') \<Longrightarrow>
     r = None \<and>
     (\<forall>n. recorded (Project sc) (world st) (status st) n \<longrightarrow> recorded (Project sc) (world st') (status st') n) \<and>
     list_all (\<lambda>x. recorded (Project sc) (world st') (status st') (firewall.Name x)) specs"
proof (induction specs arbitrary: st)
  case Nil
  then show ?case by simp
next
  case (Cons x xs)
  let ?p = "Project sc"
  let ?m = "firewall.Name x"
  show ?case
  proof (cases "find (\<lambda>f. firewall.Name f = ?m) (gce_firewalls (world st) ?p)")
    case (Some f)
    define st1 where "st1 = st\<lparr>calls := calls st @ [(FirewallsGetDo ?p ?m, None)]\<rparr>"
    have f1: "find (\<lambda>f. firewall.Name f = ?m) (gce_firewalls (world st1) ?p) = Some f"
      using Some by (simp add: st1_def)
    from Cons.prems Some have "reconcileFirewallSpecs (gceService sc noFaults) xs (storeFirewallRule f st1) = (r, st')"
      by (simp add: gce_eval Let_def st1_def)
    from Cons.IH[OF this] have ih: "r = None"
      "\<And>n. recorded ?p (world (storeFirewallRule f st1)) (status (storeFirewallRule f st1)) n \<Longrightarrow>
            recorded ?p (world st') (status st') n"
      "list_all (\<lambda>x. recorded ?p (world st') (status st') (firewall.Name x)) xs" by simp_all
    have a: "recorded ?p (world st') (status st') ?m"
      using ih(2) storeFirewallRule_recorded(1)[OF f1] by blast
    have b: "recorded ?p (world st') (status st') n" if "recorded ?p (world st) (status st) n" for n
    proof -
      from that have "recorded ?p (world st1) (status st1) n" by (simp add: st1_def)
      from ih(2)[OF storeFirewallRule_recorded(2)[OF f1 this]] show ?thesis .
    qed
    from ih(1,3) a b show ?thesis by simp
  next
    case None
    let ?x' = "x\<lparr>firewall.SelfLink := ''projects/'' @ ?p @ ''/global/firewalls/'' @ ?m\<rparr>"
    define st4 where "st4 = st\<lparr>world := (world st)\<lparr>gce_firewalls := (gce_firewalls (world st))
                                     (?p := gce_firewalls (world st) ?p @ [?x'])\<rparr>,
                 calls := calls st @ [(FirewallsGetDo ?p ?m, Some NotFound),
                                      (FirewallsInsertDo ?p x, None),
                                      (WaitForComputeOperation ?p (Operation ''insert''), None),
                                      (FirewallsGetDo ?p ?m, None)]\<rparr>"
    have f4: "find (\<lambda>f. firewall.Name f = ?m) (gce_firewalls (world st4) ?p) = Some ?x'"
      using None by (simp add: st4_def find_append_cases)
    from Cons.prems None have "reconcileFirewallSpecs (gceService sc noFaults) xs (storeFirewallRule ?x' st4) = (r, st')"
      by (simp add: gce_eval Let_def st4_def find_append_cases)
    from Cons.IH[OF this] have ih: "r = None"
      "\<And>n. recorded ?p (world (storeFirewallRule ?x' st4)) (status (storeFirewallRule ?x' st4)) n \<Longrightarrow>
            recorded ?p (world st') (status st') n"
      "list_all (\<lambda>x. recorded ?p (world st') (status st') (firewall.Name x)) xs" by simp_all
    have a: "recorded ?p (world st') (status st') ?m"
      using ih(2) storeFirewallRule_recorded(1)[OF f4] by blast
    have b: "recorded ?p (world st') (status st') n" if "recorded ?p (world st) (status st) n" for n
    proof -
      from that have "recorded ?p (world st4) (status st4) n"
        by (auto simp: st4_def recorded_def find_append_cases split: option.splits)
      from ih(2)[OF storeFirewallRule_recorded(2)[OF f4 this]] show ?thesis .
    qed
    from ih(1,3) a b show ?thesis by simp
  qed
qed

lemma reconcileFirewallSpecs_store_pre:
  "list_all (\<lambda>x. recorded (Project sc) (world st) (status st) (firewall.Name x)) specs \<Longrightarrow>
     \<exists>new. reconcileFirewallSpecs (gceService sc noFaults) specs st = (None, st\<lparr>calls := calls st @ new\<rparr>) \<and>
           list_all (\<lambda>c. \<not> mutatingDo (fst c)) new"
proof (induction specs arbitrary: st)
  case Nil
  show ?case by (intro exI[of _ "[]"]) simp
next
  case (Cons x xs)
  let ?p = "Project sc"
  let ?m = "firewall.Name x"
  let ?g = "(FirewallsGetDo ?p ?m, None :: error option)"
  from Cons.prems have r: "recorded ?p (world st) (status st) ?m" by simp
  then obtain f where f: "find (\<lambda>f. firewall.Name f = ?m) (gce_firewalls (world st) ?p) = Some f"
    by (auto simp: recorded_def split: option.splits)
  define st1 where "st1 = st\<lparr>calls := calls st @ [?g]\<rparr>"
  have f1: "find (\<lambda>f. firewall.Name f = ?m) (gce_firewalls (world st1) ?p) = Some f"
    and r1: "recorded ?p (world st1) (status st1) ?m"
    using f r by (simp_all add: st1_def)
  have same: "storeFirewallRule f st1 = st1" by (rule storeFirewallRule_same[OF f1 r1])
  from Cons.prems have "list_all (\<lambda>x. recorded ?p (world st1) (status st1) (firewall.Name x)) xs"
    by (simp add: st1_def)
  from Cons.IH[OF this] obtain new where
    n: "reconcileFirewallSpecs (gceService sc noFaults) xs st1 = (None, st1\<lparr>calls := calls st1 @ new\<rparr>)"
       "list_all (\<lambda>c. \<not> mutatingDo (fst c)) new" by blast
  have "do_firewalls_Get_Do (gceService sc noFaults) ?p ?m st = (Inr f, st1)"
    using f by (simp add: gce_eval st1_def)
  then have "reconcileFirewallSpecs (gceService sc noFaults) (x # xs) st = (None, st1\<lparr>calls := calls st1 @ new\<rparr>)"
    using n(1) same by (simp add: Let_def)
  then have "reconcileFirewallSpecs (gceService sc noFaults) (x # xs) st = (None, st\<lparr>calls := calls st @ (?g # new)\<rparr>)"
    by (simp add: st1_def)
  then show ?case using n(2) by (intro exI[of _ "?g # new"]) simp
qed

lemma getFirewallSpecs_names:
  "map firewall.Name (getFirewallSpecs api s cl) = map firewall.Name (getFirewallSpecs api s cl')"
  by (simp add: getFirewallSpecs_def)

lemma ReconcileFirewalls_twice:
  "idempotentRun mutatingDo (ReconcileFirewalls api (gceService sc noFaults)) st"
proof -
  let ?s = "gceService sc noFaults"
  obtain r st1 where run: "ReconcileFirewalls api ?s st = (r, st1)" by (cases "ReconcileFirewalls api ?s st")
  then have "reconcileFirewallSpecs ?s (getFirewallSpecs api ?s (status st)) st = (r, st1)"
    by (simp add: ReconcileFirewalls_def)
  from reconcileFirewallSpecs_store_post[OF this]
  have "list_all (\<lambda>x. recorded (Project sc) (world st1) (status st1) (firewall.Name x))
          (getFirewallSpecs api ?s (status st))" by simp
  then have "list_all (recorded (Project sc) (world st1) (status st1))
          (map firewall.Name (getFirewallSpecs api ?s (status st)))" by (simp add: list_all_iff)
  then have "list_all (recorded (Project sc) (world st1) (status st1))
          (map firewall.Name (getFirewallSpecs api ?s (status st1)))"
    by (simp only: getFirewallSpecs_names[of api ?s "status st1" "status st"])
  then have "list_all (\<lambda>x. recorded (Project sc) (world st1) (status st1) (firewall.Name x))
          (getFirewallSpecs api ?s (status st1))" by (simp add: list_all_iff)
  from reconcileFirewallSpecs_store_pre[OF this] obtain new where
    "ReconcileFirewalls api ?s st1 = (None, st1\<lparr>calls := calls st1 @ new\<rparr>)"
    "list_all (\<lambda>c. \<not> mutatingDo (fst c)) new" by (auto simp: ReconcileFirewalls_def)
  with run show ?thesis by (simp add: idempotentRun_def Let_def)
qed













lemma sweepCall_mono:
  "sweepCall T p fws c \<Longrightarrow> (\<And>fw. fw \<in> set fws \<Longrightarrow> T fw \<Longrightarrow> T' fw) \<Longrightarrow> sweepCall T' p fws c"
  by (cases c) (auto simp: list_ex_iff)

lemma sweepCall_Cons: "sweepCall T p fws c \<Longrightarrow> sweepCall T p (fw # fws) c"
  by (cases c) auto

lemma sweepFirewalls_run:
  assumes run: "sweepFirewalls parseURL s fws st = (r, st')"
      and T: "\<And>fw. fw \<in> set fws \<Longrightarrow>
                T fw = (getFirewallNetworkName parseURL fw = Inr (ClusterScope.NetworkName (cscope s)) \<and>
                        list_ex (\<lambda>tt. tt = ClusterScope.Name (cscope s)) (TargetTags fw))"
  shows "status st' = status st \<and>
     (\<exists>new. calls st' = calls st @ new \<and>
        list_all (\<lambda>c. sweepCall T (Project (cscope s)) fws (fst c)) new \<and>
        (r = None \<longrightarrow>
           list_all (\<lambda>fw. T fw \<longrightarrow>
                      list_ex (\<lambda>c. fst c = FirewallsDeleteDo (Project (cscope s)) (firewall.Name fw)) new) fws))"
  using run T
proof (induction fws arbitrary: st)
  case Nil
  then show ?case by simp
next
  case (Cons fw rest)
  let ?d = "\<lambda>fw. FirewallsDeleteDo (Project (cscope s)) (firewall.Name fw)"
  let ?p = "Project (cscope s)"
  note Tfw = Cons.prems(2)[of fw, simplified]
  have Trest: "\<And>x. x \<in> set rest \<Longrightarrow>
                T x = (getFirewallNetworkName parseURL x = Inr (ClusterScope.NetworkName (cscope s)) \<and>
                        list_ex (\<lambda>tt. tt = ClusterScope.Name (cscope s)) (TargetTags x))"
    using Cons.prems(2) by simp
  have mono: "list_all (\<lambda>c. sweepCall T ?p rest (fst c)) new \<Longrightarrow>
              list_all (\<lambda>c. sweepCall T ?p (fw # rest) (fst c)) new" for new
    by (auto simp: list_all_iff intro: sweepCall_Cons)
  show ?case
  proof (cases "getFirewallNetworkName parseURL fw")
    case (Inl e)
    with Cons.prems(1) show ?thesis by auto
  next
    case (Inr nn)
    define step where "step = (if nn = ClusterScope.NetworkName (cscope s)
                 then deleteIfTagged s fw (TargetTags fw) st else (None, st))"
    obtain r1 st1 where s1: "step = (r1, st1)" by (cases step)
    have "\<exists>n1. status st1 = status st \<and> calls st1 = calls st @ n1 \<and>
            list_all (\<lambda>c. sweepCall T ?p (fw # rest) (fst c)) n1 \<and>
            (r1 = None \<and> T fw \<longrightarrow> list_ex (\<lambda>c. fst c = ?d fw) n1)"
    proof (cases "nn = ClusterScope.NetworkName (cscope s)")
      case False
      with s1 Inr Tfw show ?thesis by (intro exI[of _ "[]"]) (auto simp: step_def)
    next
      case True
      with s1 have "deleteIfTagged s fw (TargetTags fw) st = (r1, st1)" by (simp add: step_def)
      from deleteIfTagged_run[OF this] obtain n1 where n1: "status st1 = status st" "calls st1 = calls st @ n1"
        "list_all (\<lambda>c. fst c = ?d fw \<or> (\<exists>p op. fst c = WaitForComputeOperation p op)) n1"
        "list_ex (\<lambda>c. fst c = ?d fw) n1 \<longrightarrow> list_ex (\<lambda>tt. tt = ClusterScope.Name (cscope s)) (TargetTags fw)"
        "r1 = None \<and> list_ex (\<lambda>tt. tt = ClusterScope.Name (cscope s)) (TargetTags fw) \<longrightarrow> list_ex (\<lambda>c. fst c = ?d fw) n1"
        by blast
      have "list_all (\<lambda>c. sweepCall T ?p (fw # rest) (fst c)) n1"
        unfolding list_all_iff
      proof
        fix c assume c: "c \<in> set n1"
        with n1(3) have "fst c = ?d fw \<or> (\<exists>p op. fst c = WaitForComputeOperation p op)"
          by (auto simp: list_all_iff)
        then show "sweepCall T ?p (fw # rest) (fst c)"
        proof
          assume e: "fst c = ?d fw"
          with c have "list_ex (\<lambda>c. fst c = ?d fw) n1" by (auto simp: list_ex_iff)
          with n1(4) True Inr Tfw have "T fw" by simp
          with e show ?thesis by simp
        next
          assume "\<exists>p op. fst c = WaitForComputeOperation p op"
          then show ?thesis by auto
        qed
      qed
      with n1 Tfw True Inr show ?thesis by (intro exI[of _ n1]) auto
    qed
    then obtain n1 where n1: "status st1 = status st" "calls st1 = calls st @ n1"
       "list_all (\<lambda>c. sweepCall T ?p (fw # rest) (fst c)) n1"
       "r1 = None \<and> T fw \<longrightarrow> list_ex (\<lambda>c. fst c = ?d fw) n1"
      by blast
    show ?thesis
    proof (cases r1)
      case (Some e)
      with Cons.prems(1) Inr s1 have "st' = st1" "r \<noteq> None" by (auto simp: step_def)
      with n1 show ?thesis by auto
    next
      case None
      with Cons.prems(1) Inr s1 have "sweepFirewalls parseURL s rest st1 = (r, st')" by (simp add: step_def)
      from Cons.IH[OF this Trest] obtain n2 where n2: "status st' = status st1" "calls st' = calls st1 @ n2"
        "list_all (\<lambda>c. sweepCall T ?p rest (fst c)) n2"
        "r = None \<longrightarrow> list_all (\<lambda>fw. T fw \<longrightarrow> list_ex (\<lambda>c. fst c = ?d fw) n2) rest"
        by blast
      from n1 n2 None mono[OF n2(3)] show ?thesis
        by (intro conjI exI[of _ "n1 @ n2"]) (auto simp: list_all_iff list_ex_iff)
    qed
  qed
qed

lemma deleteRouter_log:
  assumes "deleteRouter api s st = (None, st')"
  shows "map fst (issued st st') =
           RoutersGet (routerKey (scope s)) #
           (if ownsRouter api s (world st) then [RoutersDelete (routerKey (scope s))] else [])"
  using assms unfolding deleteRouter_def Let_def do_defs routerKey_def ownsRouter_def
  by (auto split: prod.splits sum.splits if_splits option.splits dest!: getCall_run mutCall_run)

lemma deleteSubnets_log:
  "deleteSubnets s xs st = (None, st') \<Longrightarrow> \<exists>new. calls st' = calls st @ new \<and> subnetLog xs new"
proof (induction xs arbitrary: st)
  case Nil
  then show ?case by simp
next
  case (Cons x xs)
  let ?k = "subnetKey x"
  obtain g st1 where g: "do_subnetworks_Get s ?k st = (g, st1)" by (cases "do_subnetworks_Get s ?k st")
  then have g': "calls st1 = calls st @ [(SubnetworksGet ?k, errOf g)]"
    by (auto simp: do_defs dest: getCall_run)
  show ?case
  proof (cases g)
    case (Inl e)
    with Cons.prems g have nf: "IsNotFound e" and rec: "deleteSubnets s xs st1 = (None, st')"
      by (auto simp: subnetKey_def Let_def split: if_splits)
    from Cons.IH[OF rec] obtain new where n: "calls st' = calls st1 @ new" "subnetLog xs new" by blast
    with g' Inl nf show ?thesis
      by (intro exI[of _ "(SubnetworksGet ?k, Some e) # new"]) (simp add: errOf_def)
  next
    case (Inr y)
    obtain d st2 where d: "do_subnetworks_Delete s ?k st1 = (d, st2)" by (cases "do_subnetworks_Delete s ?k st1")
    then have d': "calls st2 = calls st1 @ [(SubnetworksDelete ?k, d)]"
      by (auto simp: do_defs dest: mutCall_run)
    from Cons.prems g Inr d have rec: "deleteSubnets s xs st2 = (None, st')"
      by (auto simp: subnetKey_def Let_def split: option.splits)
    from Cons.IH[OF rec] obtain new where n: "calls st' = calls st2 @ new" "subnetLog xs new" by blast
    with g' d' Inr show ?thesis
      by (intro exI[of _ "(SubnetworksGet ?k, None) # (SubnetworksDelete ?k, d) # new"]) (simp add: errOf_def)
  qed
qed

lemma deleteRoutes_log:
  "deleteRoutes s rs st = (None, st') \<Longrightarrow>
     calls st' = calls st @
       map (\<lambda>rt. (RoutesDelete (GlobalKey (route.Name rt)), None))
         (filter (\<lambda>rt. HasSuffix (route.Network rt) (Scope.NetworkName (scope s))) rs)"
proof (induction rs arbitrary: st)
  case Nil
  then show ?case by simp
next
  case (Cons x xs)
  show ?case
  proof (cases "HasSuffix (route.Network x) (Scope.NetworkName (scope s))")
    case False
    with Cons.prems have "deleteRoutes s xs st = (None, st')" by simp
    from Cons.IH[OF this] False show ?thesis by simp
  next
    case True
    let ?k = "GlobalKey (route.Name x)"
    obtain d st1 where d: "do_routes_Delete s ?k st = (d, st1)" by (cases "do_routes_Delete s ?k st")
    then have d': "calls st1 = calls st @ [(RoutesDelete ?k, d)]"
      by (auto simp: do_defs dest: mutCall_run)
    from Cons.prems True d have dn: "d = None" and rec: "deleteRoutes s xs st1 = (None, st')"
      by (auto split: option.splits)
    from Cons.IH[OF rec] d' dn True show ?thesis by simp
  qed
qed

lemma Delete_success:
  assumes ns: "\<not> IsSharedVpc (scope s)"
      and get: "networks_Get s (networkKey (scope s)) (world st) = (Inr nw, w1)"
      and own: "network.Description nw = ClusterTagKey api (Scope.Name (scope s))"
      and run: "fst (Delete api s st) = None"
  shows "\<exists>rs w4. routes_List s nodeRoutes (world (afterSubnets api s nw st)) = (Inr rs, w4) \<and>
          map fst (issued st (snd (Delete api s st))) =
            NetworksGet (networkKey (scope s)) # RoutersGet (routerKey (scope s)) #
            (if ownsRouter api s w1 then [RoutersDelete (routerKey (scope s))] else []) @
            map fst (issued (afterRouter api s st) (afterSubnets api s nw st)) @
            RoutesList nodeRoutes #
            map (\<lambda>rt. RoutesDelete (GlobalKey (route.Name rt)))
              (filter (\<lambda>rt. HasSuffix (route.Network rt) (Scope.NetworkName (scope s))) rs) @
            [NetworksDelete (networkKey (scope s))]"
    and "if AutoCreateSubnetworks nw then afterSubnets api s nw st = afterRouter api s st
         else subnetLog (SubnetworkSpec (scope s)) (issued (afterRouter api s st) (afterSubnets api s nw st))"
proof -
  let ?k = "networkKey (scope s)"
  let ?rk = "routerKey (scope s)"
  define st1 where "st1 = st\<lparr>world := w1, calls := calls st @ [(NetworksGet ?k, None)]\<rparr>"
  have g: "do_networks_Get s (GlobalKey (Scope.NetworkName (scope s))) st = (Inr nw, st1)"
    using get by (simp add: do_defs getCall_def st1_def errOf_def networkKey_def)
  then have g2: "do_networks_Get s ?k st = (Inr nw, st1)" by (simp add: networkKey_def)
  obtain r2 st2 where s2: "deleteRouter api s st1 = (r2, st2)" by (cases "deleteRouter api s st1")
  have ar: "afterRouter api s st = st2" by (simp add: afterRouter_def g2 s2)
  obtain r3 st3 where s3: "(if \<not> AutoCreateSubnetworks nw
                           then deleteSubnets s (SubnetworkSpec (scope s)) st2
                           else (None, st2)) = (r3, st3)"
    by (cases "(if \<not> AutoCreateSubnetworks nw
                           then deleteSubnets s (SubnetworkSpec (scope s)) st2
                           else (None, st2))")
  have as: "afterSubnets api s nw st = st3" using s3 by (auto simp: afterSubnets_def ar split: if_splits)
  obtain l st4 where s4: "do_routes_List s (Regexp ''description'' k8sNodeRouteTag) st3 = (l, st4)"
    by (cases "do_routes_List s (Regexp ''description'' k8sNodeRouteTag) st3")
  have r2: "r2 = None" using run ns g own s2 by (cases r2) (simp_all add: Delete_def)
  have r3: "r3 = None" using run ns g own s2 r2 s3 by (cases r3) (simp_all add: Delete_def)
  obtain rs where l: "l = Inr rs" using run ns g own s2 r2 s3 r3 s4 by (cases l) (simp_all add: Delete_def)
  obtain r5 st5 where s5: "deleteRoutes s rs st4 = (r5, st5)" by (cases "deleteRoutes s rs st4")
  have r5: "r5 = None" using run ns g own s2 r2 s3 r3 s4 l s5 by (cases r5) (simp_all add: Delete_def)
  obtain r6 st6 where s6: "do_networks_Delete s (GlobalKey (Scope.NetworkName (scope s))) st5 = (r6, st6)"
    by (cases "do_networks_Delete s (GlobalKey (Scope.NetworkName (scope s))) st5")
  have r6: "r6 = None" using run ns g own s2 r2 s3 r3 s4 l s5 r5 s6 by (cases r6) (simp_all add: Delete_def)
  have fin: "snd (Delete api s st) = st6\<lparr>status := (status st6)\<lparr>Router := None, NetworkStatus.SelfLink := None\<rparr>\<rparr>"
    using ns g own s2 r2 s3 r3 s4 l s5 r5 s6 r6 by (simp add: Delete_def)
  have c1: "calls st1 = calls st @ [(NetworksGet ?k, None)]" by (simp add: st1_def)
  have w1: "world st1 = w1" by (simp add: st1_def)
  from deleteRouter_log[OF s2[unfolded r2]] have m2: "map fst (issued st1 st2) =
     RoutersGet ?rk # (if ownsRouter api s w1 then [RoutersDelete ?rk] else [])" by (simp add: w1)
  from deleteRouter_run[OF s2] obtain n2 where c2: "calls st2 = calls st1 @ n2" by blast
  have "\<exists>n3. calls st3 = calls st2 @ n3 \<and>
          (if AutoCreateSubnetworks nw then st3 = st2 else subnetLog (SubnetworkSpec (scope s)) n3)"
  proof (cases "AutoCreateSubnetworks nw")
    case True
    with s3 show ?thesis by auto
  next
    case False
    with s3 r3 have "deleteSubnets s (SubnetworkSpec (scope s)) st2 = (None, st3)" by simp
    from deleteSubnets_log[OF this] False show ?thesis by auto
  qed
  then obtain n3 where c3: "calls st3 = calls st2 @ n3"
    and l3: "if AutoCreateSubnetworks nw then st3 = st2 else subnetLog (SubnetworkSpec (scope s)) n3" by blast
  from s4 l have c4: "calls st4 = calls st3 @ [(RoutesList nodeRoutes, None)]"
    and rl: "routes_List s nodeRoutes (world st3) = (Inr rs, world st4)"
    by (auto simp: do_defs nodeRoutes_def errOf_def dest!: getCall_run)
  from deleteRoutes_log[OF s5[unfolded r5]] have c5: "calls st5 = calls st4 @
       map (\<lambda>rt. (RoutesDelete (GlobalKey (route.Name rt)), None))
         (filter (\<lambda>rt. HasSuffix (route.Network rt) (Scope.NetworkName (scope s))) rs)" .
  from s6 r6 have c6: "calls st6 = calls st5 @ [(NetworksDelete ?k, None)]"
    by (auto simp: do_defs networkKey_def dest!: mutCall_run)
  have i2: "issued st1 st2 = n2" using c2 by simp
  have i3: "issued st2 st3 = n3" using c3 by simp
  have tot: "issued st (snd (Delete api s st)) =
      (NetworksGet ?k, None) # n2 @ n3 @ (RoutesList nodeRoutes, None) #
      map (\<lambda>rt. (RoutesDelete (GlobalKey (route.Name rt)), None))
         (filter (\<lambda>rt. HasSuffix (route.Network rt) (Scope.NetworkName (scope s))) rs) @
      [(NetworksDelete ?k, None)]"
    unfolding fin by (rule issued_append) (simp add: c6 c5 c4 c3 c2 c1)
  have main: "map fst (issued st (snd (Delete api s st))) =
            NetworksGet ?k # RoutersGet ?rk #
            (if ownsRouter api s w1 then [RoutersDelete ?rk] else []) @
            map fst (issued (afterRouter api s st) (afterSubnets api s nw st)) @
            RoutesList nodeRoutes #
            map (\<lambda>rt. RoutesDelete (GlobalKey (route.Name rt)))
              (filter (\<lambda>rt. HasSuffix (route.Network rt) (Scope.NetworkName (scope s))) rs) @
            [NetworksDelete ?k]"
    unfolding tot ar as i3 using m2[unfolded i2] by (simp add: comp_def)
  have rl': "routes_List s nodeRoutes (world (afterSubnets api s nw st)) = (Inr rs, world st4)"
    unfolding as by (rule rl)
  show "\<exists>rs w4. routes_List s nodeRoutes (world (afterSubnets api s nw st)) = (Inr rs, w4) \<and>
          map fst (issued st (snd (Delete api s st))) =
            NetworksGet ?k # RoutersGet ?rk #
            (if ownsRouter api s w1 then [RoutersDelete ?rk] else []) @
            map fst (issued (afterRouter api s st) (afterSubnets api s nw st)) @
            RoutesList nodeRoutes #
            map (\<lambda>rt. RoutesDelete (GlobalKey (route.Name rt)))
              (filter (\<lambda>rt. HasSuffix (route.Network rt) (Scope.NetworkName (scope s))) rs) @
            [NetworksDelete ?k]"
    by (rule exI[of _ rs], rule exI[of _ "world st4"], rule conjI[OF rl' main])
  show "if AutoCreateSubnetworks nw then afterSubnets api s nw st = afterRouter api s st
         else subnetLog (SubnetworkSpec (scope s)) (issued (afterRouter api s st) (afterSubnets api s nw st))"
    unfolding ar as i3 using l3 .
qed

lemma deleteCalls_append [simp]: "deleteCalls (a @ b) = deleteCalls a @ deleteCalls b"
  by (simp add: deleteCalls_def)

lemma deleteCalls_Nil [simp]: "deleteCalls [] = []"
  by (simp add: deleteCalls_def)

lemma checkOrWait_deletes:
  "checkOrWaitForDeleteOp s r st = (x, st') \<Longrightarrow> \<exists>new. calls st' = calls st @ new \<and> deleteCalls new = []"
proof -
  assume "checkOrWaitForDeleteOp s r st = (x, st')"
  from checkOrWait_run[OF this] obtain new where n: "calls st' = calls st @ new"
    "list_all (\<lambda>c. \<exists>p op. fst c = WaitForComputeOperation p op) new" by blast
  from n(2) have "deleteCalls new = []"
    by (auto simp: deleteCalls_def list_all_iff filter_empty_conv)
  with n(1) show ?thesis by blast
qed

lemma deleteNetworkRouter_log:
  assumes "deleteNetworkRouter s st = (None, st')"
  shows "\<exists>new. calls st' = calls st @ new \<and>
           deleteCalls new =
             (case fst (routers_Get_Do s (Project (cscope s)) (ClusterScope.Region (cscope s))
                          (getRouterName (ClusterScope.NetworkName (cscope s))) (world st)) of
                Inl _ \<Rightarrow> []
              | Inr rt \<Rightarrow> [RoutersDeleteDo (Project (cscope s)) (ClusterScope.Region (cscope s)) (router.Name rt)])"
proof -
  let ?p = "Project (cscope s)" and ?r = "ClusterScope.Region (cscope s)"
  let ?n = "getRouterName (ClusterScope.NetworkName (cscope s))"
  obtain g st1 where g: "do_routers_Get_Do s ?p ?r ?n st = (g, st1)" by (cases "do_routers_Get_Do s ?p ?r ?n st")
  then have g': "calls st1 = calls st @ [(RoutersGetDo ?p ?r ?n, errOf g)]"
    "routers_Get_Do s ?p ?r ?n (world st) = (g, world st1)"
    by (auto simp: doDo_defs dest: getCall_run)
  show ?thesis
  proof (cases g)
    case (Inl e)
    with assms g have "st' = st1" by (auto simp: deleteNetworkRouter_def Let_def split: if_splits)
    with g' Inl show ?thesis
      by (intro exI[of _ "[(RoutersGetDo ?p ?r ?n, errOf g)]"]) (simp add: deleteCalls_def)
  next
    case (Inr rt)
    obtain d st2 where d: "do_routers_Delete_Do s ?p ?r (router.Name rt) st1 = (d, st2)"
      by (cases "do_routers_Delete_Do s ?p ?r (router.Name rt) st1")
    then have d': "calls st2 = calls st1 @ [(RoutersDeleteDo ?p ?r (router.Name rt), errOf d)]"
      by (auto simp: doDo_defs dest: getCall_run)
    obtain x st3 where c: "checkOrWaitForDeleteOp s d st2 = (x, st3)" by (cases "checkOrWaitForDeleteOp s d st2")
    from checkOrWait_deletes[OF c] obtain n3 where n3: "calls st3 = calls st2 @ n3" "deleteCalls n3 = []" by blast
    from assms g Inr d c have "st' = st3"
      by (auto simp: deleteNetworkRouter_def Let_def split: option.splits)
    with g' d' n3 Inr show ?thesis
      by (intro exI[of _ "(RoutersGetDo ?p ?r ?n, errOf g) # (RoutersDeleteDo ?p ?r (router.Name rt), errOf d) # n3"])
         (simp add: deleteCalls_def)
  qed
qed

lemma deleteNetworkRoutes_log:
  "deleteNetworkRoutes s nw rs st = (None, st') \<Longrightarrow>
     \<exists>new. calls st' = calls st @ new \<and>
       deleteCalls new =
         map (\<lambda>rt. RoutesDeleteDo (Project (cscope s)) (route.Name rt))
           (filter (\<lambda>rt. HasSuffix (route.Network rt) (network.Name nw)) rs)"
proof (induction rs arbitrary: st)
  case Nil
  then show ?case by simp
next
  case (Cons x xs)
  show ?case
  proof (cases "HasSuffix (route.Network x) (network.Name nw)")
    case False
    with Cons.prems have "deleteNetworkRoutes s nw xs st = (None, st')" by simp
    from Cons.IH[OF this] False show ?thesis by simp
  next
    case True
    let ?c = "RoutesDeleteDo (Project (cscope s)) (route.Name x)"
    obtain d st1 where d: "do_routes_Delete_Do s (Project (cscope s)) (route.Name x) st = (d, st1)"
      by (cases "do_routes_Delete_Do s (Project (cscope s)) (route.Name x) st")
    then have d': "calls st1 = calls st @ [(?c, errOf d)]"
      by (auto simp: doDo_defs dest: getCall_run)
    obtain y st2 where c: "checkOrWaitForDeleteOp s d st1 = (y, st2)" by (cases "checkOrWaitForDeleteOp s d st1")
    from checkOrWait_deletes[OF c] obtain n2 where n2: "calls st2 = calls st1 @ n2" "deleteCalls n2 = []" by blast
    from Cons.prems True d c have rec: "deleteNetworkRoutes s nw xs st2 = (None, st')"
      by (auto split: option.splits)
    from Cons.IH[OF rec] obtain new where n: "calls st' = calls st2 @ new"
      "deleteCalls new = map (\<lambda>rt. RoutesDeleteDo (Project (cscope s)) (route.Name rt))
           (filter (\<lambda>rt. HasSuffix (route.Network rt) (network.Name nw)) xs)" by blast
    have "deleteCalls ([(?c, errOf d)] @ n2 @ new) =
            map (\<lambda>rt. RoutesDeleteDo (Project (cscope s)) (route.Name rt))
              (filter (\<lambda>rt. HasSuffix (route.Network rt) (network.Name nw)) (x # xs))"
      unfolding deleteCalls_append n(2) n2(2) using True by (simp add: deleteCalls_def)
    moreover have "calls st' = calls st @ ([(?c, errOf d)] @ n2 @ new)" using d' n2(1) n(1) by simp
    ultimately show ?thesis by blast
  qed
qed

lemma deleteSubnetworks_log:
  "deleteSubnetworks s urls st = (None, st') \<Longrightarrow>
     \<exists>new. calls st' = calls st @ new \<and>
       deleteCalls new =
         map (SubnetworksDeleteDo (Project (cscope s)) (ClusterScope.Region (cscope s)))
           (filter (\<lambda>n. n \<noteq> []) (map getSubnetNameFromUrl urls))"
proof (induction urls arbitrary: st)
  case Nil
  then show ?case by simp
next
  case (Cons u us)
  let ?n = "getSubnetNameFromUrl u"
  show ?case
  proof (cases "?n = []")
    case True
    with Cons.prems have "deleteSubnetworks s us st = (None, st')" by (simp add: Let_def)
    from Cons.IH[OF this] True show ?thesis by simp
  next
    case False
    let ?c = "SubnetworksDeleteDo (Project (cscope s)) (ClusterScope.Region (cscope s)) ?n"
    obtain d st1 where d: "do_subnetworks_Delete_Do s (Project (cscope s)) (ClusterScope.Region (cscope s)) ?n st = (d, st1)"
      by (cases "do_subnetworks_Delete_Do s (Project (cscope s)) (ClusterScope.Region (cscope s)) ?n st")
    then have d': "calls st1 = calls st @ [(?c, errOf d)]"
      by (auto simp: doDo_defs dest: getCall_run)
    from Cons.prems False d obtain op where op: "d = Inr op"
      by (cases d) (auto simp: Let_def)
    obtain y st2 where w: "do_ForComputeOperation s (Project (cscope s)) op st1 = (y, st2)"
      by (cases "do_ForComputeOperation s (Project (cscope s)) op st1")
    then have w': "calls st2 = calls st1 @ [(WaitForComputeOperation (Project (cscope s)) op, y)]"
      by (auto simp: doDo_defs dest: mutCall_run)
    from Cons.prems False d op w have rec: "deleteSubnetworks s us st2 = (None, st')"
      by (auto simp: Let_def split: option.splits)
    from Cons.IH[OF rec] obtain new where n: "calls st' = calls st2 @ new"
      "deleteCalls new = map (SubnetworksDeleteDo (Project (cscope s)) (ClusterScope.Region (cscope s)))
           (filter (\<lambda>n. n \<noteq> []) (map getSubnetNameFromUrl us))" by blast
    have "deleteCalls ([(?c, errOf d), (WaitForComputeOperation (Project (cscope s)) op, y)] @ new) =
            map (SubnetworksDeleteDo (Project (cscope s)) (ClusterScope.Region (cscope s)))
              (filter (\<lambda>n. n \<noteq> []) (map getSubnetNameFromUrl (u # us)))"
      unfolding deleteCalls_append n(2) using False by (simp add: deleteCalls_def)
    moreover have "calls st' = calls st @ ([(?c, errOf d), (WaitForComputeOperation (Project (cscope s)) op, y)] @ new)"
      using d' w' n(1) by simp
    ultimately show ?thesis by blast
  qed
qed

lemma DeleteNetwork_success:
  assumes get: "networks_Get_Do s (Project (cscope s)) (ClusterScope.NetworkName (cscope s)) (world st) = (Inr nw, w1)"
      and own: "network.Description nw = ClusterTagKey api (ClusterScope.Name (cscope s))"
      and run: "fst (DeleteNetwork api s st) = None"
  shows "\<exists>rs w3.
          routes_List_Filter_Do s (Project (cscope s))
            (''description='' @ k8sNodeRouteTag @ '' name='' @ ClusterScope.Name (cscope s) @ ''-*'')
            (world (afterRouterDo s st)) = (Inr rs, w3) \<and>
          deleteCalls (issued st (snd (DeleteNetwork api s st))) =
            (case fst (routers_Get_Do s (Project (cscope s)) (ClusterScope.Region (cscope s))
                         (getRouterName (ClusterScope.NetworkName (cscope s))) w1) of
               Inl _ \<Rightarrow> []
             | Inr rt \<Rightarrow> [RoutersDeleteDo (Project (cscope s)) (ClusterScope.Region (cscope s)) (router.Name rt)]) @
            map (\<lambda>rt. RoutesDeleteDo (Project (cscope s)) (route.Name rt))
              (filter (\<lambda>rt. HasSuffix (route.Network rt) (network.Name nw)) rs) @
            (if \<not> AutoCreateSubnetworks nw
             then map (SubnetworksDeleteDo (Project (cscope s)) (ClusterScope.Region (cscope s)))
                    (filter (\<lambda>n. n \<noteq> []) (map getSubnetNameFromUrl (Subnetworks nw)))
             else []) @
            [NetworksDeleteDo (Project (cscope s)) (network.Name nw)]"
proof -
  let ?p = "Project (cscope s)"
  let ?nn = "ClusterScope.NetworkName (cscope s)"
  let ?fs = "''description='' @ k8sNodeRouteTag @ '' name='' @ ClusterScope.Name (cscope s) @ ''-*''"
  let ?g = "(NetworksGetDo ?p ?nn, None :: error option)"
  define st1 where "st1 = st\<lparr>world := w1, calls := calls st @ [?g]\<rparr>"
  have g: "do_networks_Get_Do s ?p ?nn st = (Inr nw, st1)"
    using get by (simp add: doDo_defs getCall_def st1_def errOf_def)
  have c1: "calls st1 = calls st @ [?g]" and w1: "world st1 = w1" by (simp_all add: st1_def)
  obtain r2 st2 where s2: "deleteNetworkRouter s st1 = (r2, st2)" by (cases "deleteNetworkRouter s st1")
  have ar: "afterRouterDo s st = st2" by (simp add: afterRouterDo_def g s2)
  have r2: "r2 = None" using run g own s2 by (cases r2) (simp_all add: DeleteNetwork_def)
  obtain l st3 where s3: "do_routes_List_Filter_Do s ?p ?fs st2 = (l, st3)"
    by (cases "do_routes_List_Filter_Do s ?p ?fs st2")
  obtain rs where l: "l = Inr rs" using run g own s2 r2 s3 by (cases l) (simp_all add: DeleteNetwork_def)
  obtain r4 st4 where s4: "deleteNetworkRoutes s nw rs st3 = (r4, st4)" by (cases "deleteNetworkRoutes s nw rs st3")
  have r4: "r4 = None" using run g own s2 r2 s3 l s4 by (cases r4) (simp_all add: DeleteNetwork_def)
  obtain r5 st5 where s5: "(if \<not> AutoCreateSubnetworks nw
                                  then deleteSubnetworks s (Subnetworks nw) st4
                                  else (None, st4)) = (r5, st5)"
    by (cases "(if \<not> AutoCreateSubnetworks nw
                                  then deleteSubnetworks s (Subnetworks nw) st4
                                  else (None, st4))")
  have r5: "r5 = None" using run g own s2 r2 s3 l s4 r4 s5 by (cases r5) (simp_all add: DeleteNetwork_def)
  obtain d st6 where s6: "do_networks_Delete_Do s ?p (network.Name nw) st5 = (d, st6)"
    by (cases "do_networks_Delete_Do s ?p (network.Name nw) st5")
  obtain r7 st7 where s7: "checkOrWaitForDeleteOp s d st6 = (r7, st7)" by (cases "checkOrWaitForDeleteOp s d st6")
  have r7: "r7 = None" using run g own s2 r2 s3 l s4 r4 s5 r5 s6 s7 by (cases r7) (simp_all add: DeleteNetwork_def)
  have fin: "snd (DeleteNetwork api s st) = st7\<lparr>status := (status st7)\<lparr>Spec_Network_Name := None\<rparr>\<rparr>"
    using g own s2 r2 s3 l s4 r4 s5 r5 s6 s7 r7 by (simp add: DeleteNetwork_def)
  from deleteNetworkRouter_log[OF s2[unfolded r2]] obtain n2 where n2: "calls st2 = calls st1 @ n2"
    "deleteCalls n2 =
       (case fst (routers_Get_Do s ?p (ClusterScope.Region (cscope s)) (getRouterName ?nn) w1) of
          Inl _ \<Rightarrow> []
        | Inr rt \<Rightarrow> [RoutersDeleteDo ?p (ClusterScope.Region (cscope s)) (router.Name rt)])"
    unfolding w1 by blast
  from s3 l have c3: "calls st3 = calls st2 @ [(RoutesListDo ?p ?fs, None)]"
    and rl: "routes_List_Filter_Do s ?p ?fs (world st2) = (Inr rs, world st3)"
    by (auto simp: doDo_defs errOf_def dest!: getCall_run)
  from deleteNetworkRoutes_log[OF s4[unfolded r4]] obtain n4 where n4: "calls st4 = calls st3 @ n4"
    "deleteCalls n4 = map (\<lambda>rt. RoutesDeleteDo ?p (route.Name rt))
           (filter (\<lambda>rt. HasSuffix (route.Network rt) (network.Name nw)) rs)" by blast
  have "\<exists>n5. calls st5 = calls st4 @ n5 \<and>
          deleteCalls n5 = (if \<not> AutoCreateSubnetworks nw
             then map (SubnetworksDeleteDo ?p (ClusterScope.Region (cscope s)))
                    (filter (\<lambda>n. n \<noteq> []) (map getSubnetNameFromUrl (Subnetworks nw)))
             else [])"
  proof (cases "AutoCreateSubnetworks nw")
    case True
    with s5 show ?thesis by (intro exI[of _ "[]"]) auto
  next
    case False
    with s5 r5 have "deleteSubnetworks s (Subnetworks nw) st4 = (None, st5)" by simp
    from deleteSubnetworks_log[OF this] False show ?thesis by simp
  qed
  then obtain n5 where n5: "calls st5 = calls st4 @ n5"
    "deleteCalls n5 = (if \<not> AutoCreateSubnetworks nw
             then map (SubnetworksDeleteDo ?p (ClusterScope.Region (cscope s)))
                    (filter (\<lambda>n. n \<noteq> []) (map getSubnetNameFromUrl (Subnetworks nw)))
             else [])" by blast
  from s6 have c6: "calls st6 = calls st5 @ [(NetworksDeleteDo ?p (network.Name nw), errOf d)]"
    by (auto simp: doDo_defs dest: getCall_run)
  from checkOrWait_deletes[OF s7] obtain n7 where n7: "calls st7 = calls st6 @ n7" "deleteCalls n7 = []" by blast
  have tot: "issued st (snd (DeleteNetwork api s st)) =
      [?g] @ n2 @ [(RoutesListDo ?p ?fs, None)] @ n4 @ n5 @ [(NetworksDeleteDo ?p (network.Name nw), errOf d)] @ n7"
    unfolding fin by (rule issued_append) (simp add: n7 c6 n5 n4 c3 n2 c1)
  have one: "deleteCalls [?g] = []" "deleteCalls [(RoutesListDo ?p ?fs, None)] = []"
    "deleteCalls [(NetworksDeleteDo ?p (network.Name nw), errOf d)] = [NetworksDeleteDo ?p (network.Name nw)]"
    by (simp_all add: deleteCalls_def)
  have main: "deleteCalls (issued st (snd (DeleteNetwork api s st))) =
            (case fst (routers_Get_Do s ?p (ClusterScope.Region (cscope s)) (getRouterName ?nn) w1) of
               Inl _ \<Rightarrow> []
             | Inr rt \<Rightarrow> [RoutersDeleteDo ?p (ClusterScope.Region (cscope s)) (router.Name rt)]) @
            map (\<lambda>rt. RoutesDeleteDo ?p (route.Name rt))
              (filter (\<lambda>rt. HasSuffix (route.Network rt) (network.Name nw)) rs) @
            (if \<not> AutoCreateSubnetworks nw
             then map (SubnetworksDeleteDo ?p (ClusterScope.Region (cscope s)))
                    (filter (\<lambda>n. n \<noteq> []) (map getSubnetNameFromUrl (Subnetworks nw)))
             else []) @
            [NetworksDeleteDo ?p (network.Name nw)]"
    unfolding tot deleteCalls_append one n2(2) n4(2) n5(2) n7(2) by simp
  have rl': "routes_List_Filter_Do s ?p ?fs (world (afterRouterDo s st)) = (Inr rs, world st3)"
    unfolding ar by (rule rl)
  show ?thesis by (rule exI[of _ rs], rule exI[of _ "world st3"], rule conjI[OF rl' main])
qed

lemma doWait_stop:
  assumes d: "calls st1 = calls st @ [(c, errOf r)]"
      and w: "checkOrWaitForDeleteOp s r st1 = (Some e, st')"
  shows "\<exists>new. calls st' = calls st @ new \<and> new \<noteq> [] \<and> snd (last new) \<noteq> None"
proof (cases r)
  case (Inl err)
  with w have "st' = st1" by (auto simp: checkOrWaitForDeleteOp_def split: if_splits)
  with d Inl show ?thesis by (intro exI[of _ "[(c, Some err)]"]) (simp add: errOf_def)
next
  case (Inr op)
  with w have "do_ForComputeOperation s (Project (cscope s)) op st1 = (Some e, st')"
    by (simp add: checkOrWaitForDeleteOp_def)
  then have "calls st' = calls st1 @ [(WaitForComputeOperation (Project (cscope s)) op, Some e)]"
    by (auto simp: doDo_defs dest: mutCall_run)
  with d show ?thesis
    by (intro exI[of _ "[(c, errOf r), (WaitForComputeOperation (Project (cscope s)) op, Some e)]"]) simp
qed

lemma deleteNetworkRouter_stop:
  assumes "deleteNetworkRouter s st = (Some e, st')"
  shows "\<exists>new. calls st' = calls st @ new \<and> new \<noteq> [] \<and> snd (last new) \<noteq> None"
proof -
  let ?p = "Project (cscope s)" and ?r = "ClusterScope.Region (cscope s)"
  let ?n = "getRouterName (ClusterScope.NetworkName (cscope s))"
  obtain g st1 where g: "do_routers_Get_Do s ?p ?r ?n st = (g, st1)" by (cases "do_routers_Get_Do s ?p ?r ?n st")
  then have g': "calls st1 = calls st @ [(RoutersGetDo ?p ?r ?n, errOf g)]"
    by (auto simp: doDo_defs dest: getCall_run)
  show ?thesis
  proof (cases g)
    case (Inl err)
    with assms g have "st' = st1" by (auto simp: deleteNetworkRouter_def Let_def split: if_splits)
    with g' Inl show ?thesis
      by (intro exI[of _ "[(RoutersGetDo ?p ?r ?n, errOf g)]"]) (simp add: errOf_def)
  next
    case (Inr rt)
    obtain d st2 where d: "do_routers_Delete_Do s ?p ?r (router.Name rt) st1 = (d, st2)"
      by (cases "do_routers_Delete_Do s ?p ?r (router.Name rt) st1")
    then have d': "calls st2 = calls st1 @ [(RoutersDeleteDo ?p ?r (router.Name rt), errOf d)]"
      by (auto simp: doDo_defs dest: getCall_run)
    obtain x st3 where c: "checkOrWaitForDeleteOp s d st2 = (x, st3)" by (cases "checkOrWaitForDeleteOp s d st2")
    from assms g Inr d c obtain e' where x: "x = Some e'" and st: "st' = st3"
      by (cases x) (auto simp: deleteNetworkRouter_def Let_def)
    from doWait_stop[OF d' c[unfolded x]] obtain new where
      "calls st3 = calls st1 @ new" "new \<noteq> []" "snd (last new) \<noteq> None" by blast
    with g' st show ?thesis
      by (intro exI[of _ "(RoutersGetDo ?p ?r ?n, errOf g) # new"]) simp
  qed
qed

lemma deleteNetworkRoutes_stop:
  "deleteNetworkRoutes s nw rs st = (Some e, st') \<Longrightarrow>
     \<exists>new. calls st' = calls st @ new \<and> new \<noteq> [] \<and> snd (last new) \<noteq> None"
proof (induction rs arbitrary: st)
  case Nil
  then show ?case by simp
next
  case (Cons x xs)
  show ?case
  proof (cases "HasSuffix (route.Network x) (network.Name nw)")
    case False
    with Cons.prems have "deleteNetworkRoutes s nw xs st = (Some e, st')" by simp
    from Cons.IH[OF this] show ?thesis .
  next
    case True
    let ?c = "RoutesDeleteDo (Project (cscope s)) (route.Name x)"
    obtain d st1 where d: "do_routes_Delete_Do s (Project (cscope s)) (route.Name x) st = (d, st1)"
      by (cases "do_routes_Delete_Do s (Project (cscope s)) (route.Name x) st")
    then have d': "calls st1 = calls st @ [(?c, errOf d)]"
      by (auto simp: doDo_defs dest: getCall_run)
    obtain y st2 where c: "checkOrWaitForDeleteOp s d st1 = (y, st2)" by (cases "checkOrWaitForDeleteOp s d st1")
    show ?thesis
    proof (cases y)
      case (Some e')
      with Cons.prems True d c have "st' = st2" by simp
      with doWait_stop[OF d' c[unfolded Some]] show ?thesis by simp
    next
      case None
      with Cons.prems True d c have rec: "deleteNetworkRoutes s nw xs st2 = (Some e, st')" by simp
      from checkOrWait_run[OF c] obtain n1 where n1: "calls st2 = calls st1 @ n1" by blast
      from Cons.IH[OF rec] obtain n2 where n2: "calls st' = calls st2 @ n2" "n2 \<noteq> []" "snd (last n2) \<noteq> None"
        by blast
      with d' n1 show ?thesis by (intro exI[of _ "(?c, errOf d) # n1 @ n2"]) simp
    qed
  qed
qed

lemma deleteSubnetworks_stop:
  "deleteSubnetworks s xs st = (Some e, st') \<Longrightarrow>
     \<exists>new. calls st' = calls st @ new \<and> new \<noteq> [] \<and> snd (last new) \<noteq> None"
proof (induction xs arbitrary: st)
  case Nil
  then show ?case by simp
next
  case (Cons x xs)
  let ?n = "getSubnetNameFromUrl x"
  show ?case
  proof (cases "?n = []")
    case True
    with Cons.prems have "deleteSubnetworks s xs st = (Some e, st')" by simp
    from Cons.IH[OF this] show ?thesis .
  next
    case False
    let ?c = "SubnetworksDeleteDo (Project (cscope s)) (ClusterScope.Region (cscope s)) ?n"
    obtain d st1 where d: "do_subnetworks_Delete_Do s (Project (cscope s)) (ClusterScope.Region (cscope s)) ?n st = (d, st1)"
      by (cases "do_subnetworks_Delete_Do s (Project (cscope s)) (ClusterScope.Region (cscope s)) ?n st")
    then have d': "calls st1 = calls st @ [(?c, errOf d)]"
      by (auto simp: doDo_defs dest: getCall_run)
    show ?thesis
    proof (cases d)
      case (Inl err)
      with Cons.prems False d have "st' = st1" by (simp add: Let_def)
      with d' Inl show ?thesis by (intro exI[of _ "[(?c, errOf d)]"]) (simp add: errOf_def)
    next
      case (Inr op)
      obtain y st2 where w: "do_ForComputeOperation s (Project (cscope s)) op st1 = (y, st2)"
        by (cases "do_ForComputeOperation s (Project (cscope s)) op st1")
      then have w': "calls st2 = calls st1 @ [(WaitForComputeOperation (Project (cscope s)) op, y)]"
        by (auto simp: doDo_defs dest: mutCall_run)
      show ?thesis
      proof (cases y)
        case (Some e')
        with Cons.prems False d Inr w have "st' = st2" by (simp add: Let_def)
        with d' w' Some show ?thesis
          by (intro exI[of _ "[(?c, errOf d), (WaitForComputeOperation (Project (cscope s)) op, y)]"]) simp
      next
        case None
        with Cons.prems False d Inr w have rec: "deleteSubnetworks s xs st2 = (Some e, st')" by (simp add: Let_def)
        from Cons.IH[OF rec] obtain n2 where "calls st' = calls st2 @ n2" "n2 \<noteq> []" "snd (last n2) \<noteq> None"
          by blast
        with d' w' show ?thesis
          by (intro exI[of _ "(?c, errOf d) # (WaitForComputeOperation (Project (cscope s)) op, y) # n2"]) simp
      qed
    qed
  qed
qed

lemma DeleteNetwork_stop:
  assumes run: "fst (DeleteNetwork api s st) = Some e"
  shows "issued st (snd (DeleteNetwork api s st)) \<noteq> [] \<and>
         snd (last (issued st (snd (DeleteNetwork api s st)))) \<noteq> None"
proof -
  let ?p = "Project (cscope s)"
  let ?nn = "ClusterScope.NetworkName (cscope s)"
  let ?fs = "''description='' @ k8sNodeRouteTag @ '' name='' @ ClusterScope.Name (cscope s) @ ''-*''"
  obtain g w1 where get: "networks_Get_Do s ?p ?nn (world st) = (g, w1)"
    by (cases "networks_Get_Do s ?p ?nn (world st)")
  show ?thesis
  proof (cases "case g of Inl e \<Rightarrow> True | Inr nw \<Rightarrow> network.Description nw \<noteq> ClusterTagKey api (ClusterScope.Name (cscope s))")
    case True
    from DeleteNetwork_not_owned[OF get True] run show ?thesis
      by (auto simp: errOf_def split: sum.splits if_splits)
  next
    case False
    then obtain nw where nw: "g = Inr nw" and own: "network.Description nw = ClusterTagKey api (ClusterScope.Name (cscope s))"
      by (cases g) auto
    let ?g = "(NetworksGetDo ?p ?nn, None :: error option)"
    define st1 where "st1 = st\<lparr>world := w1, calls := calls st @ [?g]\<rparr>"
    have g: "do_networks_Get_Do s ?p ?nn st = (Inr nw, st1)"
      using get nw by (simp add: doDo_defs getCall_def st1_def errOf_def)
    have c1: "calls st1 = calls st @ [?g]" by (simp add: st1_def)
    have "\<exists>new. calls (snd (DeleteNetwork api s st)) = calls st1 @ new \<and> new \<noteq> [] \<and> snd (last new) \<noteq> None"
    proof -
      obtain r2 st2 where s2: "deleteNetworkRouter s st1 = (r2, st2)" by (cases "deleteNetworkRouter s st1")
      show ?thesis
      proof (cases r2)
        case (Some e2)
        with g own s2 have "snd (DeleteNetwork api s st) = st2" by (simp add: DeleteNetwork_def)
        with deleteNetworkRouter_stop[OF s2[unfolded Some]] show ?thesis by simp
      next
        case r2: None
        from deleteNetworkRouter_step[OF s2] obtain n2 where n2: "calls st2 = calls st1 @ n2" by blast
        obtain l st3 where s3: "do_routes_List_Filter_Do s ?p ?fs st2 = (l, st3)"
          by (cases "do_routes_List_Filter_Do s ?p ?fs st2")
        then have c3: "calls st3 = calls st2 @ [(RoutesListDo ?p ?fs, errOf l)]"
          by (auto simp: doDo_defs dest: getCall_run)
        show ?thesis
        proof (cases l)
          case (Inl err)
          with g own s2 r2 s3 have "snd (DeleteNetwork api s st) = st3" by (simp add: DeleteNetwork_def)
          with c3 n2 Inl show ?thesis
            by (intro exI[of _ "n2 @ [(RoutesListDo ?p ?fs, errOf l)]"]) (simp add: errOf_def)
        next
          case (Inr rs)
          obtain r4 st4 where s4: "deleteNetworkRoutes s nw rs st3 = (r4, st4)" by (cases "deleteNetworkRoutes s nw rs st3")
          show ?thesis
          proof (cases r4)
            case (Some e4)
            with g own s2 r2 s3 Inr s4 have "snd (DeleteNetwork api s st) = st4" by (simp add: DeleteNetwork_def)
            moreover from deleteNetworkRoutes_stop[OF s4[unfolded Some]] obtain n4 where
              "calls st4 = calls st3 @ n4" "n4 \<noteq> []" "snd (last n4) \<noteq> None" by blast
            ultimately show ?thesis using c3 n2
              by (intro exI[of _ "n2 @ (RoutesListDo ?p ?fs, errOf l) # n4"]) simp
          next
            case r4: None
            from deleteNetworkRoutes_step[OF s4] obtain n4 where n4: "calls st4 = calls st3 @ n4" by blast
            obtain r5 st5 where s5: "(if \<not> AutoCreateSubnetworks nw
                                  then deleteSubnetworks s (Subnetworks nw) st4
                                  else (None, st4)) = (r5, st5)"
              by (cases "(if \<not> AutoCreateSubnetworks nw
                                  then deleteSubnetworks s (Subnetworks nw) st4
                                  else (None, st4))")
            show ?thesis
            proof (cases r5)
              case (Some e5)
              with g own s2 r2 s3 Inr s4 r4 s5 have fin: "snd (DeleteNetwork api s st) = st5"
                by (simp add: DeleteNetwork_def)
              from s5 Some have "deleteSubnetworks s (Subnetworks nw) st4 = (Some e5, st5)"
                by (auto split: if_splits)
              from deleteSubnetworks_stop[OF this] obtain n5 where
                "calls st5 = calls st4 @ n5" "n5 \<noteq> []" "snd (last n5) \<noteq> None" by blast
              with fin c3 n2 n4 show ?thesis
                by (intro exI[of _ "n2 @ (RoutesListDo ?p ?fs, errOf l) # n4 @ n5"]) simp
            next
              case r5: None
              have "\<exists>n5. calls st5 = calls st4 @ n5"
              proof (cases "AutoCreateSubnetworks nw")
                case True
                with s5 show ?thesis by auto
              next
                case False
                with s5 have "deleteSubnetworks s (Subnetworks nw) st4 = (r5, st5)" by simp
                from deleteSubnetworks_step[OF this] show ?thesis by blast
              qed
              then obtain n5 where n5: "calls st5 = calls st4 @ n5" by blast
              obtain d st6 where s6: "do_networks_Delete_Do s ?p (network.Name nw) st5 = (d, st6)"
                by (cases "do_networks_Delete_Do s ?p (network.Name nw) st5")
              then have c6: "calls st6 = calls st5 @ [(NetworksDeleteDo ?p (network.Name nw), errOf d)]"
                by (auto simp: doDo_defs dest: getCall_run)
              obtain r7 st7 where s7: "checkOrWaitForDeleteOp s d st6 = (r7, st7)" by (cases "checkOrWaitForDeleteOp s d st6")
              from run g own s2 r2 s3 Inr s4 r4 s5 r5 s6 s7 obtain e7 where r7: "r7 = Some e7"
                by (cases r7) (simp_all add: DeleteNetwork_def)
              with g own s2 r2 s3 Inr s4 r4 s5 r5 s6 s7 have fin: "snd (DeleteNetwork api s st) = st7"
                by (simp add: DeleteNetwork_def)
              from doWait_stop[OF c6 s7[unfolded r7]] obtain n7 where
                "calls st7 = calls st5 @ n7" "n7 \<noteq> []" "snd (last n7) \<noteq> None" by blast
              with fin c3 n2 n4 n5 show ?thesis
                by (intro exI[of _ "n2 @ (RoutesListDo ?p ?fs, errOf l) # n4 @ n5 @ n7"]) simp
            qed
          qed
        qed
      qed
    qed
    then obtain new where new: "calls (snd (DeleteNetwork api s st)) = calls st1 @ new" "new \<noteq> []"
      "snd (last new) \<noteq> None" by blast
    then have "issued st (snd (DeleteNetwork api s st)) = ?g # new"
      by (intro issued_append) (simp add: c1)
    with new show ?thesis by simp
  qed
qed

lemma Delete_order_guard:
  assumes g: "networks_Get s (networkKey (scope s)) (world st) = (g, w1)"
  shows "inOrder deleteStep (issued st (snd (Delete api s st))) \<and>
         (list_ex (\<lambda>c. routerDelete (fst c)) (issued st (snd (Delete api s st))) \<longrightarrow>
            ownsRouter api s w1) \<and>
         (list_ex (\<lambda>c. mutating (fst c)) (issued st (snd (Delete api s st))) \<longrightarrow>
            \<not> IsSharedVpc (scope s) \<and>
            (\<exists>nw. g = Inr nw \<and> network.Description nw = ClusterTagKey api (Scope.Name (scope s))))"
proof (cases "IsSharedVpc (scope s)")
  case True
  then show ?thesis by (simp add: Delete_shared inOrder_def List.map_filter_def)
next
  case False
  show ?thesis
  proof (cases "case g of Inl e \<Rightarrow> True | Inr nw \<Rightarrow> network.Description nw \<noteq> ClusterTagKey api (Scope.Name (scope s))")
    case True
    from Delete_not_owned[OF False g True] show ?thesis
      by (simp add: inOrder_def List.map_filter_def)
  next
    case no: False
    then obtain nw where nw: "g = Inr nw" "network.Description nw = ClusterTagKey api (Scope.Name (scope s))"
      by (cases g) auto
    obtain r st' where run: "Delete api s st = (r, st')" by (cases "Delete api s st")
    let ?k = "networkKey (scope s)" and ?rk = "routerKey (scope s)"
    from Delete_owned_run[OF False g[unfolded nw(1)] nw(2) run] obtain n1 n2 n3 n4 where
      c: "calls st' = calls st @ (NetworksGet ?k, None) # n1 @ n2 @ n3 @ n4" and
      p1: "list_all (\<lambda>c. fst c = RoutersGet ?rk \<or> fst c = RoutersDelete ?rk) n1" and
      r1: "list_ex (\<lambda>c. fst c = RoutersDelete ?rk) n1 \<longrightarrow>
             (\<exists>rt w. routers_Get s ?rk w1 = (Inr rt, w) \<and>
                     router.Description rt = ClusterTagKey api (Scope.Name (scope s)))" and
      p2: "list_all (\<lambda>c. list_ex (\<lambda>x. fst c = SubnetworksGet (subnetKey x) \<or> fst c = SubnetworksDelete (subnetKey x))
                            (SubnetworkSpec (scope s))) n2" and
      p3: "list_all (\<lambda>c. fst c = RoutesList nodeRoutes \<or>
                        (\<exists>rs w w'. routes_List s nodeRoutes w = (Inr rs, w') \<and>
                           list_ex (\<lambda>rt. HasSuffix (route.Network rt) (Scope.NetworkName (scope s)) \<and>
                                         fst c = RoutesDelete (GlobalKey (route.Name rt))) rs)) n3" and
      p4: "list_all (\<lambda>c. fst c = NetworksDelete ?k) n4"
      by blast
    have o1: "onlyStep deleteStep 1 n1" using p1 by (auto simp: onlyStep_def list_all_iff)
    have o2: "onlyStep deleteStep 2 n2" using p2 by (auto simp: onlyStep_def list_all_iff list_ex_iff)
    have o3: "onlyStep deleteStep 3 n3" using p3 by (auto simp: onlyStep_def list_all_iff list_ex_iff)
    have o4: "onlyStep deleteStep 4 n4" using p4 by (auto simp: onlyStep_def list_all_iff)
    have "fromStep deleteStep 3 (n3 @ n4)"
      using fromStep_onlyStep[OF o4] o3 by (rule fromStep_prepend) simp
    then have "fromStep deleteStep 2 (n2 @ n3 @ n4)" using o2 by (rule fromStep_prepend) simp
    then have "fromStep deleteStep 1 (n1 @ n2 @ n3 @ n4)" using o1 by (rule fromStep_prepend) simp
    then have "fromStep deleteStep 0 ([(NetworksGet ?k, None)] @ n1 @ n2 @ n3 @ n4)"
      by (rule fromStep_prepend) simp_all
    then have ord: "inOrder deleteStep ((NetworksGet ?k, None) # n1 @ n2 @ n3 @ n4)"
      by (simp add: fromStep_inOrder)
    have rd: "list_ex (\<lambda>c. routerDelete (fst c)) ((NetworksGet ?k, None) # n1 @ n2 @ n3 @ n4)
              \<Longrightarrow> list_ex (\<lambda>c. fst c = RoutersDelete ?rk) n1"
      using p1 p2 p3 p4 by (auto simp: list_all_iff list_ex_iff)
    have own: "list_ex (\<lambda>c. fst c = RoutersDelete ?rk) n1 \<Longrightarrow> ownsRouter api s w1"
      using r1 by (auto simp: ownsRouter_def)
    show ?thesis using run c ord rd own False nw
      by auto
  qed
qed

lemma skipped_tolerated: "skipped c \<Longrightarrow> tolerated c"
  by (cases c rule: skipped.cases) (simp_all add: tolerated_def IsNotFound_def)

lemma Delete_last:
  "(issued st (snd (Delete api s st)) \<noteq> [] \<longrightarrow> \<not> skipped (last (issued st (snd (Delete api s st))))) \<and>
   (\<not> IsSharedVpc (scope s) \<and>
    networks_Get s (networkKey (scope s)) (world st) = (Inr nw, w1) \<and>
    network.Description nw = ClusterTagKey api (Scope.Name (scope s)) \<and>
    fst (Delete api s st) = None \<longrightarrow>
      issued st (snd (Delete api s st)) \<noteq> [] \<and>
      fst (last (issued st (snd (Delete api s st)))) = NetworksDelete (networkKey (scope s)))"
proof (cases "IsSharedVpc (scope s)")
  case True
  then show ?thesis by (simp add: Delete_shared)
next
  case False
  obtain g w0 where g: "networks_Get s (networkKey (scope s)) (world st) = (g, w0)"
    by (cases "networks_Get s (networkKey (scope s)) (world st)")
  show ?thesis
  proof (cases "case g of Inl e \<Rightarrow> True | Inr nw \<Rightarrow> network.Description nw \<noteq> ClusterTagKey api (Scope.Name (scope s))")
    case True
    from Delete_not_owned[OF False g True] g True show ?thesis by auto
  next
    case no: False
    then obtain nw' where nw: "g = Inr nw'" "network.Description nw' = ClusterTagKey api (Scope.Name (scope s))"
      by (cases g) auto
    obtain r st' where run: "Delete api s st = (r, st')" by (cases "Delete api s st")
    let ?k = "networkKey (scope s)"
    from Delete_owned_run[OF False g[unfolded nw(1)] nw(2) run] obtain n1 n2 n3 n4 where
      c: "calls st' = calls st @ (NetworksGet ?k, None) # n1 @ n2 @ n3 @ n4" and
      d: "discipline r ((NetworksGet ?k, None) # n1 @ n2 @ n3 @ n4)" and
      e: "case r of None \<Rightarrow> n4 = [(NetworksDelete ?k, None)] \<and> status st' = cleared (status st)
          | Some _ \<Rightarrow> status st' = status st"
      by blast
    from c run have new: "issued st (snd (Delete api s st)) = (NetworksGet ?k, None) # n1 @ n2 @ n3 @ n4"
      by simp
    show ?thesis
    proof (cases r)
      case None
      with e have "n4 = [(NetworksDelete ?k, None)]" by simp
      then show ?thesis unfolding new by simp
    next
      case (Some err)
      with d have "\<not> tolerated (last ((NetworksGet ?k, None) # n1 @ n2 @ n3 @ n4))"
        by (simp add: discipline_def)
      then have "\<not> skipped (last ((NetworksGet ?k, None) # n1 @ n2 @ n3 @ n4))"
        using skipped_tolerated by blast
      with Some run show ?thesis unfolding new by simp
    qed
  qed
qed

lemma discipline_butlast:
  "discipline r new \<Longrightarrow> list_all (\<lambda>c. snd c = None \<or> (\<exists>e. snd c = Some e \<and> IsNotFound e)) (butlast new)"
  by (auto simp: discipline_def passed_def tolerated_def IsNotFound_def list_all_iff)

lemma discipline_returned:
  "discipline r new \<Longrightarrow> new \<noteq> [] \<Longrightarrow> snd (last new) = Some e \<Longrightarrow> \<not> IsNotFound e \<Longrightarrow> r = Some e"
  by (cases r; cases new rule: rev_cases)
     (auto simp: discipline_def passed_def tolerated_def IsNotFound_def)

lemma sweepFirewalls_tagged:
  "list_all (\<lambda>c. sweepCall (taggedRule s) (Project (cscope s)) fws (fst c))
     (issued st (snd (sweepFirewalls parseURL s fws st)))"
proof -
  let ?T = "\<lambda>fw. getFirewallNetworkName parseURL fw = Inr (ClusterScope.NetworkName (cscope s)) \<and>
                  list_ex (\<lambda>tt. tt = ClusterScope.Name (cscope s)) (TargetTags fw)"
  obtain r st' where run: "sweepFirewalls parseURL s fws st = (r, st')"
    by (cases "sweepFirewalls parseURL s fws st")
  from sweepFirewalls_run[OF run, of ?T] obtain new where n: "calls st' = calls st @ new"
    "list_all (\<lambda>c. sweepCall ?T (Project (cscope s)) fws (fst c)) new" by blast
  from n(2) have "list_all (\<lambda>c. sweepCall (taggedRule s) (Project (cscope s)) fws (fst c)) new"
    unfolding list_all_iff by (auto intro: sweepCall_mono simp: taggedRule_def)
  with n(1) run show ?thesis by simp
qed

section \<open>Claims\<close>

text \<open>
  C4. Ownership mismatch on delete: when the network that \<^verbatim>\<open>Get\<close> returns carries a
  description other than the cluster's ownership tag, the delete of either package returns
  success and issues no mutating call; it issues nothing beyond that one \<^verbatim>\<open>Get\<close>.
\<close>

theorem delete_ownership_mismatch:
  "(networks_Get s (networkKey (scope s)) (world st) = (Inr nw, w) \<and>
    network.Description nw \<noteq> ClusterTagKey api (Scope.Name (scope s))
      \<longrightarrow> fst (Delete api s st) = None \<and>
          list_all (\<lambda>c. \<not> mutating (fst c)) (issued st (snd (Delete api s st))) \<and>
          length (issued st (snd (Delete api s st))) \<le> 1) \<and>
   (networks_Get_Do cs (Project (cscope cs)) (ClusterScope.NetworkName (cscope cs)) (world cst) = (Inr nw', w') \<and>
    network.Description nw' \<noteq> ClusterTagKey api (ClusterScope.Name (cscope cs))
      \<longrightarrow> fst (DeleteNetwork api cs cst) = None \<and>
          issued cst (snd (DeleteNetwork api cs cst)) =
            [(NetworksGetDo (Project (cscope cs)) (ClusterScope.NetworkName (cscope cs)), None)])"
proof (intro conjI impI)
  assume a: "networks_Get s (networkKey (scope s)) (world st) = (Inr nw, w) \<and>
    network.Description nw \<noteq> ClusterTagKey api (Scope.Name (scope s))"
  have "fst (Delete api s st) = None \<and>
          list_all (\<lambda>c. \<not> mutating (fst c)) (issued st (snd (Delete api s st))) \<and>
          length (issued st (snd (Delete api s st))) \<le> 1"
  proof (cases "IsSharedVpc (scope s)")
    case True
    then show ?thesis by (simp add: Delete_shared)
  next
    case False
    from Delete_not_owned[OF False, of st "Inr nw" w api] a show ?thesis by (simp add: errOf_def)
  qed
  then show "fst (Delete api s st) = None"
    and "list_all (\<lambda>c. \<not> mutating (fst c)) (issued st (snd (Delete api s st)))"
    and "length (issued st (snd (Delete api s st))) \<le> 1" by simp_all
next
  assume a: "networks_Get_Do cs (Project (cscope cs)) (ClusterScope.NetworkName (cscope cs)) (world cst) = (Inr nw', w') \<and>
    network.Description nw' \<noteq> ClusterTagKey api (ClusterScope.Name (cscope cs))"
  from DeleteNetwork_not_owned[of cs cst "Inr nw'" w' api] a
  show "fst (DeleteNetwork api cs cst) = None"
    and "issued cst (snd (DeleteNetwork api cs cst)) =
            [(NetworksGetDo (Project (cscope cs)) (ClusterScope.NetworkName (cscope cs)), None)]"
    by (simp_all add: errOf_def)
qed


text \<open>Witness for C4: the network of the example provider belongs to someone else.\<close>

theorem delete_ownership_mismatch_witness:
  "fst (Delete exampleApi (gcpService exampleScope noFaults) (startRun foreignWorld)) = None \<and>
   list_all (\<lambda>c. \<not> mutating (fst c))
     (issued (startRun foreignWorld)
        (snd (Delete exampleApi (gcpService exampleScope noFaults) (startRun foreignWorld)))) \<and>
   length (issued (startRun foreignWorld)
        (snd (Delete exampleApi (gcpService exampleScope noFaults) (startRun foreignWorld)))) \<le> 1 \<and>
   fst (DeleteNetwork exampleApi (gceService exampleClusterScope noFaults) (startClusterRun foreignGce)) = None \<and>
   issued (startClusterRun foreignGce)
     (snd (DeleteNetwork exampleApi (gceService exampleClusterScope noFaults) (startClusterRun foreignGce))) =
     [(NetworksGetDo ''my-project'' ''my-network'', None)]"
proof -
  let ?s = "gcpService exampleScope noFaults"
  let ?cs = "gceService exampleClusterScope noFaults"
  have h1: "networks_Get ?s (networkKey (scope ?s)) (world (startRun foreignWorld :: gcp nrun)) = (Inr foreignNetwork, foreignWorld) \<and>
            network.Description foreignNetwork \<noteq> ClusterTagKey exampleApi (Scope.Name (scope ?s))"
    by (simp add: gcpService_def storeGet_def noFaults_def networkKey_def exampleScope_def startRun_def
          foreignWorld_def foreignNetwork_def exampleNetwork_def exampleApi_def)
  have h2: "networks_Get_Do ?cs (Project (cscope ?cs)) (ClusterScope.NetworkName (cscope ?cs))
              (world (startClusterRun foreignGce :: gce crun)) = (Inr foreignNetwork, foreignGce) \<and>
            network.Description foreignNetwork \<noteq> ClusterTagKey exampleApi (ClusterScope.Name (cscope ?cs))"
    by (simp add: gceService_def storeGet_def noFaults_def exampleClusterScope_def startClusterRun_def
          foreignGce_def foreignNetwork_def exampleNetwork_def exampleApi_def)
  have p: "Project (cscope ?cs) = ''my-project''" "ClusterScope.NetworkName (cscope ?cs) = ''my-network''"
    by (simp_all add: gceService_def exampleClusterScope_def)
  from delete_ownership_mismatch[of ?s "startRun foreignWorld" foreignNetwork foreignWorld exampleApi
         ?cs "startClusterRun foreignGce" foreignNetwork foreignGce] h1 h2
  show ?thesis unfolding p by blast
qed

text \<open>
  C10. When \<^verbatim>\<open>networks.Delete\<close> returns success without deleting anything, because
  \<^verbatim>\<open>Get\<close> answers not-found or a network with another description, the status is
  left as it was. Whenever the status changes, the call has returned success and both
  self-links are nil, and either the scope is a shared VPC (no call was issued) or the last
  call was the successful delete of the network.
\<close>

theorem delete_noop_keeps_status:
  "(\<not> IsSharedVpc (scope s) \<and>
    networks_Get s (networkKey (scope s)) (world st) = (g, w) \<and>
    (case g of Inl err \<Rightarrow> IsNotFound err
             | Inr nw \<Rightarrow> network.Description nw \<noteq> ClusterTagKey api (Scope.Name (scope s)))
      \<longrightarrow> fst (Delete api s st) = None \<and> status (snd (Delete api s st)) = status st) \<and>
   (status (snd (Delete api s st)) \<noteq> status st
      \<longrightarrow> fst (Delete api s st) = None \<and>
          status (snd (Delete api s st)) = cleared (status st) \<and>
          (if IsSharedVpc (scope s) then issued st (snd (Delete api s st)) = []
           else issued st (snd (Delete api s st)) \<noteq> [] \<and>
                last (issued st (snd (Delete api s st))) = (NetworksDelete (networkKey (scope s)), None)))"
proof (intro conjI impI)
  assume a: "\<not> IsSharedVpc (scope s) \<and>
    networks_Get s (networkKey (scope s)) (world st) = (g, w) \<and>
    (case g of Inl err \<Rightarrow> IsNotFound err
             | Inr nw \<Rightarrow> network.Description nw \<noteq> ClusterTagKey api (Scope.Name (scope s)))"
  then have "case g of Inl e \<Rightarrow> True | Inr nw \<Rightarrow> network.Description nw \<noteq> ClusterTagKey api (Scope.Name (scope s))"
    by (auto split: sum.splits)
  from Delete_not_owned[OF _ _ this, of st w] a
  show "fst (Delete api s st) = None" and "status (snd (Delete api s st)) = status st"
    by (auto simp: IgnoreNotFound_def split: sum.splits)
next
  assume a: "status (snd (Delete api s st)) \<noteq> status st"
  with Delete_status[of api s st]
  show "fst (Delete api s st) = None" and "status (snd (Delete api s st)) = cleared (status st)"
    by auto
  show "if IsSharedVpc (scope s) then issued st (snd (Delete api s st)) = []
        else issued st (snd (Delete api s st)) \<noteq> [] \<and>
             last (issued st (snd (Delete api s st))) = (NetworksDelete (networkKey (scope s)), None)"
  proof (cases "IsSharedVpc (scope s)")
    case True
    then show ?thesis by (simp add: Delete_shared)
  next
    case False
    with a Delete_status[of api s st] show ?thesis by auto
  qed
qed

text \<open>
  Witness for C10: on the empty provider the status stays; on the example provider the
  network is deleted last and the status is cleared.
\<close>

theorem delete_noop_keeps_status_witness:
  "fst (Delete exampleApi (gcpService exampleScope noFaults) (startRun emptyWorld)) = None \<and>
   status (snd (Delete exampleApi (gcpService exampleScope noFaults) (startRun emptyWorld)))
     = status (startRun emptyWorld :: gcp nrun) \<and>
   fst (Delete exampleApi (gcpService exampleScope noFaults) (startRun exampleWorld)) = None \<and>
   status (snd (Delete exampleApi (gcpService exampleScope noFaults) (startRun exampleWorld)))
     = cleared (status (startRun exampleWorld :: gcp nrun)) \<and>
   last (issued (startRun exampleWorld) (snd (Delete exampleApi (gcpService exampleScope noFaults) (startRun exampleWorld))))
     = (NetworksDelete (GlobalKey ''my-network''), None)"
proof -
  let ?s = "gcpService exampleScope noFaults"
  have s: "scope ?s = exampleScope" by (simp add: gcpService_def)
  have k: "networkKey exampleScope = GlobalKey ''my-network''" by (simp add: networkKey_def exampleScope_def)
  have h1: "\<not> IsSharedVpc (scope ?s) \<and>
            networks_Get ?s (networkKey (scope ?s)) (world (startRun emptyWorld :: gcp nrun)) = (Inl NotFound, emptyWorld) \<and>
            (case (Inl NotFound :: error + network) of Inl err \<Rightarrow> IsNotFound err
             | Inr nw \<Rightarrow> network.Description nw \<noteq> ClusterTagKey exampleApi (Scope.Name (scope ?s)))"
    by (simp add: store_defs networkKey_def example_defs IsNotFound_def)
  have h2: "status (snd (Delete exampleApi ?s (startRun exampleWorld))) \<noteq> status (startRun exampleWorld :: gcp nrun)"
    by code_simp
  have ns: "\<not> IsSharedVpc (scope ?s)" by (simp add: gcpService_def exampleScope_def)
  from delete_noop_keeps_status[where s = ?s and st = "startRun emptyWorld" and g = "Inl NotFound"
         and w = emptyWorld and api = exampleApi] h1
  have a: "fst (Delete exampleApi ?s (startRun emptyWorld)) = None \<and>
           status (snd (Delete exampleApi ?s (startRun emptyWorld))) = status (startRun emptyWorld :: gcp nrun)"
    by blast
  from delete_noop_keeps_status[where s = ?s and st = "startRun exampleWorld" and api = exampleApi] h2 ns
  have b: "fst (Delete exampleApi ?s (startRun exampleWorld)) = None \<and>
           status (snd (Delete exampleApi ?s (startRun exampleWorld))) = cleared (status (startRun exampleWorld :: gcp nrun)) \<and>
           last (issued (startRun exampleWorld) (snd (Delete exampleApi ?s (startRun exampleWorld))))
             = (NetworksDelete (networkKey (scope ?s)), None)"
    by simp
  from a b show ?thesis unfolding s k by blast
qed

text \<open>
  C8. For a firewall whose network field is
  \<^verbatim>\<open>projects/myproject/global/networks/my-network\<close>, \<^verbatim>\<open>getFirewallNetworkName\<close>
  returns \<^verbatim>\<open>my-network\<close> and no error (whatever the authority check of the parser,
  since the reference has no authority); for an empty network field it returns the empty
  string and no error, without calling the parser.
\<close>
theorem firewall_network_name_parsing:
  "getFirewallNetworkName (url_Parse parseAuthority)
     (fw\<lparr>firewall.Network := ''projects/myproject/global/networks/my-network''\<rparr>) = Inr ''my-network'' \<and>
   getFirewallNetworkName parseURL (fw\<lparr>firewall.Network := []\<rparr>) = Inr []"
  by (simp add: getFirewallNetworkName_def url_Parse_network_reference path_Base_def)

text \<open>Instance of C8: the firewall of the repository's test.\<close>
theorem firewall_network_name_parsing_witness:
  "getFirewallNetworkName (url_Parse noAuthority)
     (zeroFirewall\<lparr>firewall.Network := ''projects/myproject/global/networks/my-network''\<rparr>) = Inr ''my-network'' \<and>
   getFirewallNetworkName (url_Parse noAuthority) zeroFirewall = Inr []"
proof -
  have z: "zeroFirewall\<lparr>firewall.Network := []\<rparr> = zeroFirewall" by (simp add: zeroFirewall_def)
  from firewall_network_name_parsing[of noAuthority zeroFirewall "url_Parse noAuthority"]
  show ?thesis unfolding z .
qed

text \<open>
  C9, as the claim states it, fails for \<^verbatim>\<open>createOrGetRouter\<close> of package networks: an
  existing router without a NAT configuration is returned as it is; \<^verbatim>\<open>Reconcile\<close>
  issues no mutating call and the router still has no NAT configuration afterwards.
\<close>
theorem router_without_nat_not_patched_counterexample:
  "Nats exampleRouter = [] \<and>
   fst (Reconcile exampleApi (gcpService exampleScope noFaults) (startRun exampleWorld)) = None \<and>
   list_all (\<lambda>c. \<not> mutating (fst c))
     (issued (startRun exampleWorld)
        (snd (Reconcile exampleApi (gcpService exampleScope noFaults) (startRun exampleWorld)))) \<and>
   map_option Nats
     (gcp_routers (world (snd (Reconcile exampleApi (gcpService exampleScope noFaults) (startRun exampleWorld))))
        (RegionalKey ''my-network-router'' ''us-central1'')) = Some []"
  by code_simp

text \<open>
  C9, amended. In \<^verbatim>\<open>createCloudNat\<close> of package compute, when the router already exists:
  if it has no NAT configuration, exactly one (automatic external addresses, all ranges of
  all subnetworks) is set in the router and sent by \<^verbatim>\<open>Patch\<close>, and the operation it
  returns is waited for; if it has at least one, no \<^verbatim>\<open>Patch\<close> is issued and the only call
  is the \<^verbatim>\<open>Get\<close>. \<^verbatim>\<open>createOrGetRouter\<close> of package networks returns an existing
  router as it is and issues no other call, with or without a NAT configuration.
\<close>
theorem nat_attach_semantics:
  "(routers_Get_Do s (Project (cscope s)) (ClusterScope.Region (cscope s))
      (getRouterName (ClusterScope.NetworkName (cscope s))) (world st) = (Inr rt, w)
    \<longrightarrow>
      (if Nats rt = []
       then (case routers_Patch_Do s (Project (cscope s)) (ClusterScope.Region (cscope s)) (router.Name rt)
                    (rt\<lparr>Nats := [getRouterNatSpec s]\<rparr>) w of
               (Inl err, w') \<Rightarrow>
                 fst (createCloudNat s nw st) = Some (Wrapf ''failed to patch router to create nat'' err) \<and>
                 map fst (issued st (snd (createCloudNat s nw st))) =
                   [RoutersGetDo (Project (cscope s)) (ClusterScope.Region (cscope s))
                      (getRouterName (ClusterScope.NetworkName (cscope s))),
                    RoutersPatchDo (Project (cscope s)) (ClusterScope.Region (cscope s)) (router.Name rt)
                      (rt\<lparr>Nats := [getRouterNatSpec s]\<rparr>)]
             | (Inr op, w') \<Rightarrow>
                 map fst (issued st (snd (createCloudNat s nw st))) =
                   [RoutersGetDo (Project (cscope s)) (ClusterScope.Region (cscope s))
                      (getRouterName (ClusterScope.NetworkName (cscope s))),
                    RoutersPatchDo (Project (cscope s)) (ClusterScope.Region (cscope s)) (router.Name rt)
                      (rt\<lparr>Nats := [getRouterNatSpec s]\<rparr>),
                    WaitForComputeOperation (Project (cscope s)) op] \<and>
                 fst (createCloudNat s nw st) =
                   map_option (Wrapf ''failed to wait for patch router operation'')
                     (fst (ForComputeOperation s (Project (cscope s)) op w')))
       else createCloudNat s nw st =
              (None,
               setNetworkStatus (\<lambda>n. n\<lparr>Router := Some (router.SelfLink rt)\<rparr>)
                 (st\<lparr>world := w,
                     calls := calls st @ [(RoutersGetDo (Project (cscope s)) (ClusterScope.Region (cscope s))
                                             (getRouterName (ClusterScope.NetworkName (cscope s))), None)]\<rparr>)))) \<and>
   NatIpAllocateOption (getRouterNatSpec s) = ''AUTO_ONLY'' \<and>
   SourceSubnetworkIpRangesToNat (getRouterNatSpec s) = ''ALL_SUBNETWORKS_ALL_IP_RANGES'' \<and>
   (routers_Get ns (routerKey (scope ns)) (world nst) = (Inr rt', w'')
    \<longrightarrow> createOrGetRouter api ns nw' nst =
          (Inr rt', nst\<lparr>world := w'', calls := calls nst @ [(RoutersGet (routerKey (scope ns)), None)]\<rparr>))"
proof (intro conjI impI)
  assume g: "routers_Get_Do s (Project (cscope s)) (ClusterScope.Region (cscope s))
      (getRouterName (ClusterScope.NetworkName (cscope s))) (world st) = (Inr rt, w)"
  note r = getOrInsertNatRouter_existing[OF g, of nw]
  show "if Nats rt = []
       then (case routers_Patch_Do s (Project (cscope s)) (ClusterScope.Region (cscope s)) (router.Name rt)
                    (rt\<lparr>Nats := [getRouterNatSpec s]\<rparr>) w of
               (Inl err, w') \<Rightarrow>
                 fst (createCloudNat s nw st) = Some (Wrapf ''failed to patch router to create nat'' err) \<and>
                 map fst (issued st (snd (createCloudNat s nw st))) =
                   [RoutersGetDo (Project (cscope s)) (ClusterScope.Region (cscope s))
                      (getRouterName (ClusterScope.NetworkName (cscope s))),
                    RoutersPatchDo (Project (cscope s)) (ClusterScope.Region (cscope s)) (router.Name rt)
                      (rt\<lparr>Nats := [getRouterNatSpec s]\<rparr>)]
             | (Inr op, w') \<Rightarrow>
                 map fst (issued st (snd (createCloudNat s nw st))) =
                   [RoutersGetDo (Project (cscope s)) (ClusterScope.Region (cscope s))
                      (getRouterName (ClusterScope.NetworkName (cscope s))),
                    RoutersPatchDo (Project (cscope s)) (ClusterScope.Region (cscope s)) (router.Name rt)
                      (rt\<lparr>Nats := [getRouterNatSpec s]\<rparr>),
                    WaitForComputeOperation (Project (cscope s)) op] \<and>
                 fst (createCloudNat s nw st) =
                   map_option (Wrapf ''failed to wait for patch router operation'')
                     (fst (ForComputeOperation s (Project (cscope s)) op w')))
       else createCloudNat s nw st =
              (None,
               setNetworkStatus (\<lambda>n. n\<lparr>Router := Some (router.SelfLink rt)\<rparr>)
                 (st\<lparr>world := w,
                     calls := calls st @ [(RoutersGetDo (Project (cscope s)) (ClusterScope.Region (cscope s))
                                             (getRouterName (ClusterScope.NetworkName (cscope s))), None)]\<rparr>))"
    by (auto simp: createCloudNat_def r patchRouterNat_def Let_def doDo_defs getCall_def mutCall_def errOf_def
                   issued_def setNetworkStatus_def
             split: prod.splits sum.splits option.splits)
next
  show "NatIpAllocateOption (getRouterNatSpec s) = ''AUTO_ONLY''"
    and "SourceSubnetworkIpRangesToNat (getRouterNatSpec s) = ''ALL_SUBNETWORKS_ALL_IP_RANGES''"
    by (simp_all add: getRouterNatSpec_def)
next
  assume "routers_Get ns (routerKey (scope ns)) (world nst) = (Inr rt', w'')"
  then show "createOrGetRouter api ns nw' nst =
          (Inr rt', nst\<lparr>world := w'', calls := calls nst @ [(RoutersGet (routerKey (scope ns)), None)]\<rparr>)"
    by (rule createOrGetRouter_existing)
qed

text \<open>
  Witness for C9: the router of the example provider has no NAT configuration and is
  patched; a router with one is left alone; package networks returns the router it finds.
\<close>
theorem nat_attach_semantics_witness:
  "map fst (issued (startClusterRun exampleGce)
      (snd (createCloudNat (gceService exampleClusterScope noFaults) exampleNetwork (startClusterRun exampleGce)))) =
     [RoutersGetDo ''my-project'' ''us-central1'' ''my-network-router'',
      RoutersPatchDo ''my-project'' ''us-central1'' ''my-network-router''
        (exampleRouter\<lparr>Nats := [getRouterNatSpec (gceService exampleClusterScope noFaults)]\<rparr>),
      WaitForComputeOperation ''my-project'' (Operation ''patch'')] \<and>
   fst (createCloudNat (gceService exampleClusterScope noFaults) exampleNetwork (startClusterRun exampleGce)) = None \<and>
   map fst (issued (startClusterRun natGce)
      (snd (createCloudNat (gceService exampleClusterScope noFaults) exampleNetwork (startClusterRun natGce)))) =
     [RoutersGetDo ''my-project'' ''us-central1'' ''my-network-router''] \<and>
   fst (createOrGetRouter exampleApi (gcpService exampleScope noFaults) exampleNetwork (startRun exampleWorld))
     = Inr exampleRouter"
proof -
  let ?s = "gceService exampleClusterScope noFaults"
  let ?ns = "gcpService exampleScope noFaults"
  let ?st = "startClusterRun exampleGce :: gce crun"
  let ?st2 = "startClusterRun natGce :: gce crun"
  have c: "Project (cscope ?s) = ''my-project''" "ClusterScope.Region (cscope ?s) = ''us-central1''"
          "getRouterName (ClusterScope.NetworkName (cscope ?s)) = ''my-network-router''"
          "router.Name exampleRouter = ''my-network-router''"
    by (simp_all add: gceService_def exampleClusterScope_def getRouterName_def exampleRouter_def)
  have h1: "routers_Get_Do ?s (Project (cscope ?s)) (ClusterScope.Region (cscope ?s))
              (getRouterName (ClusterScope.NetworkName (cscope ?s))) (world ?st) = (Inr exampleRouter, exampleGce)"
    by (simp add: store_defs example_defs getRouterName_def)
  have h2: "routers_Get_Do ?s (Project (cscope ?s)) (ClusterScope.Region (cscope ?s))
              (getRouterName (ClusterScope.NetworkName (cscope ?s))) (world ?st2) = (Inr natRouter, natGce)"
    by (simp add: store_defs example_defs getRouterName_def natGce_def)
  have h3: "routers_Get ?ns (routerKey (scope ?ns)) (world (startRun exampleWorld :: gcp nrun)) = (Inr exampleRouter, exampleWorld)"
    by (simp add: store_defs example_defs routerKey_def)
  have e1: "Nats exampleRouter = []" by (simp add: exampleRouter_def)
  have e2: "Nats natRouter \<noteq> []" by (simp add: natRouter_def)
  have p: "fst (routers_Patch_Do ?s (Project (cscope ?s)) (ClusterScope.Region (cscope ?s)) (router.Name exampleRouter)
                  (exampleRouter\<lparr>Nats := [getRouterNatSpec ?s]\<rparr>) exampleGce) = Inr (Operation ''patch'')"
    by (simp add: store_defs example_defs)
  have wt: "fst (ForComputeOperation ?s (Project (cscope ?s)) (Operation ''patch'')
                  (snd (routers_Patch_Do ?s (Project (cscope ?s)) (ClusterScope.Region (cscope ?s)) (router.Name exampleRouter)
                  (exampleRouter\<lparr>Nats := [getRouterNatSpec ?s]\<rparr>) exampleGce))) = None"
    by (simp add: store_defs)
  note t1 = nat_attach_semantics[where s = ?s and st = ?st and rt = exampleRouter and w = exampleGce and nw = exampleNetwork
              and ns = ?ns and nst = "startRun exampleWorld" and rt' = exampleRouter and w'' = exampleWorld
              and api = exampleApi and nw' = exampleNetwork]
  from t1 h1 e1 have
    "(case routers_Patch_Do ?s (Project (cscope ?s)) (ClusterScope.Region (cscope ?s)) (router.Name exampleRouter)
                    (exampleRouter\<lparr>Nats := [getRouterNatSpec ?s]\<rparr>) exampleGce of
               (Inl err, w') \<Rightarrow>
                 fst (createCloudNat ?s exampleNetwork ?st) = Some (Wrapf ''failed to patch router to create nat'' err) \<and>
                 map fst (issued ?st (snd (createCloudNat ?s exampleNetwork ?st))) =
                   [RoutersGetDo (Project (cscope ?s)) (ClusterScope.Region (cscope ?s))
                      (getRouterName (ClusterScope.NetworkName (cscope ?s))),
                    RoutersPatchDo (Project (cscope ?s)) (ClusterScope.Region (cscope ?s)) (router.Name exampleRouter)
                      (exampleRouter\<lparr>Nats := [getRouterNatSpec ?s]\<rparr>)]
             | (Inr op, w') \<Rightarrow>
                 map fst (issued ?st (snd (createCloudNat ?s exampleNetwork ?st))) =
                   [RoutersGetDo (Project (cscope ?s)) (ClusterScope.Region (cscope ?s))
                      (getRouterName (ClusterScope.NetworkName (cscope ?s))),
                    RoutersPatchDo (Project (cscope ?s)) (ClusterScope.Region (cscope ?s)) (router.Name exampleRouter)
                      (exampleRouter\<lparr>Nats := [getRouterNatSpec ?s]\<rparr>),
                    WaitForComputeOperation (Project (cscope ?s)) op] \<and>
                 fst (createCloudNat ?s exampleNetwork ?st) =
                   map_option (Wrapf ''failed to wait for patch router operation'')
                     (fst (ForComputeOperation ?s (Project (cscope ?s)) op w')))"
    by presburger
  then have a: "map fst (issued ?st (snd (createCloudNat ?s exampleNetwork ?st))) =
                   [RoutersGetDo (Project (cscope ?s)) (ClusterScope.Region (cscope ?s))
                      (getRouterName (ClusterScope.NetworkName (cscope ?s))),
                    RoutersPatchDo (Project (cscope ?s)) (ClusterScope.Region (cscope ?s)) (router.Name exampleRouter)
                      (exampleRouter\<lparr>Nats := [getRouterNatSpec ?s]\<rparr>),
                    WaitForComputeOperation (Project (cscope ?s)) (Operation ''patch'')] \<and>
                 fst (createCloudNat ?s exampleNetwork ?st) = None"
    unfolding case_answer_Inr[OF p] wt by simp
  from t1 h3 have b: "createOrGetRouter exampleApi ?ns exampleNetwork (startRun exampleWorld) =
          (Inr exampleRouter, (startRun exampleWorld)\<lparr>world := exampleWorld,
              calls := calls (startRun exampleWorld :: gcp nrun) @ [(RoutersGet (routerKey (scope ?ns)), None)]\<rparr>)"
    by blast
  note t2 = nat_attach_semantics[where s = ?s and st = ?st2 and rt = natRouter and w = natGce and nw = exampleNetwork]
  from t2 h2 e2 have "createCloudNat ?s exampleNetwork ?st2 =
              (None,
               setNetworkStatus (\<lambda>n. n\<lparr>Router := Some (router.SelfLink natRouter)\<rparr>)
                 (?st2\<lparr>world := natGce,
                     calls := calls ?st2 @ [(RoutersGetDo (Project (cscope ?s)) (ClusterScope.Region (cscope ?s))
                                             (getRouterName (ClusterScope.NetworkName (cscope ?s))), None)]\<rparr>))"
    by presburger
  then have d: "map fst (issued ?st2 (snd (createCloudNat ?s exampleNetwork ?st2))) =
                  [RoutersGetDo (Project (cscope ?s)) (ClusterScope.Region (cscope ?s))
                                             (getRouterName (ClusterScope.NetworkName (cscope ?s)))]"
    by (simp add: issued_def setNetworkStatus_def)
  from a b d show ?thesis unfolding c by simp
qed

text \<open>
  C6 at the failing input: with a shared VPC declared, a host network in custom mode and a
  declared subnetwork that the host project lacks, \<^verbatim>\<open>Reconcile\<close> inserts the
  subnetwork and returns success.
\<close>
theorem shared_vpc_reconcile_inserts_subnetwork:
  "IsSharedVpc (scope (gcpService sharedScope noFaults)) \<and>
   fst (Reconcile exampleApi (gcpService sharedScope noFaults) (startRun hostWorld)) = None \<and>
   map fst (issued (startRun hostWorld)
      (snd (Reconcile exampleApi (gcpService sharedScope noFaults) (startRun hostWorld)))) =
     [NetworksGet (GlobalKey ''my-network''),
      SubnetworksGet (RegionalKey ''sub1'' ''us-central1''),
      SubnetworksInsert (RegionalKey ''sub1'' ''us-central1'') exampleSubnet,
      SubnetworksGet (RegionalKey ''sub1'' ''us-central1'')]"
  by code_simp

text \<open>
  C2. Idempotence. On the reference provider without faults, from every provider state,
  every status and every scope, a second call of \<^verbatim>\<open>networks.Reconcile\<close>, of
  \<^verbatim>\<open>compute.ReconcileNetwork\<close> or of \<^verbatim>\<open>compute.ReconcileFirewalls\<close> on the state the
  first call left issues no Insert, Patch or Delete call and leaves the status as the first
  call left it. For \<^verbatim>\<open>ReconcileNetwork\<close> the provider is taken to keep every router under
  the router's own name, as a provider does.
\<close>
theorem reconcile_idempotent:
  "idempotentRun mutating (Reconcile api (gcpService sc noFaults)) st \<and>
   (namedRouters (world cst) \<longrightarrow>
      idempotentRun mutatingDo (ReconcileNetwork api (gceService csc noFaults)) cst) \<and>
   idempotentRun mutatingDo (ReconcileFirewalls api (gceService csc noFaults)) fst0"
  using Reconcile_twice[of api sc st] ReconcileNetwork_twice[of cst api csc]
    ReconcileFirewalls_twice[of api csc fst0]
  by blast

text \<open>
  Witness for C2: from the empty provider the first call of each reconciler inserts, and
  the second call does not.
\<close>
theorem reconcile_idempotent_witness:
  "list_ex (\<lambda>c. mutating (fst c))
     (issued (startRun emptyWorld) (snd (Reconcile exampleApi (gcpService exampleScope noFaults) (startRun emptyWorld)))) \<and>
   idempotentRun mutating (Reconcile exampleApi (gcpService exampleScope noFaults)) (startRun emptyWorld) \<and>
   list_ex (\<lambda>c. mutatingDo (fst c))
     (issued (startClusterRun emptyGce)
        (snd (ReconcileNetwork exampleApi (gceService exampleClusterScope noFaults) (startClusterRun emptyGce)))) \<and>
   idempotentRun mutatingDo (ReconcileNetwork exampleApi (gceService exampleClusterScope noFaults))
     (startClusterRun emptyGce) \<and>
   list_ex (\<lambda>c. mutatingDo (fst c))
     (issued (startClusterRun exampleGce)
        (snd (ReconcileFirewalls exampleApi (gceService exampleClusterScope noFaults) (startClusterRun exampleGce)))) \<and>
   idempotentRun mutatingDo (ReconcileFirewalls exampleApi (gceService exampleClusterScope noFaults))
     (startClusterRun exampleGce)"
proof -
  have wf: "namedRouters (world (startClusterRun emptyGce :: gce crun))"
    by (simp add: namedRouters_def startClusterRun_def emptyGce_def)
  have m1: "list_ex (\<lambda>c. mutating (fst c))
     (issued (startRun emptyWorld) (snd (Reconcile exampleApi (gcpService exampleScope noFaults) (startRun emptyWorld))))"
    by code_simp
  have m2: "list_ex (\<lambda>c. mutatingDo (fst c))
     (issued (startClusterRun emptyGce)
        (snd (ReconcileNetwork exampleApi (gceService exampleClusterScope noFaults) (startClusterRun emptyGce))))"
    by code_simp
  have m3: "list_ex (\<lambda>c. mutatingDo (fst c))
     (issued (startClusterRun exampleGce)
        (snd (ReconcileFirewalls exampleApi (gceService exampleClusterScope noFaults) (startClusterRun exampleGce))))"
    by (simp add: ReconcileFirewalls_def getFirewallSpecs_def Let_def gce_eval startClusterRun_def exampleGce_def
          emptyGce_def issued_def storeFirewallRule_def setNetworkStatus_def find_append_cases
          exampleClusterScope_def exampleApi_def)
  from reconcile_idempotent[where api = exampleApi and sc = exampleScope and st = "startRun emptyWorld"
         and csc = exampleClusterScope and cst = "startClusterRun emptyGce" and ?fst0.0 = "startClusterRun exampleGce"]
    wf m1 m2 m3
  show ?thesis by blast
qed



text \<open>
  C3, as the claim states it, fails: \<^verbatim>\<open>networks.Delete\<close> deletes the subnetworks
  before the routes.
\<close>
theorem delete_claimed_order_counterexample:
  "\<not> inOrder claimedStep
       (issued (startRun exampleWorld)
          (snd (Delete exampleApi (gcpService exampleScope noFaults) (startRun exampleWorld))))"
  by code_simp

text \<open>
  C3, amended. \<^verbatim>\<open>networks.Delete\<close> deletes in the order router, declared subnetworks,
  node routes, network, and \<^verbatim>\<open>DeleteNetwork\<close> of package compute in the order router,
  node routes, subnetworks, network; in both the subnetworks go before the network. For
  every provider and every run:

  \<^item> the delete calls of \<^verbatim>\<open>networks.Delete\<close> occur in that order, and a run that returns
    an error has stopped at a call that the provider answered with this error;
  \<^item> a run of \<^verbatim>\<open>networks.Delete\<close> on a network with the cluster's tag, shared VPC off,
    that returns nil has issued exactly these calls: the \<^verbatim>\<open>Get\<close> of the network, the
    \<^verbatim>\<open>Get\<close> of the router, the \<^verbatim>\<open>Delete\<close> of the router when the router has the
    cluster's tag, for a custom-mode network the \<^verbatim>\<open>Get\<close> of each declared subnetwork
    in turn, followed by its \<^verbatim>\<open>Delete\<close> when it was found, the \<^verbatim>\<open>List\<close> of the
    node routes, the \<^verbatim>\<open>Delete\<close> of every route that this \<^verbatim>\<open>List\<close> returned and
    whose network reference ends with the network's name, and last the \<^verbatim>\<open>Delete\<close> of
    the network;
  \<^item> the delete calls of \<^verbatim>\<open>DeleteNetwork\<close> occur in its order, and a run that returns an
    error has stopped at a call that the provider answered with an error;
  \<^item> a run of \<^verbatim>\<open>DeleteNetwork\<close> on a network with the cluster's tag that returns nil has
    issued exactly these delete calls: that of the router when \<^verbatim>\<open>Get\<close> found one,
    that of every route its \<^verbatim>\<open>List\<close> returned and whose network reference ends with
    the network's name, for a custom-mode network that of every subnetwork the fetched
    network names, and last that of the network.
\<close>
theorem delete_order:
  "inOrder deleteStep (issued st (snd (Delete api s st))) \<and>
   (fst (Delete api s st) \<noteq> None \<longrightarrow>
      issued st (snd (Delete api s st)) \<noteq> [] \<and>
      snd (last (issued st (snd (Delete api s st)))) = fst (Delete api s st)) \<and>
   (\<not> IsSharedVpc (scope s) \<and>
    networks_Get s (networkKey (scope s)) (world st) = (Inr nw, w1) \<and>
    network.Description nw = ClusterTagKey api (Scope.Name (scope s)) \<and>
    fst (Delete api s st) = None \<longrightarrow>
      (\<exists>rs w4.
         routes_List s nodeRoutes (world (afterSubnets api s nw st)) = (Inr rs, w4) \<and>
         map fst (issued st (snd (Delete api s st))) =
           NetworksGet (networkKey (scope s)) # RoutersGet (routerKey (scope s)) #
           (if ownsRouter api s w1 then [RoutersDelete (routerKey (scope s))] else []) @
           map fst (issued (afterRouter api s st) (afterSubnets api s nw st)) @
           RoutesList nodeRoutes #
           map (\<lambda>rt. RoutesDelete (GlobalKey (route.Name rt)))
             (filter (\<lambda>rt. HasSuffix (route.Network rt) (Scope.NetworkName (scope s))) rs) @
           [NetworksDelete (networkKey (scope s))]) \<and>
      (if AutoCreateSubnetworks nw
       then afterSubnets api s nw st = afterRouter api s st
       else subnetLog (SubnetworkSpec (scope s)) (issued (afterRouter api s st) (afterSubnets api s nw st)))) \<and>
   inOrder deleteStepDo (issued cst (snd (DeleteNetwork api cs cst))) \<and>
   (fst (DeleteNetwork api cs cst) \<noteq> None \<longrightarrow>
      issued cst (snd (DeleteNetwork api cs cst)) \<noteq> [] \<and>
      snd (last (issued cst (snd (DeleteNetwork api cs cst)))) \<noteq> None) \<and>
   (networks_Get_Do cs (Project (cscope cs)) (ClusterScope.NetworkName (cscope cs)) (world cst) = (Inr cnw, cw1) \<and>
    network.Description cnw = ClusterTagKey api (ClusterScope.Name (cscope cs)) \<and>
    fst (DeleteNetwork api cs cst) = None \<longrightarrow>
      (\<exists>rs w3.
         routes_List_Filter_Do cs (Project (cscope cs))
           (''description='' @ k8sNodeRouteTag @ '' name='' @ ClusterScope.Name (cscope cs) @ ''-*'')
           (world (afterRouterDo cs cst)) = (Inr rs, w3) \<and>
         deleteCalls (issued cst (snd (DeleteNetwork api cs cst))) =
           (case fst (routers_Get_Do cs (Project (cscope cs)) (ClusterScope.Region (cscope cs))
                        (getRouterName (ClusterScope.NetworkName (cscope cs))) cw1) of
              Inl _ \<Rightarrow> []
            | Inr rt \<Rightarrow> [RoutersDeleteDo (Project (cscope cs)) (ClusterScope.Region (cscope cs)) (router.Name rt)]) @
           map (\<lambda>rt. RoutesDeleteDo (Project (cscope cs)) (route.Name rt))
             (filter (\<lambda>rt. HasSuffix (route.Network rt) (network.Name cnw)) rs) @
           (if \<not> AutoCreateSubnetworks cnw
            then map (SubnetworksDeleteDo (Project (cscope cs)) (ClusterScope.Region (cscope cs)))
                   (filter (\<lambda>n. n \<noteq> []) (map getSubnetNameFromUrl (Subnetworks cnw)))
            else []) @
           [NetworksDeleteDo (Project (cscope cs)) (network.Name cnw)]))"
proof (intro conjI impI)
  obtain g w0 where g: "networks_Get s (networkKey (scope s)) (world st) = (g, w0)"
    by (cases "networks_Get s (networkKey (scope s)) (world st)")
  from Delete_order_guard[OF g, of api] show "inOrder deleteStep (issued st (snd (Delete api s st)))"
    by blast
next
  assume "fst (Delete api s st) \<noteq> None"
  then obtain e where e: "fst (Delete api s st) = Some e" by auto
  from Delete_discipline[of api s st]
  show "issued st (snd (Delete api s st)) \<noteq> []"
    and "snd (last (issued st (snd (Delete api s st)))) = fst (Delete api s st)"
    unfolding e by (simp_all add: discipline_def)
next
  assume a: "\<not> IsSharedVpc (scope s) \<and>
    networks_Get s (networkKey (scope s)) (world st) = (Inr nw, w1) \<and>
    network.Description nw = ClusterTagKey api (Scope.Name (scope s)) \<and>
    fst (Delete api s st) = None"
  then have h: "\<not> IsSharedVpc (scope s)"
    "networks_Get s (networkKey (scope s)) (world st) = (Inr nw, w1)"
    "network.Description nw = ClusterTagKey api (Scope.Name (scope s))"
    "fst (Delete api s st) = None" by simp_all
  from Delete_success(1)[OF h]
  show "\<exists>rs w4.
         routes_List s nodeRoutes (world (afterSubnets api s nw st)) = (Inr rs, w4) \<and>
         map fst (issued st (snd (Delete api s st))) =
           NetworksGet (networkKey (scope s)) # RoutersGet (routerKey (scope s)) #
           (if ownsRouter api s w1 then [RoutersDelete (routerKey (scope s))] else []) @
           map fst (issued (afterRouter api s st) (afterSubnets api s nw st)) @
           RoutesList nodeRoutes #
           map (\<lambda>rt. RoutesDelete (GlobalKey (route.Name rt)))
             (filter (\<lambda>rt. HasSuffix (route.Network rt) (Scope.NetworkName (scope s))) rs) @
           [NetworksDelete (networkKey (scope s))]" .
  from Delete_success(2)[OF h]
  show "if AutoCreateSubnetworks nw
       then afterSubnets api s nw st = afterRouter api s st
       else subnetLog (SubnetworkSpec (scope s)) (issued (afterRouter api s st) (afterSubnets api s nw st))" .
next
  show "inOrder deleteStepDo (issued cst (snd (DeleteNetwork api cs cst)))"
    by (rule DeleteNetwork_order)
next
  assume "fst (DeleteNetwork api cs cst) \<noteq> None"
  then obtain e where e: "fst (DeleteNetwork api cs cst) = Some e" by auto
  from DeleteNetwork_stop[OF e]
  show "issued cst (snd (DeleteNetwork api cs cst)) \<noteq> []"
    and "snd (last (issued cst (snd (DeleteNetwork api cs cst)))) \<noteq> None"
    by simp_all
next
  assume a: "networks_Get_Do cs (Project (cscope cs)) (ClusterScope.NetworkName (cscope cs)) (world cst) = (Inr cnw, cw1) \<and>
    network.Description cnw = ClusterTagKey api (ClusterScope.Name (cscope cs)) \<and>
    fst (DeleteNetwork api cs cst) = None"
  then have h: "networks_Get_Do cs (Project (cscope cs)) (ClusterScope.NetworkName (cscope cs)) (world cst) = (Inr cnw, cw1)"
    "network.Description cnw = ClusterTagKey api (ClusterScope.Name (cscope cs))"
    "fst (DeleteNetwork api cs cst) = None" by simp_all
  from DeleteNetwork_success[OF h]
  show "\<exists>rs w3.
         routes_List_Filter_Do cs (Project (cscope cs))
           (''description='' @ k8sNodeRouteTag @ '' name='' @ ClusterScope.Name (cscope cs) @ ''-*'')
           (world (afterRouterDo cs cst)) = (Inr rs, w3) \<and>
         deleteCalls (issued cst (snd (DeleteNetwork api cs cst))) =
           (case fst (routers_Get_Do cs (Project (cscope cs)) (ClusterScope.Region (cscope cs))
                        (getRouterName (ClusterScope.NetworkName (cscope cs))) cw1) of
              Inl _ \<Rightarrow> []
            | Inr rt \<Rightarrow> [RoutersDeleteDo (Project (cscope cs)) (ClusterScope.Region (cscope cs)) (router.Name rt)]) @
           map (\<lambda>rt. RoutesDeleteDo (Project (cscope cs)) (route.Name rt))
             (filter (\<lambda>rt. HasSuffix (route.Network rt) (network.Name cnw)) rs) @
           (if \<not> AutoCreateSubnetworks cnw
            then map (SubnetworksDeleteDo (Project (cscope cs)) (ClusterScope.Region (cscope cs)))
                   (filter (\<lambda>n. n \<noteq> []) (map getSubnetNameFromUrl (Subnetworks cnw)))
            else []) @
           [NetworksDeleteDo (Project (cscope cs)) (network.Name cnw)]" .
qed

text \<open>Witness for C3: the teardown of the example providers, which returns nil in both
  packages, and the teardown in which the delete of the route is refused, which stops
  there.\<close>
theorem delete_order_witness:
  "inOrder deleteStep
     (issued (startRun exampleWorld) (snd (Delete exampleApi (gcpService exampleScope noFaults) (startRun exampleWorld)))) \<and>
   map fst (issued (startRun exampleWorld) (snd (Delete exampleApi (gcpService exampleScope noFaults) (startRun exampleWorld)))) =
     [NetworksGet (GlobalKey ''my-network''),
      RoutersGet (RegionalKey ''my-network-router'' ''us-central1''),
      RoutersDelete (RegionalKey ''my-network-router'' ''us-central1''),
      SubnetworksGet (RegionalKey ''sub1'' ''us-central1''),
      SubnetworksDelete (RegionalKey ''sub1'' ''us-central1''),
      RoutesList (Regexp ''description'' ''k8s-node-route''),
      RoutesDelete (GlobalKey ''my-cluster-node1''),
      NetworksDelete (GlobalKey ''my-network'')] \<and>
   (\<exists>rs w4.
      routes_List (gcpService exampleScope noFaults) nodeRoutes
        (world (afterSubnets exampleApi (gcpService exampleScope noFaults) exampleNetwork (startRun exampleWorld))) = (Inr rs, w4) \<and>
      map fst (issued (startRun exampleWorld) (snd (Delete exampleApi (gcpService exampleScope noFaults) (startRun exampleWorld)))) =
        NetworksGet (networkKey exampleScope) # RoutersGet (routerKey exampleScope) #
        (if ownsRouter exampleApi (gcpService exampleScope noFaults) exampleWorld
         then [RoutersDelete (routerKey exampleScope)] else []) @
        map fst (issued (afterRouter exampleApi (gcpService exampleScope noFaults) (startRun exampleWorld))
                   (afterSubnets exampleApi (gcpService exampleScope noFaults) exampleNetwork (startRun exampleWorld))) @
        RoutesList nodeRoutes #
        map (\<lambda>rt. RoutesDelete (GlobalKey (route.Name rt)))
          (filter (\<lambda>rt. HasSuffix (route.Network rt) (Scope.NetworkName exampleScope)) rs) @
        [NetworksDelete (networkKey exampleScope)]) \<and>
   subnetLog [exampleSubnet]
     (issued (afterRouter exampleApi (gcpService exampleScope noFaults) (startRun exampleWorld))
        (afterSubnets exampleApi (gcpService exampleScope noFaults) exampleNetwork (startRun exampleWorld))) \<and>
   inOrder deleteStepDo
     (issued (startClusterRun exampleGce)
        (snd (DeleteNetwork exampleApi (gceService exampleClusterScope noFaults) (startClusterRun exampleGce)))) \<and>
   map fst (issued (startClusterRun exampleGce)
        (snd (DeleteNetwork exampleApi (gceService exampleClusterScope noFaults) (startClusterRun exampleGce)))) =
     [NetworksGetDo ''my-project'' ''my-network'',
      RoutersGetDo ''my-project'' ''us-central1'' ''my-network-router'',
      RoutersDeleteDo ''my-project'' ''us-central1'' ''my-network-router'',
      WaitForComputeOperation ''my-project'' (Operation ''delete''),
      RoutesListDo ''my-project'' ''description=k8s-node-route name=my-cluster-*'',
      RoutesDeleteDo ''my-project'' ''my-cluster-node1'',
      WaitForComputeOperation ''my-project'' (Operation ''delete''),
      SubnetworksDeleteDo ''my-project'' ''us-central1'' ''sub1'',
      WaitForComputeOperation ''my-project'' (Operation ''delete''),
      NetworksDeleteDo ''my-project'' ''my-network'',
      WaitForComputeOperation ''my-project'' (Operation ''delete'')] \<and>
   (\<exists>rs w3.
      routes_List_Filter_Do (gceService exampleClusterScope noFaults) ''my-project''
        ''description=k8s-node-route name=my-cluster-*''
        (world (afterRouterDo (gceService exampleClusterScope noFaults) (startClusterRun exampleGce))) = (Inr rs, w3) \<and>
      deleteCalls (issued (startClusterRun exampleGce)
          (snd (DeleteNetwork exampleApi (gceService exampleClusterScope noFaults) (startClusterRun exampleGce)))) =
        [RoutersDeleteDo ''my-project'' ''us-central1'' ''my-network-router''] @
        map (\<lambda>rt. RoutesDeleteDo ''my-project'' (route.Name rt))
          (filter (\<lambda>rt. HasSuffix (route.Network rt) ''my-network'') rs) @
        [SubnetworksDeleteDo ''my-project'' ''us-central1'' ''sub1'',
         NetworksDeleteDo ''my-project'' ''my-network'']) \<and>
   fst (Delete exampleApi
          (gcpService exampleScope (failing (RoutesDelete (GlobalKey ''my-cluster-node1'')) (Failure ''forbidden'')))
          (startRun exampleWorld)) = Some (Failure ''forbidden'') \<and>
   last (issued (startRun exampleWorld)
          (snd (Delete exampleApi
                 (gcpService exampleScope (failing (RoutesDelete (GlobalKey ''my-cluster-node1'')) (Failure ''forbidden'')))
                 (startRun exampleWorld)))) =
     (RoutesDelete (GlobalKey ''my-cluster-node1''), Some (Failure ''forbidden'')) \<and>
   fst (DeleteNetwork exampleApi
          (gceService exampleClusterScope (failing (RoutesDeleteDo ''my-project'' ''my-cluster-node1'') (Failure ''forbidden'')))
          (startClusterRun exampleGce)) = Some (Wrapf ''failed to delete route'' (Failure ''forbidden'')) \<and>
   issued (startClusterRun exampleGce)
     (snd (DeleteNetwork exampleApi
            (gceService exampleClusterScope (failing (RoutesDeleteDo ''my-project'' ''my-cluster-node1'') (Failure ''forbidden'')))
            (startClusterRun exampleGce))) \<noteq> [] \<and>
   snd (last (issued (startClusterRun exampleGce)
     (snd (DeleteNetwork exampleApi
            (gceService exampleClusterScope (failing (RoutesDeleteDo ''my-project'' ''my-cluster-node1'') (Failure ''forbidden'')))
            (startClusterRun exampleGce))))) \<noteq> None"
proof -
  let ?s = "gcpService exampleScope noFaults"
  let ?cs = "gceService exampleClusterScope noFaults"
  let ?st = "startRun exampleWorld :: gcp nrun"
  let ?cst = "startClusterRun exampleGce :: gce crun"
  let ?new = "issued ?st (snd (Delete exampleApi ?s ?st))"
  let ?cnew = "issued ?cst (snd (DeleteNetwork exampleApi ?cs ?cst))"
  have l1: "map fst ?new =
     [NetworksGet (GlobalKey ''my-network''),
      RoutersGet (RegionalKey ''my-network-router'' ''us-central1''),
      RoutersDelete (RegionalKey ''my-network-router'' ''us-central1''),
      SubnetworksGet (RegionalKey ''sub1'' ''us-central1''),
      SubnetworksDelete (RegionalKey ''sub1'' ''us-central1''),
      RoutesList (Regexp ''description'' ''k8s-node-route''),
      RoutesDelete (GlobalKey ''my-cluster-node1''),
      NetworksDelete (GlobalKey ''my-network'')]"
    by code_simp
  have l2: "map fst ?cnew =
     [NetworksGetDo ''my-project'' ''my-network'',
      RoutersGetDo ''my-project'' ''us-central1'' ''my-network-router'',
      RoutersDeleteDo ''my-project'' ''us-central1'' ''my-network-router'',
      WaitForComputeOperation ''my-project'' (Operation ''delete''),
      RoutesListDo ''my-project'' ''description=k8s-node-route name=my-cluster-*'',
      RoutesDeleteDo ''my-project'' ''my-cluster-node1'',
      WaitForComputeOperation ''my-project'' (Operation ''delete''),
      SubnetworksDeleteDo ''my-project'' ''us-central1'' ''sub1'',
      WaitForComputeOperation ''my-project'' (Operation ''delete''),
      NetworksDeleteDo ''my-project'' ''my-network'',
      WaitForComputeOperation ''my-project'' (Operation ''delete'')]"
    by code_simp
  have h1: "\<not> IsSharedVpc (scope ?s)" by (simp add: exampleScope_def)
  have h2: "networks_Get ?s (networkKey (scope ?s)) (world ?st) = (Inr exampleNetwork, exampleWorld)"
    by (simp add: store_defs noFaults_def networkKey_def exampleScope_def exampleWorld_def startRun_def)
  have h3: "network.Description exampleNetwork = ClusterTagKey exampleApi (Scope.Name (scope ?s))"
    by (simp add: exampleApi_def exampleScope_def exampleNetwork_def)
  have h4: "fst (Delete exampleApi ?s ?st) = None" by code_simp
  have k2: "networks_Get_Do ?cs (Project (cscope ?cs)) (ClusterScope.NetworkName (cscope ?cs)) (world ?cst)
              = (Inr exampleNetwork, exampleGce)"
    by (simp add: store_defs noFaults_def exampleClusterScope_def exampleGce_def emptyGce_def startClusterRun_def)
  have k3: "network.Description exampleNetwork = ClusterTagKey exampleApi (ClusterScope.Name (cscope ?cs))"
    by (simp add: exampleApi_def exampleClusterScope_def exampleNetwork_def)
  have k4: "fst (DeleteNetwork exampleApi ?cs ?cst) = None" by code_simp
  note d = delete_order[where s = ?s and st = ?st and api = exampleApi and nw = exampleNetwork
         and ?w1.0 = exampleWorld and cst = ?cst and cs = ?cs and cnw = exampleNetwork and ?cw1.0 = exampleGce]
  from d have o1: "inOrder deleteStep ?new" by blast
  from d have o2: "inOrder deleteStepDo ?cnew" by (elim conjE)
  from d h1 h2 h3 h4 have s1: "(\<exists>rs w4.
         routes_List ?s nodeRoutes (world (afterSubnets exampleApi ?s exampleNetwork ?st)) = (Inr rs, w4) \<and>
         map fst ?new =
           NetworksGet (networkKey (scope ?s)) # RoutersGet (routerKey (scope ?s)) #
           (if ownsRouter exampleApi ?s exampleWorld then [RoutersDelete (routerKey (scope ?s))] else []) @
           map fst (issued (afterRouter exampleApi ?s ?st) (afterSubnets exampleApi ?s exampleNetwork ?st)) @
           RoutesList nodeRoutes #
           map (\<lambda>rt. RoutesDelete (GlobalKey (route.Name rt)))
             (filter (\<lambda>rt. HasSuffix (route.Network rt) (Scope.NetworkName (scope ?s))) rs) @
           [NetworksDelete (networkKey (scope ?s))]) \<and>
      (if AutoCreateSubnetworks exampleNetwork
       then afterSubnets exampleApi ?s exampleNetwork ?st = afterRouter exampleApi ?s ?st
       else subnetLog (SubnetworkSpec (scope ?s)) (issued (afterRouter exampleApi ?s ?st) (afterSubnets exampleApi ?s exampleNetwork ?st)))"
    by (elim conjE) (erule (1) mp[OF _ conjI[OF _ conjI[OF _ conjI]]])
  have s1': "\<exists>rs w4.
      routes_List ?s nodeRoutes (world (afterSubnets exampleApi ?s exampleNetwork ?st)) = (Inr rs, w4) \<and>
      map fst ?new =
        NetworksGet (networkKey exampleScope) # RoutersGet (routerKey exampleScope) #
        (if ownsRouter exampleApi ?s exampleWorld then [RoutersDelete (routerKey exampleScope)] else []) @
        map fst (issued (afterRouter exampleApi ?s ?st) (afterSubnets exampleApi ?s exampleNetwork ?st)) @
        RoutesList nodeRoutes #
        map (\<lambda>rt. RoutesDelete (GlobalKey (route.Name rt)))
          (filter (\<lambda>rt. HasSuffix (route.Network rt) (Scope.NetworkName exampleScope)) rs) @
        [NetworksDelete (networkKey exampleScope)]"
    using s1[THEN conjunct1] unfolding gcp_scope .
  have a: "\<not> AutoCreateSubnetworks exampleNetwork" by (simp add: exampleNetwork_def)
  have sp: "SubnetworkSpec (scope ?s) = [exampleSubnet]" by (simp add: exampleScope_def)
  have s1'': "subnetLog [exampleSubnet]
     (issued (afterRouter exampleApi ?s ?st) (afterSubnets exampleApi ?s exampleNetwork ?st))"
    using s1[THEN conjunct2] a unfolding sp by simp
  have e1: "Project (cscope ?cs) = ''my-project''"
    "ClusterScope.Region (cscope ?cs) = ''us-central1''"
    "ClusterScope.Name (cscope ?cs) = ''my-cluster''"
    "ClusterScope.NetworkName (cscope ?cs) = ''my-network''"
    by (simp_all add: exampleClusterScope_def)
  have e2: "''description='' @ k8sNodeRouteTag @ '' name='' @ ''my-cluster'' @ ''-*'' =
            ''description=k8s-node-route name=my-cluster-*''"
    by (simp add: k8sNodeRouteTag_def)
  have e3: "fst (routers_Get_Do ?cs ''my-project'' ''us-central1'' (getRouterName ''my-network'') exampleGce) = Inr exampleRouter"
    by (simp add: store_defs noFaults_def exampleGce_def emptyGce_def getRouterName_def)
  have e4: "router.Name exampleRouter = ''my-network-router''" "network.Name exampleNetwork = ''my-network''"
    "map (SubnetworksDeleteDo ''my-project'' ''us-central1'')
       (filter (\<lambda>n. n \<noteq> []) (map getSubnetNameFromUrl (Subnetworks exampleNetwork))) =
     [SubnetworksDeleteDo ''my-project'' ''us-central1'' ''sub1'']"
    by code_simp+
  note s2 = mp[OF d[THEN conjunct2, THEN conjunct2, THEN conjunct2, THEN conjunct2, THEN conjunct2]
               conjI[OF k2 conjI[OF k3 k4]]]
  have s2': "\<exists>rs w3.
      routes_List_Filter_Do ?cs ''my-project'' ''description=k8s-node-route name=my-cluster-*''
        (world (afterRouterDo ?cs ?cst)) = (Inr rs, w3) \<and>
      deleteCalls ?cnew =
        [RoutersDeleteDo ''my-project'' ''us-central1'' ''my-network-router''] @
        map (\<lambda>rt. RoutesDeleteDo ''my-project'' (route.Name rt))
          (filter (\<lambda>rt. HasSuffix (route.Network rt) ''my-network'') rs) @
        [SubnetworksDeleteDo ''my-project'' ''us-central1'' ''sub1'',
         NetworksDeleteDo ''my-project'' ''my-network'']"
    using s2 unfolding e1 e2 e3 e4 using a by (simp add: e4)
  let ?f = "gcpService exampleScope (failing (RoutesDelete (GlobalKey ''my-cluster-node1'')) (Failure ''forbidden''))"
  let ?cf = "gceService exampleClusterScope (failing (RoutesDeleteDo ''my-project'' ''my-cluster-node1'') (Failure ''forbidden''))"
  have f1: "fst (Delete exampleApi ?f ?st) = Some (Failure ''forbidden'')" by code_simp
  have f2: "fst (last (issued ?st (snd (Delete exampleApi ?f ?st)))) = RoutesDelete (GlobalKey ''my-cluster-node1'')"
    by code_simp
  have f3: "fst (Delete exampleApi ?f ?st) \<noteq> None" unfolding f1 by simp
  note f = mp[OF delete_order[where s = ?f and st = ?st and api = exampleApi, THEN conjunct2, THEN conjunct1] f3]
  have f4: "last (issued ?st (snd (Delete exampleApi ?f ?st))) =
              (RoutesDelete (GlobalKey ''my-cluster-node1''), Some (Failure ''forbidden''))"
    using f[THEN conjunct2] f2 unfolding f1 by (simp add: prod_eq_iff)
  have g1: "fst (DeleteNetwork exampleApi ?cf ?cst) = Some (Wrapf ''failed to delete route'' (Failure ''forbidden''))"
    by code_simp
  have g2: "fst (DeleteNetwork exampleApi ?cf ?cst) \<noteq> None" unfolding g1 by simp
  note g = mp[OF delete_order[where cs = ?cf and cst = ?cst and api = exampleApi,
                THEN conjunct2, THEN conjunct2, THEN conjunct2, THEN conjunct2, THEN conjunct1] g2]
  from o1 l1 s1' s1'' o2 l2 s2' f1 f4 g1 g[THEN conjunct1] g[THEN conjunct2] show ?thesis by (intro conjI)
qed

text \<open>
  C5, as the claim states it, fails: \<^verbatim>\<open>networks.Delete\<close> returns the failure of a
  delete call as it is, not wrapped.
\<close>
theorem delete_error_not_wrapped_counterexample:
  "fst (Delete exampleApi
          (gcpService exampleScope (failing (RoutesDelete (GlobalKey ''my-cluster-node1'')) (Failure ''forbidden'')))
          (startRun exampleWorld)) = Some (Failure ''forbidden'') \<and>
   last (calls (snd (Delete exampleApi
          (gcpService exampleScope (failing (RoutesDelete (GlobalKey ''my-cluster-node1'')) (Failure ''forbidden'')))
          (startRun exampleWorld)))) = (RoutesDelete (GlobalKey ''my-cluster-node1''), Some (Failure ''forbidden''))"
  by code_simp

text \<open>
  C5, amended. The delete of either package returns success, after the one \<^verbatim>\<open>Get\<close>,
  when the provider answers that the network is absent. In every run of
  \<^verbatim>\<open>networks.Delete\<close>:

  \<^item> a not-found answer to the router's \<^verbatim>\<open>Delete\<close>, and to the \<^verbatim>\<open>Get\<close> of the router
    or of a subnetwork, does not end the sequence: such an answer is never the last call
    of the run;
  \<^item> a failure other than not-found ends the sequence at the call that failed: every call
    before the last one succeeded or was answered not-found, and the error of the last call
    is the error returned;
  \<^item> an error that is returned is the error of the last call, as the provider gave it, not
    wrapped;
  \<^item> a run that returns nil on a network with the cluster's tag, shared VPC off, has gone
    through to the \<^verbatim>\<open>Delete\<close> of the network, its last call.
\<close>
theorem delete_error_discipline:
  "(\<not> IsSharedVpc (scope s) \<and> networks_Get s (networkKey (scope s)) (world st) = (Inl NotFound, w)
      \<longrightarrow> fst (Delete api s st) = None \<and>
          issued st (snd (Delete api s st)) = [(NetworksGet (networkKey (scope s)), Some NotFound)]) \<and>
   (issued st (snd (Delete api s st)) \<noteq> []
      \<longrightarrow> \<not> skipped (last (issued st (snd (Delete api s st))))) \<and>
   list_all (\<lambda>c. snd c = None \<or> (\<exists>e. snd c = Some e \<and> IsNotFound e))
     (butlast (issued st (snd (Delete api s st)))) \<and>
   (issued st (snd (Delete api s st)) \<noteq> [] \<and>
    snd (last (issued st (snd (Delete api s st)))) = Some e \<and> \<not> IsNotFound e
      \<longrightarrow> fst (Delete api s st) = Some e) \<and>
   (fst (Delete api s st) \<noteq> None
      \<longrightarrow> issued st (snd (Delete api s st)) \<noteq> [] \<and>
          snd (last (issued st (snd (Delete api s st)))) = fst (Delete api s st)) \<and>
   (\<not> IsSharedVpc (scope s) \<and>
    networks_Get s (networkKey (scope s)) (world st) = (Inr nw, w1) \<and>
    network.Description nw = ClusterTagKey api (Scope.Name (scope s)) \<and>
    fst (Delete api s st) = None
      \<longrightarrow> issued st (snd (Delete api s st)) \<noteq> [] \<and>
          fst (last (issued st (snd (Delete api s st)))) = NetworksDelete (networkKey (scope s))) \<and>
   (networks_Get_Do cs (Project (cscope cs)) (ClusterScope.NetworkName (cscope cs)) (world cst) = (Inl NotFound, w')
      \<longrightarrow> fst (DeleteNetwork api cs cst) = None \<and>
          issued cst (snd (DeleteNetwork api cs cst)) =
            [(NetworksGetDo (Project (cscope cs)) (ClusterScope.NetworkName (cscope cs)), Some NotFound)])"
proof (intro conjI impI)
  assume a: "\<not> IsSharedVpc (scope s) \<and> networks_Get s (networkKey (scope s)) (world st) = (Inl NotFound, w)"
  from Delete_not_owned[of s st "Inl NotFound" w api] a
  show "fst (Delete api s st) = None"
    and "issued st (snd (Delete api s st)) = [(NetworksGet (networkKey (scope s)), Some NotFound)]"
    by (simp_all add: IgnoreNotFound_def IsNotFound_def errOf_def)
next
  assume "issued st (snd (Delete api s st)) \<noteq> []"
  with Delete_last[of st api s nw w1] show "\<not> skipped (last (issued st (snd (Delete api s st))))"
    by blast
next
  show "list_all (\<lambda>c. snd c = None \<or> (\<exists>e. snd c = Some e \<and> IsNotFound e))
     (butlast (issued st (snd (Delete api s st))))"
    by (rule discipline_butlast[OF Delete_discipline])
next
  assume "issued st (snd (Delete api s st)) \<noteq> [] \<and>
    snd (last (issued st (snd (Delete api s st)))) = Some e \<and> \<not> IsNotFound e"
  then show "fst (Delete api s st) = Some e"
    using discipline_returned[OF Delete_discipline, of st api s e] by blast
next
  assume "fst (Delete api s st) \<noteq> None"
  then obtain x where x: "fst (Delete api s st) = Some x" by auto
  from Delete_discipline[of api s st]
  show "issued st (snd (Delete api s st)) \<noteq> []"
    and "snd (last (issued st (snd (Delete api s st)))) = fst (Delete api s st)"
    unfolding x by (simp_all add: discipline_def)
next
  assume a: "\<not> IsSharedVpc (scope s) \<and>
    networks_Get s (networkKey (scope s)) (world st) = (Inr nw, w1) \<and>
    network.Description nw = ClusterTagKey api (Scope.Name (scope s)) \<and>
    fst (Delete api s st) = None"
  with Delete_last[of st api s nw w1]
  show "issued st (snd (Delete api s st)) \<noteq> []"
    and "fst (last (issued st (snd (Delete api s st)))) = NetworksDelete (networkKey (scope s))"
    by blast+
next
  assume a: "networks_Get_Do cs (Project (cscope cs)) (ClusterScope.NetworkName (cscope cs)) (world cst) = (Inl NotFound, w')"
  from DeleteNetwork_not_owned[of cs cst "Inl NotFound" w' api] a
  show "fst (DeleteNetwork api cs cst) = None"
    and "issued cst (snd (DeleteNetwork api cs cst)) =
            [(NetworksGetDo (Project (cscope cs)) (ClusterScope.NetworkName (cscope cs)), Some NotFound)]"
    by (simp_all add: IsNotFound_def errOf_def)
qed

text \<open>
  Witness for C5: the empty providers; a run in which the router's \<^verbatim>\<open>Delete\<close> is answered
  not-found, which goes on to delete the network; a run in which the \<^verbatim>\<open>Delete\<close> of a
  route is refused, which returns the refusal; and a run in which the \<^verbatim>\<open>Get\<close> of the
  router fails, which returns that failure.
\<close>
theorem delete_error_discipline_witness:
  "fst (Delete exampleApi (gcpService exampleScope noFaults) (startRun emptyWorld)) = None \<and>
   issued (startRun emptyWorld) (snd (Delete exampleApi (gcpService exampleScope noFaults) (startRun emptyWorld)))
     = [(NetworksGet (GlobalKey ''my-network''), Some NotFound)] \<and>
   fst (DeleteNetwork exampleApi (gceService exampleClusterScope noFaults) (startClusterRun emptyGce)) = None \<and>
   issued (startClusterRun emptyGce)
     (snd (DeleteNetwork exampleApi (gceService exampleClusterScope noFaults) (startClusterRun emptyGce)))
     = [(NetworksGetDo ''my-project'' ''my-network'', Some NotFound)] \<and>
   list_ex (\<lambda>c. c = (RoutersDelete (RegionalKey ''my-network-router'' ''us-central1''), Some NotFound))
     (issued (startRun exampleWorld)
        (snd (Delete exampleApi
               (gcpService exampleScope (failing (RoutersDelete (RegionalKey ''my-network-router'' ''us-central1'')) NotFound))
               (startRun exampleWorld)))) \<and>
   fst (Delete exampleApi
          (gcpService exampleScope (failing (RoutersDelete (RegionalKey ''my-network-router'' ''us-central1'')) NotFound))
          (startRun exampleWorld)) = None \<and>
   fst (last (issued (startRun exampleWorld)
        (snd (Delete exampleApi
               (gcpService exampleScope (failing (RoutersDelete (RegionalKey ''my-network-router'' ''us-central1'')) NotFound))
               (startRun exampleWorld))))) = NetworksDelete (GlobalKey ''my-network'') \<and>
   \<not> skipped (last (issued (startRun exampleWorld)
        (snd (Delete exampleApi
               (gcpService exampleScope (failing (RoutersDelete (RegionalKey ''my-network-router'' ''us-central1'')) NotFound))
               (startRun exampleWorld))))) \<and>
   snd (last (issued (startRun exampleWorld)
        (snd (Delete exampleApi
               (gcpService exampleScope (failing (RoutesDelete (GlobalKey ''my-cluster-node1'')) (Failure ''forbidden'')))
               (startRun exampleWorld))))) = Some (Failure ''forbidden'') \<and>
   fst (Delete exampleApi
          (gcpService exampleScope (failing (RoutesDelete (GlobalKey ''my-cluster-node1'')) (Failure ''forbidden'')))
          (startRun exampleWorld)) = Some (Failure ''forbidden'') \<and>
   snd (last (issued (startRun exampleWorld)
        (snd (Delete exampleApi
               (gcpService exampleScope (failing (RoutersGet (RegionalKey ''my-network-router'' ''us-central1'')) (Failure ''unavailable'')))
               (startRun exampleWorld))))) =
     fst (Delete exampleApi
            (gcpService exampleScope (failing (RoutersGet (RegionalKey ''my-network-router'' ''us-central1'')) (Failure ''unavailable'')))
            (startRun exampleWorld)) \<and>
   fst (Delete exampleApi
          (gcpService exampleScope (failing (RoutersGet (RegionalKey ''my-network-router'' ''us-central1'')) (Failure ''unavailable'')))
          (startRun exampleWorld)) = Some (Failure ''unavailable'')"
proof -
  let ?s = "gcpService exampleScope noFaults"
  let ?b = "gcpService exampleScope (failing (RoutersDelete (RegionalKey ''my-network-router'' ''us-central1'')) NotFound)"
  let ?c = "gcpService exampleScope (failing (RoutesDelete (GlobalKey ''my-cluster-node1'')) (Failure ''forbidden''))"
  let ?cs = "gceService exampleClusterScope noFaults"
  let ?e = "startRun emptyWorld :: gcp nrun"
  let ?st = "startRun exampleWorld :: gcp nrun"
  let ?ce = "startClusterRun emptyGce :: gce crun"
  have k: "networkKey exampleScope = GlobalKey ''my-network''" by (simp add: networkKey_def exampleScope_def)
  have p: "Project (cscope ?cs) = ''my-project''" "ClusterScope.NetworkName (cscope ?cs) = ''my-network''"
    by (simp_all add: exampleClusterScope_def)
  have h1: "\<not> IsSharedVpc (scope ?s) \<and>
            networks_Get ?s (networkKey (scope ?s)) (world ?e) = (Inl NotFound, emptyWorld)"
    by (simp add: store_defs noFaults_def networkKey_def example_defs)
  have h2: "networks_Get_Do ?cs (Project (cscope ?cs)) (ClusterScope.NetworkName (cscope ?cs)) (world ?ce)
              = (Inl NotFound, emptyGce)"
    by (simp add: store_defs noFaults_def example_defs)
  note a = delete_error_discipline[where s = ?s and st = ?e and w = emptyWorld and api = exampleApi
         and cs = ?cs and cst = ?ce and w' = emptyGce]
  from mp[OF a[THEN conjunct1] h1]
  have a1: "fst (Delete exampleApi ?s ?e) = None \<and>
            issued ?e (snd (Delete exampleApi ?s ?e)) = [(NetworksGet (GlobalKey ''my-network''), Some NotFound)]"
    unfolding gcp_scope k .
  from mp[OF a[THEN conjunct2, THEN conjunct2, THEN conjunct2, THEN conjunct2, THEN conjunct2, THEN conjunct2] h2]
  have a2: "fst (DeleteNetwork exampleApi ?cs ?ce) = None \<and>
            issued ?ce (snd (DeleteNetwork exampleApi ?cs ?ce)) = [(NetworksGetDo ''my-project'' ''my-network'', Some NotFound)]"
    unfolding p .
  have b0: "list_ex (\<lambda>c. c = (RoutersDelete (RegionalKey ''my-network-router'' ''us-central1''), Some NotFound))
     (issued ?st (snd (Delete exampleApi ?b ?st)))"
    by code_simp
  have b1: "fst (Delete exampleApi ?b ?st) = None" by code_simp
  have b2: "\<not> IsSharedVpc (scope ?b)" by (simp add: exampleScope_def)
  have b3: "networks_Get ?b (networkKey (scope ?b)) (world ?st) = (Inr exampleNetwork, exampleWorld)"
    by (simp add: store_defs failing_def networkKey_def exampleScope_def exampleWorld_def startRun_def)
  have b4: "network.Description exampleNetwork = ClusterTagKey exampleApi (Scope.Name (scope ?b))"
    by (simp add: exampleApi_def exampleScope_def exampleNetwork_def)
  note b = delete_error_discipline[where s = ?b and st = ?st and api = exampleApi and nw = exampleNetwork
         and ?w1.0 = exampleWorld]
  from mp[OF b[THEN conjunct2, THEN conjunct2, THEN conjunct2, THEN conjunct2, THEN conjunct2, THEN conjunct1]
          conjI[OF b2 conjI[OF b3 conjI[OF b4 b1]]]]
  have b5: "fst (last (issued ?st (snd (Delete exampleApi ?b ?st)))) = NetworksDelete (GlobalKey ''my-network'')"
    unfolding gcp_scope k by (rule conjunct2)
  have c1: "issued ?st (snd (Delete exampleApi ?c ?st)) \<noteq> []" by code_simp
  have c2: "snd (last (issued ?st (snd (Delete exampleApi ?c ?st)))) = Some (Failure ''forbidden'')" by code_simp
  have c3: "\<not> IsNotFound (Failure ''forbidden'')" by (simp add: IsNotFound_def)
  note c = delete_error_discipline[where s = ?c and st = ?st and api = exampleApi and e = "Failure ''forbidden''"]
  from mp[OF c[THEN conjunct2, THEN conjunct2, THEN conjunct2, THEN conjunct1] conjI[OF c1 conjI[OF c2 c3]]]
  have c4: "fst (Delete exampleApi ?c ?st) = Some (Failure ''forbidden'')" .
  have b6: "issued ?st (snd (Delete exampleApi ?b ?st)) \<noteq> []" by code_simp
  from mp[OF b[THEN conjunct2, THEN conjunct1] b6]
  have b7: "\<not> skipped (last (issued ?st (snd (Delete exampleApi ?b ?st))))" .
  let ?d = "gcpService exampleScope (failing (RoutersGet (RegionalKey ''my-network-router'' ''us-central1'')) (Failure ''unavailable''))"
  have d1: "fst (Delete exampleApi ?d ?st) = Some (Failure ''unavailable'')" by code_simp
  have d2: "fst (Delete exampleApi ?d ?st) \<noteq> None" unfolding d1 by simp
  note d = delete_error_discipline[where s = ?d and st = ?st and api = exampleApi]
  from mp[OF d[THEN conjunct2, THEN conjunct2, THEN conjunct2, THEN conjunct2, THEN conjunct1] d2]
  have d3: "snd (last (issued ?st (snd (Delete exampleApi ?d ?st)))) = fst (Delete exampleApi ?d ?st)"
    by (rule conjunct2)
  from a1 a2 b0 b1 b5 b7 c2 c4 d3 d1 show ?thesis by (intro conjI) (erule conjunct1 conjunct2 | assumption)+
qed

text \<open>
  C1, as the claim states it, fails: \<^verbatim>\<open>DeleteNetwork\<close> of package compute deletes the
  router it finds under the derived name although the router's own description is not the
  cluster's tag.
\<close>
theorem foreign_router_deleted_counterexample:
  "map_option router.Description
     (gce_routers foreignRouterGce (''my-project'', ''us-central1'', ''my-network-router'')) = Some ''someone-else'' \<and>
   ClusterTagKey exampleApi (ClusterScope.Name exampleClusterScope) = ''capg-cluster-my-cluster'' \<and>
   list_ex (\<lambda>c. c = (RoutersDeleteDo ''my-project'' ''us-central1'' ''my-network-router'', None))
     (issued (startClusterRun foreignRouterGce)
        (snd (DeleteNetwork exampleApi (gceService exampleClusterScope noFaults) (startClusterRun foreignRouterGce)))) \<and>
   gce_routers
     (world (snd (DeleteNetwork exampleApi (gceService exampleClusterScope noFaults) (startClusterRun foreignRouterGce))))
     (''my-project'', ''us-central1'', ''my-network-router'') = None"
  by code_simp

text \<open>
  C1, amended. Every state-changing operation the claim lists is behind a comparison of an
  ownership tag with the tag derived from the cluster's name, made on what the provider
  answered before the operation; the tag compared is the one of the network, except for
  the router in \<^verbatim>\<open>networks.Delete\<close> and for the rules of the sweep:
  \<^item> \<^verbatim>\<open>networks.Delete\<close> issues a mutating call (the delete of the router, of a
    subnetwork, of a route or of the network) only when shared-VPC mode is off and the
    network it fetched first has the cluster's tag as description, and it deletes the
    router only when the router it fetched has the cluster's tag as its own description;
  \<^item> \<^verbatim>\<open>networks.Reconcile\<close> calls the router client and records a router only when the
    network has the cluster's tag;
  \<^item> \<^verbatim>\<open>compute.DeleteNetwork\<close>, \<^verbatim>\<open>ReconcileBastion\<close> and \<^verbatim>\<open>DeleteBastion\<close> issue a
    mutating call (and \<^verbatim>\<open>ReconcileBastion\<close> changes the status) only when the network
    they fetched first has the cluster's tag; the description of the router is not read;
  \<^item> \<^verbatim>\<open>compute.ReconcileNetwork\<close> calls the router client and records a router only when
    the network was absent and this call inserted it, with the cluster's tag as description;
  \<^item> the sweep of \<^verbatim>\<open>DeleteFirewalls\<close>, with any parser, deletes only listed rules whose
    target tags contain the cluster's name.
\<close>
theorem ownership_guard:
  "(networks_Get s (networkKey (scope s)) (world st) = (g, w1) \<and>
    list_ex (\<lambda>c. mutating (fst c)) (issued st (snd (Delete api s st)))
      \<longrightarrow> \<not> IsSharedVpc (scope s) \<and>
          (\<exists>nw. g = Inr nw \<and> network.Description nw = ClusterTagKey api (Scope.Name (scope s)))) \<and>
   (networks_Get s (networkKey (scope s)) (world st) = (g, w1) \<and>
    list_ex (\<lambda>c. routerDelete (fst c)) (issued st (snd (Delete api s st)))
      \<longrightarrow> (\<exists>rt w. routers_Get s (routerKey (scope s)) w1 = (Inr rt, w) \<and>
                  router.Description rt = ClusterTagKey api (Scope.Name (scope s)))) \<and>
   (list_ex (\<lambda>c. routerCall (fst c)) (issued rst (snd (Reconcile api s rst))) \<or>
    Router (status (snd (Reconcile api s rst))) \<noteq> Router (status rst)
      \<longrightarrow> (\<exists>nw st1. createOrGetNetwork s rst = (Inr nw, st1) \<and>
                    network.Description nw = ClusterTagKey api (Scope.Name (scope s)))) \<and>
   (networks_Get_Do cs (Project (cscope cs)) (ClusterScope.NetworkName (cscope cs)) (world cst) = (cg, cw) \<and>
    list_ex (\<lambda>c. mutatingDo (fst c)) (issued cst (snd (DeleteNetwork api cs cst)))
      \<longrightarrow> (\<exists>nw. cg = Inr nw \<and> network.Description nw = ClusterTagKey api (ClusterScope.Name (cscope cs)))) \<and>
   (networks_Get_Do cs (Project (cscope cs)) (ClusterScope.NetworkName (cscope cs)) (world bst) = (bg, bw) \<and>
    (list_ex (\<lambda>c. mutatingDo (fst c)) (issued bst (snd (ReconcileBastion api cs bst))) \<or>
     status (snd (ReconcileBastion api cs bst)) \<noteq> status bst)
      \<longrightarrow> (\<exists>nw. bg = Inr nw \<and> network.Description nw = ClusterTagKey api (ClusterScope.Name (cscope cs)))) \<and>
   (networks_Get_Do cs (Project (cscope cs)) (ClusterScope.NetworkName (cscope cs)) (world dst) = (dg, dw) \<and>
    list_ex (\<lambda>c. mutatingDo (fst c)) (issued dst (snd (DeleteBastion api cs dst)))
      \<longrightarrow> (\<exists>nw. dg = Inr nw \<and> network.Description nw = ClusterTagKey api (ClusterScope.Name (cscope cs)))) \<and>
   (list_ex (\<lambda>c. routerCallDo (fst c)) (issued nst (snd (ReconcileNetwork api cs nst))) \<or>
    Router (Status_Network (status (snd (ReconcileNetwork api cs nst)))) \<noteq> Router (Status_Network (status nst))
      \<longrightarrow> (\<exists>e w. networks_Get_Do cs (Project (cscope cs)) (ClusterScope.NetworkName (cscope cs)) (world nst) = (Inl e, w) \<and>
                 IsNotFound e) \<and>
          list_ex (\<lambda>c. fst c = NetworksInsertDo (Project (cscope cs)) (getNetworkSpec api cs (status nst)) \<and> snd c = None)
            (issued nst (snd (ReconcileNetwork api cs nst))) \<and>
          network.Description (getNetworkSpec api cs (status nst)) = ClusterTagKey api (ClusterScope.Name (cscope cs))) \<and>
   list_all (\<lambda>c. sweepCall (taggedRule cs) (Project (cscope cs)) fws (fst c))
     (issued fst0 (snd (sweepFirewalls parseURL cs fws fst0)))"
proof (intro conjI impI)
  assume a: "networks_Get s (networkKey (scope s)) (world st) = (g, w1) \<and>
    list_ex (\<lambda>c. mutating (fst c)) (issued st (snd (Delete api s st)))"
  from Delete_order_guard[of s st g w1 api] a
  show "\<not> IsSharedVpc (scope s)"
    and "\<exists>nw. g = Inr nw \<and> network.Description nw = ClusterTagKey api (Scope.Name (scope s))"
    by blast+
next
  assume a: "networks_Get s (networkKey (scope s)) (world st) = (g, w1) \<and>
    list_ex (\<lambda>c. routerDelete (fst c)) (issued st (snd (Delete api s st)))"
  from Delete_order_guard[of s st g w1 api] a have "ownsRouter api s w1" by blast
  then show "\<exists>rt w. routers_Get s (routerKey (scope s)) w1 = (Inr rt, w) \<and>
                  router.Description rt = ClusterTagKey api (Scope.Name (scope s))"
    by (cases "routers_Get s (routerKey (scope s)) w1") (auto simp: ownsRouter_def split: sum.splits)
next
  assume "list_ex (\<lambda>c. routerCall (fst c)) (issued rst (snd (Reconcile api s rst))) \<or>
    Router (status (snd (Reconcile api s rst))) \<noteq> Router (status rst)"
  then show "\<exists>nw st1. createOrGetNetwork s rst = (Inr nw, st1) \<and>
                    network.Description nw = ClusterTagKey api (Scope.Name (scope s))"
    by (rule Reconcile_router_guard)
next
  assume "networks_Get_Do cs (Project (cscope cs)) (ClusterScope.NetworkName (cscope cs)) (world cst) = (cg, cw) \<and>
    list_ex (\<lambda>c. mutatingDo (fst c)) (issued cst (snd (DeleteNetwork api cs cst)))"
  then show "\<exists>nw. cg = Inr nw \<and> network.Description nw = ClusterTagKey api (ClusterScope.Name (cscope cs))"
    using DeleteNetwork_guard[of cs cst cg cw api] by blast
next
  assume "networks_Get_Do cs (Project (cscope cs)) (ClusterScope.NetworkName (cscope cs)) (world bst) = (bg, bw) \<and>
    (list_ex (\<lambda>c. mutatingDo (fst c)) (issued bst (snd (ReconcileBastion api cs bst))) \<or>
     status (snd (ReconcileBastion api cs bst)) \<noteq> status bst)"
  then show "\<exists>nw. bg = Inr nw \<and> network.Description nw = ClusterTagKey api (ClusterScope.Name (cscope cs))"
    using ReconcileBastion_guard[of cs bst bg bw api] by blast
next
  assume "networks_Get_Do cs (Project (cscope cs)) (ClusterScope.NetworkName (cscope cs)) (world dst) = (dg, dw) \<and>
    list_ex (\<lambda>c. mutatingDo (fst c)) (issued dst (snd (DeleteBastion api cs dst)))"
  then show "\<exists>nw. dg = Inr nw \<and> network.Description nw = ClusterTagKey api (ClusterScope.Name (cscope cs))"
    using DeleteBastion_guard[of cs dst dg dw api] by blast
next
  assume a: "list_ex (\<lambda>c. routerCallDo (fst c)) (issued nst (snd (ReconcileNetwork api cs nst))) \<or>
    Router (Status_Network (status (snd (ReconcileNetwork api cs nst)))) \<noteq> Router (Status_Network (status nst))"
  from ReconcileNetwork_router_guard[OF a]
  show "\<exists>e w. networks_Get_Do cs (Project (cscope cs)) (ClusterScope.NetworkName (cscope cs)) (world nst) = (Inl e, w) \<and>
                 IsNotFound e"
    and "list_ex (\<lambda>c. fst c = NetworksInsertDo (Project (cscope cs)) (getNetworkSpec api cs (status nst)) \<and> snd c = None)
            (issued nst (snd (ReconcileNetwork api cs nst)))"
    by blast+
  show "network.Description (getNetworkSpec api cs (status nst)) = ClusterTagKey api (ClusterScope.Name (cscope cs))"
    by (simp add: getNetworkSpec_tag)
next
  show "list_all (\<lambda>c. sweepCall (taggedRule cs) (Project (cscope cs)) fws (fst c))
     (issued fst0 (snd (sweepFirewalls parseURL cs fws fst0)))"
    by (rule sweepFirewalls_tagged)
qed

text \<open>
  Witness for C1: the example providers hold the cluster's own network and router, and the
  teardown, the router adoption, the bastion creation and deletion and the router step of
  \<^verbatim>\<open>ReconcileNetwork\<close> all take place there.
\<close>
theorem ownership_guard_witness:
  "\<not> IsSharedVpc (scope (gcpService exampleScope noFaults)) \<and>
   (\<exists>nw. fst (networks_Get (gcpService exampleScope noFaults) (networkKey (scope (gcpService exampleScope noFaults)))
              (world (startRun exampleWorld :: gcp nrun))) = Inr nw \<and>
         network.Description nw = ClusterTagKey exampleApi (Scope.Name (scope (gcpService exampleScope noFaults)))) \<and>
   (\<exists>rt w. routers_Get (gcpService exampleScope noFaults) (routerKey (scope (gcpService exampleScope noFaults)))
              (snd (networks_Get (gcpService exampleScope noFaults) (networkKey (scope (gcpService exampleScope noFaults)))
                 (world (startRun exampleWorld :: gcp nrun)))) = (Inr rt, w) \<and>
           router.Description rt = ClusterTagKey exampleApi (Scope.Name (scope (gcpService exampleScope noFaults)))) \<and>
   (\<exists>nw st1. createOrGetNetwork (gcpService exampleScope noFaults) (startRun exampleWorld) = (Inr nw, st1) \<and>
         network.Description nw = ClusterTagKey exampleApi (Scope.Name (scope (gcpService exampleScope noFaults)))) \<and>
   (\<exists>nw. fst (networks_Get_Do (gceService exampleClusterScope noFaults) (Project (cscope (gceService exampleClusterScope noFaults)))
              (ClusterScope.NetworkName (cscope (gceService exampleClusterScope noFaults)))
              (world (startClusterRun exampleGce :: gce crun))) = Inr nw \<and>
         network.Description nw =
           ClusterTagKey exampleApi (ClusterScope.Name (cscope (gceService exampleClusterScope noFaults)))) \<and>
   (\<exists>nw. fst (networks_Get_Do (gceService exampleClusterScope noFaults) (Project (cscope (gceService exampleClusterScope noFaults)))
              (ClusterScope.NetworkName (cscope (gceService exampleClusterScope noFaults)))
              (world (startClusterRun bastionGce :: gce crun))) = Inr nw \<and>
         network.Description nw =
           ClusterTagKey exampleApi (ClusterScope.Name (cscope (gceService exampleClusterScope noFaults)))) \<and>
   (\<exists>e w. networks_Get_Do (gceService exampleClusterScope noFaults) (Project (cscope (gceService exampleClusterScope noFaults)))
              (ClusterScope.NetworkName (cscope (gceService exampleClusterScope noFaults)))
              (world (startClusterRun emptyGce :: gce crun)) = (Inl e, w) \<and> IsNotFound e) \<and>
   list_ex (\<lambda>c. fst c = NetworksInsertDo (Project (cscope (gceService exampleClusterScope noFaults)))
                          (getNetworkSpec exampleApi (gceService exampleClusterScope noFaults)
                             (status (startClusterRun emptyGce :: gce crun))) \<and> snd c = None)
     (issued (startClusterRun emptyGce)
        (snd (ReconcileNetwork exampleApi (gceService exampleClusterScope noFaults) (startClusterRun emptyGce))))"
proof -
  let ?s = "gcpService exampleScope noFaults"
  let ?cs = "gceService exampleClusterScope noFaults"
  let ?st = "startRun exampleWorld :: gcp nrun"
  let ?G = "networks_Get ?s (networkKey (scope ?s)) (world ?st)"
  let ?cst = "startClusterRun exampleGce :: gce crun"
  let ?dst = "startClusterRun bastionGce :: gce crun"
  let ?nst = "startClusterRun emptyGce :: gce crun"
  let ?C = "networks_Get_Do ?cs (Project (cscope ?cs)) (ClusterScope.NetworkName (cscope ?cs)) (world ?cst)"
  let ?D = "networks_Get_Do ?cs (Project (cscope ?cs)) (ClusterScope.NetworkName (cscope ?cs)) (world ?dst)"
  note t = ownership_guard[where s = ?s and st = ?st and g = "fst ?G" and ?w1.0 = "snd ?G" and api = exampleApi
             and rst = ?st and cs = ?cs and cst = ?cst and cg = "fst ?C" and cw = "snd ?C"
             and bst = ?cst and bg = "fst ?C" and bw = "snd ?C"
             and dst = ?dst and dg = "fst ?D" and dw = "snd ?D" and nst = ?nst
             and parseURL = "url_Parse noAuthority" and fws = "[clusterRule, unrelatedRule, urlRule, untaggedRule]"
             and ?fst0.0 = "startClusterRun sweepGce"]
  have m1: "list_ex (\<lambda>c. mutating (fst c)) (issued ?st (snd (Delete exampleApi ?s ?st)))" by code_simp
  have m2: "list_ex (\<lambda>c. routerDelete (fst c)) (issued ?st (snd (Delete exampleApi ?s ?st)))"
    by code_simp
  have m3: "list_ex (\<lambda>c. routerCall (fst c)) (issued ?st (snd (Reconcile exampleApi ?s ?st)))" by code_simp
  have m4: "list_ex (\<lambda>c. mutatingDo (fst c)) (issued ?cst (snd (DeleteNetwork exampleApi ?cs ?cst)))" by code_simp
  have m5: "list_ex (\<lambda>c. mutatingDo (fst c)) (issued ?cst (snd (ReconcileBastion exampleApi ?cs ?cst)))" by code_simp
  have m6: "list_ex (\<lambda>c. mutatingDo (fst c)) (issued ?dst (snd (DeleteBastion exampleApi ?cs ?dst)))" by code_simp
  have m7: "list_ex (\<lambda>c. routerCallDo (fst c)) (issued ?nst (snd (ReconcileNetwork exampleApi ?cs ?nst)))" by code_simp
  have p: "?G = (fst ?G, snd ?G)" "?C = (fst ?C, snd ?C)" "?D = (fst ?D, snd ?D)" by simp_all
  from t[THEN conjunct1] p(1) m1 have c1: "\<not> IsSharedVpc (scope ?s) \<and>
          (\<exists>nw. fst ?G = Inr nw \<and> network.Description nw = ClusterTagKey exampleApi (Scope.Name (scope ?s)))"
    by blast
  from t[THEN conjunct2, THEN conjunct1] p(1) m2
  have c2: "\<exists>rt w. routers_Get ?s (routerKey (scope ?s)) (snd ?G) = (Inr rt, w) \<and>
                  router.Description rt = ClusterTagKey exampleApi (Scope.Name (scope ?s))"
    by blast
  from t[THEN conjunct2, THEN conjunct2, THEN conjunct1] m3
  have c3: "\<exists>nw st1. createOrGetNetwork ?s ?st = (Inr nw, st1) \<and>
                    network.Description nw = ClusterTagKey exampleApi (Scope.Name (scope ?s))"
    by blast
  from t[THEN conjunct2, THEN conjunct2, THEN conjunct2, THEN conjunct1] p(2) m4
  have c4: "\<exists>nw. fst ?C = Inr nw \<and> network.Description nw = ClusterTagKey exampleApi (ClusterScope.Name (cscope ?cs))"
    by blast
  from t[THEN conjunct2, THEN conjunct2, THEN conjunct2, THEN conjunct2, THEN conjunct1] p(2) m5
  have c5: "\<exists>nw. fst ?C = Inr nw \<and> network.Description nw = ClusterTagKey exampleApi (ClusterScope.Name (cscope ?cs))"
    by blast
  from t[THEN conjunct2, THEN conjunct2, THEN conjunct2, THEN conjunct2, THEN conjunct2, THEN conjunct1] p(3) m6
  have c6: "\<exists>nw. fst ?D = Inr nw \<and> network.Description nw = ClusterTagKey exampleApi (ClusterScope.Name (cscope ?cs))"
    by blast
  from t[THEN conjunct2, THEN conjunct2, THEN conjunct2, THEN conjunct2, THEN conjunct2, THEN conjunct2, THEN conjunct1] m7
  have c7: "(\<exists>e w. networks_Get_Do ?cs (Project (cscope ?cs)) (ClusterScope.NetworkName (cscope ?cs)) (world ?nst) = (Inl e, w) \<and>
                 IsNotFound e) \<and>
          list_ex (\<lambda>c. fst c = NetworksInsertDo (Project (cscope ?cs)) (getNetworkSpec exampleApi ?cs (status ?nst)) \<and> snd c = None)
            (issued ?nst (snd (ReconcileNetwork exampleApi ?cs ?nst)))"
    by blast
  from c1 c2 c3 c4 c6 c7 show ?thesis by blast
qed

end
